(* ===== verification/Prelude.thy ===== *)
theory Prelude
  imports Complex_Main "HOL-Library.Word"
begin

unbundle bit_operations_syntax

text \<open>
  Shared vocabulary of the development. JavaScript numbers are modelled as exact reals
  (\<open>number\<close>); the helpers below give the few JavaScript number operations the
  sources use their exact meaning: \<open>Math.round\<close> (\<open>js_round\<close>), \<open>Number.isInteger\<close>
  (\<open>is_int\<close>), the 32-bit bitwise \<open>&\<close> with its ToInt32 conversion (\<open>js_and\<close>, on
  \<open>32 word\<close>), and an array read that yields \<open>undefined\<close> out of range
  (\<open>js_index\<close>, \<open>None\<close> for \<open>undefined\<close>). A thrown \<open>Error\<close> is a value of
  \<open>js_error\<close>, and a computation that may throw returns \<open>'a result\<close>.
  The \<open>point\<close> record models \<open>Point\<close> of \<open>point.ts\<close>, which the repository imports
  but does not contain: a pair of numbers \<open>x\<close>, \<open>y\<close> built by \<open>new Point(x, y)\<close>.
\<close>

named_theorems js_simps "evaluation rules of the JavaScript number helpers"

type_synonym number = real

datatype js_error =
    InvalidCoordinate  \<comment> \<open>\<open>Error("q + r + s must be 0")\<close>\<close>
  | InvalidParity      \<comment> \<open>\<open>Error("offset must be EVEN (+1) or ODD (-1)")\<close>\<close>
  | IndexOutOfRange    \<comment> \<open>\<open>Error("direction must be ...")\<close>, \<open>Error("corner must be ...")\<close>\<close>
  | TypeError          \<comment> \<open>a property read on \<open>undefined\<close>\<close>

type_synonym 'a result = "js_error + 'a"

definition rbind :: "'a result \<Rightarrow> ('a \<Rightarrow> 'b result) \<Rightarrow> 'b result" where
  "rbind m f = (case m of Inl e \<Rightarrow> Inl e | Inr a \<Rightarrow> f a)"

definition is_int :: "number \<Rightarrow> bool" where
  "is_int x \<longleftrightarrow> x = of_int \<lfloor>x\<rfloor>"

definition js_trunc :: "number \<Rightarrow> int" where
  "js_trunc x = (if 0 \<le> x then \<lfloor>x\<rfloor> else \<lceil>x\<rceil>)"

definition js_and :: "number \<Rightarrow> number \<Rightarrow> number" where
  "js_and x y = of_int (sint (word_of_int (js_trunc x) AND word_of_int (js_trunc y) :: 32 word))"

definition js_round :: "number \<Rightarrow> number" where
  "js_round x = of_int \<lfloor>x + 1 / 2\<rfloor>"

definition js_index :: "'a list \<Rightarrow> number \<Rightarrow> 'a option" where
  "js_index xs i =
     (if is_int i \<and> 0 \<le> i \<and> nat \<lfloor>i\<rfloor> < length xs then Some (xs ! nat \<lfloor>i\<rfloor>) else None)"

record point =
  px :: number
  py :: number

subsection \<open>The result monad\<close>

lemma rbind_Inl [simp]: "rbind (Inl e) f = Inl e"
  by (simp add: rbind_def)

lemma rbind_Inr [simp]: "rbind (Inr a) f = f a"
  by (simp add: rbind_def)

lemma rbind_eq_Inr: "rbind m f = Inr b \<longleftrightarrow> (\<exists>a. m = Inr a \<and> f a = Inr b)"
  by (cases m) (simp_all add: rbind_def)

subsection \<open>Integers among the numbers\<close>

lemma is_int_of_int [simp, js_simps]: "is_int (of_int n)"
  by (simp add: is_int_def)

lemma is_int_of_nat [simp, js_simps]: "is_int (of_nat n)"
  using is_int_of_int [of "int n"] by simp

lemma is_int_numeral [simp, js_simps]:
  "is_int (numeral n)" "is_int (- numeral n)" "is_int 0" "is_int 1" "is_int (- 1)"
  using is_int_of_int [of "numeral n"] is_int_of_int [of "- numeral n"]
    is_int_of_int [of 0] is_int_of_int [of 1] is_int_of_int [of "- 1"] by simp_all

lemma is_int_iff: "is_int x \<longleftrightarrow> x \<in> \<int>"
  unfolding is_int_def by (metis Ints_cases Ints_of_int floor_of_int)

lemma is_int_add [intro]: "is_int x \<Longrightarrow> is_int y \<Longrightarrow> is_int (x + y)"
  by (simp add: is_int_iff)

lemma is_int_diff [intro]: "is_int x \<Longrightarrow> is_int y \<Longrightarrow> is_int (x - y)"
  by (simp add: is_int_iff)

lemma is_int_minus [intro]: "is_int x \<Longrightarrow> is_int (- x)"
  by (simp add: is_int_iff)

lemma is_int_mult [intro]: "is_int x \<Longrightarrow> is_int y \<Longrightarrow> is_int (x * y)"
  by (simp add: is_int_iff)

lemma is_intE: assumes "is_int x" obtains n where "x = of_int n"
  using assms by (auto simp add: is_int_def)

subsection \<open>Truncation and the 32-bit and\<close>

lemma js_trunc_of_int [simp, js_simps]: "js_trunc (of_int n) = n"
  by (simp add: js_trunc_def)

lemma js_trunc_numeral [simp, js_simps]:
  "js_trunc (numeral n) = numeral n" "js_trunc (- numeral n) = - numeral n"
  "js_trunc 0 = 0" "js_trunc 1 = 1" "js_trunc (- 1) = - 1"
  by (simp_all add: js_trunc_def ceiling_minus)

lemma sint_and_small_mask:
  assumes "0 \<le> m" "m < 2 ^ 31"
  shows "sint (word_of_int n AND word_of_int m :: 32 word) = n AND m"
proof -
  have w: "(word_of_int n AND word_of_int m :: 32 word) = word_of_int (n AND m)"
    by (simp add: word_wi_log_defs)
  have lo: "0 \<le> n AND m" using assms(1) by simp
  have hi: "n AND m < 2 ^ 31" using assms by (rule AND_upper2'')
  have lo': "- (2 ^ 31) \<le> n AND m" by (rule order_trans [OF _ lo]) simp
  have "signed_take_bit 31 (n AND m) = n AND m"
    by (rule signed_take_bit_int_eq_self [OF lo' hi])
  then show ?thesis by (simp add: w signed_of_int)
qed

text \<open>
  \<open>x & 1\<close> and \<open>x & 255\<close> on an integer are its residues modulo 2 and 256, for every
  integer, negative ones and ones beyond the 32-bit range included: ToInt32 keeps the
  low bits.
\<close>

lemma js_and_one [simp, js_simps]: "js_and (of_int n) 1 = of_int (n mod 2)"
proof -
  have "sint (word_of_int n AND word_of_int 1 :: 32 word) = n AND 1"
    by (rule sint_and_small_mask) simp_all
  then show ?thesis by (simp add: js_and_def and_one_eq)
qed

lemma int_and_255: "(n::int) AND 255 = n mod 256"
  using take_bit_eq_mask [of 8 n] by (simp add: take_bit_eq_mod mask_eq_exp_minus_1)

lemma js_and_255 [simp, js_simps]: "js_and (of_int n) 255 = of_int (n mod 256)"
proof -
  have "sint (word_of_int n AND word_of_int 255 :: 32 word) = n AND 255"
    by (rule sint_and_small_mask) simp_all
  then show ?thesis by (simp add: js_and_def int_and_255)
qed

lemma int_and_two: "(n::int) AND 2 = (n mod 4) AND 2"
proof -
  have "n AND 2 = take_bit 2 (n AND 2)"
    by (rule take_bit_int_eq_self [symmetric]) (simp_all add: AND_upper2'')
  also have "\<dots> = (n mod 4) AND 2"
    unfolding take_bit_and by (simp add: take_bit_eq_mod)
  finally show ?thesis .
qed

lemma js_and_two: "js_and (of_int n) 2 = of_int ((n mod 4) AND 2)"
proof -
  have "sint (word_of_int n AND word_of_int 2 :: 32 word) = n AND 2"
    by (rule sint_and_small_mask) simp_all
  then show ?thesis by (simp add: js_and_def int_and_two [of n])
qed

lemma js_and_one_numeral [simp, js_simps]:
  "js_and (numeral n) 1 = of_int (numeral n mod 2)"
  "js_and (- numeral n) 1 = of_int (- numeral n mod 2)"
  "js_and 0 1 = 0" "js_and 1 1 = 1" "js_and (- 1) 1 = 1"
  using js_and_one [of "numeral n"] js_and_one [of "- numeral n"] js_and_one [of 0]
    js_and_one [of 1] js_and_one [of "- 1"] by simp_all

lemma js_and_one_int [intro]: "is_int x \<Longrightarrow> is_int (js_and x 1)"
  by (erule is_intE) simp

subsection \<open>Math.round\<close>

lemma js_round_of_int [simp, js_simps]: "js_round (of_int n) = of_int n"
proof -
  have "\<lfloor>of_int n + 1 / 2 :: real\<rfloor> = n"
    by (simp add: floor_eq_iff)
  then show ?thesis by (simp add: js_round_def)
qed

lemma js_round_is_int [simp]: "is_int (js_round x)"
  by (simp add: js_round_def)

lemma js_round_dist: "\<bar>js_round x - x\<bar> \<le> 1 / 2"
proof -
  have "of_int \<lfloor>x + 1 / 2\<rfloor> \<le> x + 1 / 2" "x + 1 / 2 < of_int \<lfloor>x + 1 / 2\<rfloor> + 1"
    by (rule of_int_floor_le, rule real_of_int_floor_add_one_gt)
  then show ?thesis unfolding js_round_def abs_le_iff by linarith
qed

lemma js_round_sum3:
  assumes "x + y + z = 0"
  shows "js_round x + js_round y + js_round z \<in> {- 1, 0, 1}"
proof -
  have "\<bar>js_round x - x\<bar> \<le> 1 / 2" "\<bar>js_round y - y\<bar> \<le> 1 / 2" "\<bar>js_round z - z\<bar> \<le> 1 / 2"
    by (rule js_round_dist)+
  then have b: "\<bar>js_round x + js_round y + js_round z\<bar> < 2"
    using assms unfolding abs_le_iff abs_less_iff by linarith
  have e: "js_round x + js_round y + js_round z = of_int (\<lfloor>x + 1/2\<rfloor> + \<lfloor>y + 1/2\<rfloor> + \<lfloor>z + 1/2\<rfloor>)"
    by (simp add: js_round_def)
  have "\<bar>\<lfloor>x + 1/2\<rfloor> + \<lfloor>y + 1/2\<rfloor> + \<lfloor>z + 1/2\<rfloor>\<bar> < 2"
    using b unfolding e by linarith
  then have "\<lfloor>x + 1/2\<rfloor> + \<lfloor>y + 1/2\<rfloor> + \<lfloor>z + 1/2\<rfloor> \<in> {- 1, 0, 1}" by auto
  then show ?thesis unfolding e by auto
qed

lemma js_round_near:
  assumes "\<bar>x - of_int n\<bar> < 1 / 2"
  shows "js_round x = of_int n"
proof -
  have "of_int n \<le> x + 1 / 2" "x + 1 / 2 < of_int n + 1"
    using assms unfolding abs_less_iff by linarith+
  then have "\<lfloor>x + 1 / 2\<rfloor> = n"
    by (simp add: floor_eq_iff)
  then show ?thesis by (simp add: js_round_def)
qed

subsection \<open>Array reads\<close>

lemma js_index_of_nat [simp, js_simps]:
  "js_index xs (of_nat i) = (if i < length xs then Some (xs ! i) else None)"
  by (simp add: js_index_def)

lemma js_index_numeral [simp, js_simps]:
  "js_index xs (numeral k) = (if numeral k < length xs then Some (xs ! numeral k) else None)"
  using js_index_of_nat [of xs "numeral k"] by simp

lemma js_index_zero [simp, js_simps]:
  "js_index xs 0 = (if xs = [] then None else Some (xs ! 0))"
  using js_index_of_nat [of xs 0] by simp

lemma js_index_one [simp, js_simps]:
  "js_index xs 1 = (if 1 < length xs then Some (xs ! 1) else None)"
  using js_index_of_nat [of xs 1] by simp

lemma js_index_Some: "js_index xs i = Some v \<Longrightarrow> v \<in> set xs"
  by (auto simp add: js_index_def split: if_splits)

lemma js_index_range:
  "js_index xs i \<noteq> None \<longleftrightarrow> (\<exists>k < length xs. i = of_nat k)"
  by (auto simp add: js_index_def is_int_def)

end
