(* ===== verification/Format.thy ===== *)
theory Format
  imports Prelude
begin

text \<open>
  The decimal text of an integer, as JavaScript's \<open>Number.prototype.toString\<close>
  writes an integer-valued number of magnitude below \<open>10\<^sup>21\<close> (larger ones use
  exponent notation), and a parser reading it back. The string formatting of the
  sources (the cached \<open>id\<close> and \<open>toString\<close> of \<open>Hex\<close>, the \<open>hash\<close> and
  \<open>toString\<close> of the coordinate classes) takes the number-to-string conversion as a
  parameter; \<open>js_int_string\<close> states that it agrees with this printer on the
  integers of that range, which is all the theorems about those strings assume.
\<close>

definition digit_char :: "nat \<Rightarrow> char" where
  "digit_char d = char_of (48 + d)"

fun nat_str :: "nat \<Rightarrow> string" where
  "nat_str n = (if n < 10 then [digit_char n] else nat_str (n div 10) @ [digit_char (n mod 10)])"

definition int_str :: "int \<Rightarrow> string" where
  "int_str i = (if i < 0 then CHR ''-'' # nat_str (nat (- i)) else nat_str (nat i))"

definition js_int_string :: "(number \<Rightarrow> string) \<Rightarrow> bool" where
  "js_int_string num_str \<longleftrightarrow> (\<forall>i. \<bar>i\<bar> < 10 ^ 21 \<longrightarrow> num_str (of_int i) = int_str i)"

definition digit_val :: "char \<Rightarrow> nat option" where
  "digit_val c = (let n = (of_char c :: nat) in if 48 \<le> n \<and> n \<le> 57 then Some (n - 48) else None)"

fun parse_digits :: "nat \<Rightarrow> string \<Rightarrow> nat option" where
  "parse_digits acc [] = Some acc"
| "parse_digits acc (c # cs) = (case digit_val c of None \<Rightarrow> None | Some d \<Rightarrow> parse_digits (10 * acc + d) cs)"

definition parse_int :: "string \<Rightarrow> int option" where
  "parse_int s =
     (case s of
        [] \<Rightarrow> None
      | c # t \<Rightarrow> if c = CHR ''-'' then (if t = [] then None else map_option (\<lambda>n. - int n) (parse_digits 0 t))
                else map_option int (parse_digits 0 s))"

fun split_comma :: "string \<Rightarrow> string list" where
  "split_comma [] = [[]]"
| "split_comma (c # cs) =
     (if c = CHR '','' then [] # split_comma cs
      else (let ws = split_comma cs in (c # hd ws) # tl ws))"

definition parse_triple :: "string \<Rightarrow> (int \<times> int \<times> int) option" where
  "parse_triple s =
     (case split_comma s of
        [a, b, c] \<Rightarrow>
          (case (parse_int a, parse_int b, parse_int c) of
             (Some x, Some y, Some z) \<Rightarrow> Some (x, y, z)
           | _ \<Rightarrow> None)
      | _ \<Rightarrow> None)"

definition parse_pair :: "string \<Rightarrow> (int \<times> int) option" where
  "parse_pair s =
     (case split_comma s of
        [a, b] \<Rightarrow> (case (parse_int a, parse_int b) of (Some x, Some y) \<Rightarrow> Some (x, y) | _ \<Rightarrow> None)
      | _ \<Rightarrow> None)"

declare nat_str.simps [simp del]

lemma digit_char_01 [simp]: "digit_char 0 = CHR ''0''" "digit_char (Suc 0) = CHR ''1''"
  by code_simp+

subsection \<open>The printer and the parser\<close>

lemma digit_val_char [simp]: "d < 10 \<Longrightarrow> digit_val (digit_char d) = Some d"
  by (simp add: digit_val_def digit_char_def)

lemma nat_str_digits: "c \<in> set (nat_str n) \<Longrightarrow> digit_val c \<noteq> None"
proof (induction n rule: nat_str.induct)
  case (1 n)
  then show ?case by (cases "n < 10") (auto simp add: nat_str.simps [of n])
qed

lemma nat_str_nonempty [simp]: "nat_str n \<noteq> []"
  by (simp add: nat_str.simps [of n])

lemma parse_digits_append:
  "parse_digits acc (xs @ ys) = (case parse_digits acc xs of None \<Rightarrow> None | Some a \<Rightarrow> parse_digits a ys)"
  by (induction acc xs rule: parse_digits.induct) (simp_all split: option.split)

lemma parse_nat_str: "parse_digits 0 (nat_str n) = Some n"
proof (induction n rule: nat_str.induct)
  case (1 n)
  show ?case
  proof (cases "n < 10")
    case True
    then show ?thesis by (simp add: nat_str.simps [of n])
  next
    case False
    then have "parse_digits 0 (nat_str n) = parse_digits (n div 10) [digit_char (n mod 10)]"
      using 1 by (simp add: nat_str.simps [of n] parse_digits_append)
    also have "\<dots> = Some n" by simp
    finally show ?thesis .
  qed
qed

lemma int_str_01 [simp]: "int_str 0 = ''0''" "int_str 1 = ''1''" "int_str (- 1) = ''-1''"
  by (simp_all add: int_str_def nat_str.simps [of 0] nat_str.simps [of "Suc 0"])

lemma comma_not_digit [simp]: "digit_val CHR '','' = None" "digit_val CHR ''-'' = None"
  by (simp_all add: digit_val_def)

lemma int_str_no_comma: "CHR '','' \<notin> set (int_str i)"
proof
  assume c: "CHR '','' \<in> set (int_str i)"
  have "CHR '','' \<in> set (nat_str (nat (- i))) \<or> CHR '','' \<in> set (nat_str (nat i))"
    using c by (auto simp add: int_str_def split: if_splits)
  then show False using nat_str_digits comma_not_digit(1) by blast
qed

lemma parse_int_str: "parse_int (int_str i) = Some i"
proof (cases "i < 0")
  case True
  then show ?thesis by (simp add: int_str_def parse_int_def parse_nat_str)
next
  case False
  obtain c t where ct: "nat_str (nat i) = c # t" using nat_str_nonempty by (cases "nat_str (nat i)") auto
  have "c \<noteq> CHR ''-''" using nat_str_digits [of c "nat i"] ct by auto
  then show ?thesis using False ct parse_nat_str [of "nat i"] by (simp add: int_str_def parse_int_def)
qed

lemma split_comma_free: "CHR '','' \<notin> set a \<Longrightarrow> split_comma a = [a]"
  by (induction a) (auto simp add: Let_def)

lemma split_comma_append:
  "CHR '','' \<notin> set a \<Longrightarrow> split_comma (a @ CHR '','' # b) = a # split_comma b"
  by (induction a) (auto simp add: Let_def)

lemma parse_triple_int_str:
  "parse_triple (int_str x @ CHR '','' # int_str y @ CHR '','' # int_str z) = Some (x, y, z)"
  by (simp add: parse_triple_def split_comma_append int_str_no_comma split_comma_free parse_int_str)

lemma parse_pair_int_str: "parse_pair (int_str x @ CHR '','' # int_str y) = Some (x, y)"
  by (simp add: parse_pair_def split_comma_append int_str_no_comma split_comma_free parse_int_str)

end
