(* ===== verification/Hex.thy ===== *)
theory Hex
  imports Prelude Format
begin

text \<open>
  The axial algebra of \<open>src/src/lib/hex/hex.ts\<close>, class \<open>Hex\<close>. A \<open>Hex\<close> object is
  the value \<open>Hex q r s\<close>; its constructor, which throws unless \<open>q + r + s = 0\<close> (and
  derives \<open>s\<close> when it is omitted), is \<open>new_hex\<close>, and every method that builds a new
  hex goes through it, so each returns a \<open>hex result\<close>. The coordinates are exact
  numbers; the lattice hexes are the valid ones with integer coordinates.
\<close>

datatype hex = Hex (hex_q: number) (hex_r: number) (hex_s: number)

definition new_hex :: "number \<Rightarrow> number \<Rightarrow> number option \<Rightarrow> hex result" where
  "new_hex q r s_opt =
     (let s = (case s_opt of None \<Rightarrow> - q - r | Some s \<Rightarrow> s)
      in if q + r + s \<noteq> 0 then Inl InvalidCoordinate else Inr (Hex q r s))"

definition direction_deltas :: "hex list" where
  "direction_deltas =
     [Hex 1 0 (-1), Hex 1 (-1) 0, Hex 0 (-1) 1, Hex (-1) 0 1, Hex (-1) 1 0, Hex 0 1 (-1)]"

definition diagonal_deltas :: "hex list" where
  "diagonal_deltas =
     [Hex 2 (-1) (-1), Hex 1 (-2) 1, Hex (-1) (-1) 2, Hex (-2) 1 1, Hex (-1) 2 (-1), Hex 1 1 (-2)]"

definition hex_equals :: "hex \<Rightarrow> hex \<Rightarrow> bool" where
  "hex_equals a b \<longleftrightarrow> hex_q a = hex_q b \<and> hex_r a = hex_r b \<and> hex_s a = hex_s b"

definition hex_add :: "hex \<Rightarrow> hex \<Rightarrow> hex result" where
  "hex_add a b = new_hex (hex_q a + hex_q b) (hex_r a + hex_r b) (Some (hex_s a + hex_s b))"

definition hex_subtract :: "hex \<Rightarrow> hex \<Rightarrow> hex result" where
  "hex_subtract a b = new_hex (hex_q a - hex_q b) (hex_r a - hex_r b) (Some (hex_s a - hex_s b))"

definition hex_scale :: "hex \<Rightarrow> number \<Rightarrow> hex result" where
  "hex_scale h k = new_hex (hex_q h * k) (hex_r h * k) (Some (hex_s h * k))"

definition hex_rotate_left :: "hex \<Rightarrow> hex result" where
  "hex_rotate_left h = new_hex (- hex_s h) (- hex_q h) (Some (- hex_r h))"

definition hex_rotate_right :: "hex \<Rightarrow> hex result" where
  "hex_rotate_right h = new_hex (- hex_r h) (- hex_s h) (Some (- hex_q h))"

text \<open>
  \<open>Hex.direction\<close> throws outside \<open>[0, 6)\<close>; inside, the array read
  \<open>directionDeltas[d]\<close> is \<open>undefined\<close> (\<open>None\<close>) for a non-integer \<open>d\<close>.
  \<open>neighbor\<close> then reads \<open>.q\<close> of it, a \<open>TypeError\<close>. \<open>diagonalNeighbor\<close> has no
  range check at all.
\<close>

definition hex_direction :: "number \<Rightarrow> hex option result" where
  "hex_direction d =
     (if d < 0 \<or> 6 \<le> d then Inl IndexOutOfRange else Inr (js_index direction_deltas d))"

definition hex_neighbor :: "hex \<Rightarrow> number \<Rightarrow> hex result" where
  "hex_neighbor h d =
     rbind (hex_direction d) (\<lambda>dh. case dh of None \<Rightarrow> Inl TypeError | Some v \<Rightarrow> hex_add h v)"

definition hex_diagonal_neighbor :: "hex \<Rightarrow> number \<Rightarrow> hex result" where
  "hex_diagonal_neighbor h d =
     (case js_index diagonal_deltas d of None \<Rightarrow> Inl TypeError | Some v \<Rightarrow> hex_add h v)"

text \<open>
  \<open>len\<close> returns 0 when the sum is \<open>NaN\<close>; exact numbers are never \<open>NaN\<close>, so the
  model is the sum itself.
\<close>

definition hex_len :: "hex \<Rightarrow> number" where
  "hex_len h = (\<bar>hex_q h\<bar> + \<bar>hex_r h\<bar> + \<bar>hex_s h\<bar>) / 2"

definition hex_distance :: "hex \<Rightarrow> hex \<Rightarrow> number result" where
  "hex_distance a b = rbind (hex_subtract a b) (\<lambda>d. Inr (hex_len d))"

definition hex_round :: "hex \<Rightarrow> hex result" where
  "hex_round h =
     (let qi = js_round (hex_q h); ri = js_round (hex_r h); si = js_round (hex_s h);
          q_diff = \<bar>qi - hex_q h\<bar>; r_diff = \<bar>ri - hex_r h\<bar>; s_diff = \<bar>si - hex_s h\<bar>
      in if q_diff > r_diff \<and> q_diff > s_diff then new_hex (- ri - si) ri (Some si)
         else if r_diff > s_diff then new_hex qi (- qi - si) (Some si)
         else new_hex qi ri (Some (- qi - ri)))"

definition hex_lerp :: "hex \<Rightarrow> hex \<Rightarrow> number \<Rightarrow> hex result" where
  "hex_lerp a b t =
     new_hex (hex_q a * (1 - t) + hex_q b * t) (hex_r a * (1 - t) + hex_r b * t)
       (Some (hex_s a * (1 - t) + hex_s b * t))"

text \<open>
  \<open>linedraw\<close>: the loop \<open>for (let i = 0; i <= N; i++)\<close> pushes
  \<open>a_nudge.lerp(b_nudge, step * i).round()\<close>; \<open>linedraw_step\<close> is that expression and
  \<open>linedraw_loop\<close> the loop, with the array built so far as accumulator. The nudge
  \<open>1e-6\<close> is the exact \<open>1 / 1000000\<close>.
\<close>

definition linedraw_step :: "hex \<Rightarrow> hex \<Rightarrow> number \<Rightarrow> nat \<Rightarrow> hex result" where
  "linedraw_step an bn step i = rbind (hex_lerp an bn (step * of_nat i)) hex_round"

function linedraw_loop :: "hex \<Rightarrow> hex \<Rightarrow> number \<Rightarrow> number \<Rightarrow> nat \<Rightarrow> hex list \<Rightarrow> hex list result" where
  "linedraw_loop an bn step n i acc =
     (if of_nat i \<le> n then
        (case linedraw_step an bn step i of
           Inl e \<Rightarrow> Inl e
         | Inr h \<Rightarrow> linedraw_loop an bn step n (Suc i) (acc @ [h]))
      else Inr acc)"
  by pat_completeness auto
termination
  by (relation "measure (\<lambda>(an, bn, step, n, i, acc). nat (\<lfloor>n\<rfloor> + 1 - int i))")
     (auto simp add: le_floor_iff)

declare linedraw_loop.simps [simp del]

definition nudge :: number where
  "nudge = 1 / 1000000"

definition hex_linedraw :: "hex \<Rightarrow> hex \<Rightarrow> hex list result" where
  "hex_linedraw a b =
     rbind (hex_distance a b) (\<lambda>n.
     rbind (new_hex (hex_q a + nudge) (hex_r a + nudge) (Some (hex_s a - 2 * nudge))) (\<lambda>an.
     rbind (new_hex (hex_q b + nudge) (hex_r b + nudge) (Some (hex_s b - 2 * nudge))) (\<lambda>bn.
       linedraw_loop an bn (1 / max n 1) n 0 [])))"

text \<open>
  The JavaScript object behind a \<open>Hex\<close>: its coordinates and the \<open>id\<close> string
  \<open>`${q},${r},${s}`\<close> the constructor caches, read by \<open>hash()\<close>; \<open>toString()\<close>;
  and the three coordinate setters, which write one coordinate without the
  constructor's check and leave \<open>id\<close> as it was. The conversion of a number to its
  text is the parameter \<open>num_str\<close> (theory \<open>Format\<close>). No source calls the setters,
  so the rest of the development uses the hex values.
\<close>

definition hex_id_string :: "(number \<Rightarrow> string) \<Rightarrow> hex \<Rightarrow> string" where
  "hex_id_string num_str h = num_str (hex_q h) @ '','' @ num_str (hex_r h) @ '','' @ num_str (hex_s h)"

definition hex_to_string :: "(number \<Rightarrow> string) \<Rightarrow> hex \<Rightarrow> string" where
  "hex_to_string num_str h =
     ''Hex('' @ num_str (hex_q h) @ '', '' @ num_str (hex_r h) @ '', '' @ num_str (hex_s h) @ '')''"

record hex_object =
  obj_hex :: hex
  obj_id :: string

definition new_hex_object ::
  "(number \<Rightarrow> string) \<Rightarrow> number \<Rightarrow> number \<Rightarrow> number option \<Rightarrow> hex_object result" where
  "new_hex_object num_str q r s_opt =
     rbind (new_hex q r s_opt) (\<lambda>h. Inr \<lparr>obj_hex = h, obj_id = hex_id_string num_str h\<rparr>)"

definition hex_hash :: "hex_object \<Rightarrow> string" where
  "hex_hash x = obj_id x"

definition hex_in_range :: "hex \<Rightarrow> bool" where
  "hex_in_range h \<longleftrightarrow> \<bar>hex_q h\<bar> < 10 ^ 21 \<and> \<bar>hex_r h\<bar> < 10 ^ 21 \<and> \<bar>hex_s h\<bar> < 10 ^ 21"

definition hex_set_q :: "hex_object \<Rightarrow> number \<Rightarrow> hex_object" where
  "hex_set_q x v = x\<lparr>obj_hex := Hex v (hex_r (obj_hex x)) (hex_s (obj_hex x))\<rparr>"

definition hex_set_r :: "hex_object \<Rightarrow> number \<Rightarrow> hex_object" where
  "hex_set_r x v = x\<lparr>obj_hex := Hex (hex_q (obj_hex x)) v (hex_s (obj_hex x))\<rparr>"

definition hex_set_s :: "hex_object \<Rightarrow> number \<Rightarrow> hex_object" where
  "hex_set_s x v = x\<lparr>obj_hex := Hex (hex_q (obj_hex x)) (hex_r (obj_hex x)) v\<rparr>"

subsection \<open>Well-formed hexes\<close>

definition hex_valid :: "hex \<Rightarrow> bool" where
  "hex_valid h \<longleftrightarrow> hex_q h + hex_r h + hex_s h = 0"

definition hex_lattice :: "hex \<Rightarrow> bool" where
  "hex_lattice h \<longleftrightarrow> hex_valid h \<and> is_int (hex_q h) \<and> is_int (hex_r h) \<and> is_int (hex_s h)"

named_theorems hex_simps "characteristic equations of the hex operations on valid hexes"

lemma new_hex_Some [simp]:
  "new_hex q r (Some s) = (if q + r + s = 0 then Inr (Hex q r s) else Inl InvalidCoordinate)"
  by (simp add: new_hex_def)

lemma new_hex_None [simp]: "new_hex q r None = Inr (Hex q r (- q - r))"
  by (simp add: new_hex_def)

lemma hex_valid_Hex [simp]: "hex_valid (Hex q r s) \<longleftrightarrow> q + r + s = 0"
  by (simp add: hex_valid_def)

lemma hex_lattice_Hex [simp]:
  "hex_lattice (Hex q r s) \<longleftrightarrow> q + r + s = 0 \<and> is_int q \<and> is_int r \<and> is_int s"
  by (simp add: hex_lattice_def)

lemma hex_lattice_valid [intro]: "hex_lattice h \<Longrightarrow> hex_valid h"
  by (simp add: hex_lattice_def)

lemma hex_validE:
  assumes "hex_valid h" obtains q r where "h = Hex q r (- q - r)"
  using assms by (cases h) (auto simp add: algebra_simps)

lemma hex_latticeE:
  assumes "hex_lattice h" obtains q r :: int where "h = Hex (of_int q) (of_int r) (- of_int q - of_int r)"
proof -
  from assms obtain q r where "hex_q h = of_int q" "hex_r h = of_int r"
    by (auto simp add: hex_lattice_def elim!: is_intE)
  with assms have "h = Hex (of_int q) (of_int r) (- of_int q - of_int r)"
    by (cases h) (auto simp add: hex_lattice_def algebra_simps)
  then show ?thesis by (rule that)
qed

lemma new_hex_ok: "q + r + s = 0 \<Longrightarrow> new_hex q r (Some s) = Inr (Hex q r s)"
  by simp

lemma hex_add_valid [hex_simps]:
  "hex_valid a \<Longrightarrow> hex_valid b \<Longrightarrow>
   hex_add a b = Inr (Hex (hex_q a + hex_q b) (hex_r a + hex_r b) (hex_s a + hex_s b))"
  unfolding hex_add_def hex_valid_def by (rule new_hex_ok) linarith

lemma hex_subtract_valid [hex_simps]:
  "hex_valid a \<Longrightarrow> hex_valid b \<Longrightarrow>
   hex_subtract a b = Inr (Hex (hex_q a - hex_q b) (hex_r a - hex_r b) (hex_s a - hex_s b))"
  unfolding hex_subtract_def hex_valid_def by (rule new_hex_ok) linarith

lemma hex_rotate_left_valid [hex_simps]:
  "hex_valid h \<Longrightarrow> hex_rotate_left h = Inr (Hex (- hex_s h) (- hex_q h) (- hex_r h))"
  unfolding hex_rotate_left_def hex_valid_def by (rule new_hex_ok) linarith

lemma hex_rotate_right_valid [hex_simps]:
  "hex_valid h \<Longrightarrow> hex_rotate_right h = Inr (Hex (- hex_r h) (- hex_s h) (- hex_q h))"
  unfolding hex_rotate_right_def hex_valid_def by (rule new_hex_ok) linarith

lemma hex_distance_valid [hex_simps]:
  "hex_valid a \<Longrightarrow> hex_valid b \<Longrightarrow> hex_distance a b =
     Inr ((\<bar>hex_q a - hex_q b\<bar> + \<bar>hex_r a - hex_r b\<bar> + \<bar>hex_s a - hex_s b\<bar>) / 2)"
  by (simp add: hex_distance_def hex_subtract_valid hex_len_def)

lemma direction_deltas_valid: "h \<in> set direction_deltas \<Longrightarrow> hex_lattice h"
  by (auto simp add: direction_deltas_def)

lemma diagonal_deltas_valid: "h \<in> set diagonal_deltas \<Longrightarrow> hex_lattice h"
  by (auto simp add: diagonal_deltas_def)

lemma hex_direction_in_range [hex_simps]:
  "d < 6 \<Longrightarrow> hex_direction (of_nat d) = Inr (Some (direction_deltas ! d))"
  by (simp add: hex_direction_def direction_deltas_def)

lemma less_6_cases: "(d::nat) < 6 \<Longrightarrow> d = 0 \<or> d = 1 \<or> d = 2 \<or> d = 3 \<or> d = 4 \<or> d = 5"
  by arith


lemma hex_len_valid:
  "hex_valid h \<Longrightarrow> hex_len h = max \<bar>hex_q h\<bar> (max \<bar>hex_r h\<bar> \<bar>hex_s h\<bar>)"
  unfolding hex_len_def hex_valid_def by (simp add: max_def abs_if) linarith?

lemma hex_len_lattice_nat:
  assumes "hex_lattice h" obtains n :: nat where "hex_len h = of_nat n"
proof -
  from assms obtain q r :: int where h: "h = Hex (of_int q) (of_int r) (- of_int q - of_int r)"
    by (rule hex_latticeE)
  have "hex_len h = of_int (max \<bar>q\<bar> (max \<bar>r\<bar> \<bar>- q - r\<bar>))"
    using hex_len_valid [of h] h by (simp add: of_int_max)
  then have "hex_len h = of_nat (nat (max \<bar>q\<bar> (max \<bar>r\<bar> \<bar>- q - r\<bar>)))"
    by (subst of_nat_nat) (auto simp add: le_max_iff_disj)
  then show ?thesis by (rule that)
qed

lemma hex_len_zero: "hex_valid h \<Longrightarrow> hex_len h = 0 \<longleftrightarrow> h = Hex 0 0 0"
  by (cases h) (auto simp add: hex_len_def)

lemma hex_round_lattice: "\<exists>h'. hex_round h = Inr h' \<and> hex_lattice h'"
  unfolding hex_round_def Let_def by (auto intro!: is_int_diff is_int_minus)

lemma hex_round_near:
  assumes a: "hex_lattice a"
    and near: "\<bar>hex_q h - hex_q a\<bar> < 1 / 2" "\<bar>hex_r h - hex_r a\<bar> < 1 / 2"
      "\<bar>hex_s h - hex_s a\<bar> < 1 / 2"
  shows "hex_round h = Inr a"
proof -
  from a obtain q r :: int where ha: "a = Hex (of_int q) (of_int r) (- of_int q - of_int r)"
    by (rule hex_latticeE)
  have "js_round (hex_q h) = of_int q"
    by (rule js_round_near) (use near ha in simp)
  moreover have "js_round (hex_r h) = of_int r"
    by (rule js_round_near) (use near ha in simp)
  moreover have "js_round (hex_s h) = of_int (- q - r)"
    by (rule js_round_near) (use near ha in simp)
  ultimately show ?thesis using ha by (simp add: hex_round_def Let_def)
qed

lemma hex_round_of_lattice: "hex_lattice h \<Longrightarrow> hex_round h = Inr h"
  by (rule hex_round_near) simp_all

lemma hex_round_moves:
  assumes "hex_valid h" "hex_round h = Inr h'"
  shows "\<bar>hex_q h' - hex_q h\<bar> \<le> 1 \<and> \<bar>hex_r h' - hex_r h\<bar> \<le> 1 \<and> \<bar>hex_s h' - hex_s h\<bar> \<le> 1"
proof -
  have d: "\<bar>js_round (hex_q h) - hex_q h\<bar> \<le> 1 / 2" "\<bar>js_round (hex_r h) - hex_r h\<bar> \<le> 1 / 2"
    "\<bar>js_round (hex_s h) - hex_s h\<bar> \<le> 1 / 2"
    by (rule js_round_dist)+
  from assms(1) have v: "hex_q h + hex_r h + hex_s h = 0" by (simp add: hex_valid_def)
  from assms(2) d v show ?thesis
    unfolding hex_round_def Let_def abs_le_iff
    by (auto split: if_splits)
qed

text \<open>
  The coordinate \<open>round\<close> recomputes is the one with the largest rounding error.
  Since the three rounded coordinates sum to -1, 0 or 1, this choice keeps the
  point inside the hexagonal cell of the result: the pairwise differences of the
  three coordinate errors are at most 1, which is the cell of a lattice hex in the
  plane \<open>q + r + s = 0\<close> (the points nearer to it than to any other lattice hex).
\<close>

lemma hex_round_cell:
  assumes "hex_valid h" "hex_round h = Inr h'"
  shows "\<bar>(hex_q h' - hex_q h) - (hex_r h' - hex_r h)\<bar> \<le> 1 \<and>
         \<bar>(hex_r h' - hex_r h) - (hex_s h' - hex_s h)\<bar> \<le> 1 \<and>
         \<bar>(hex_s h' - hex_s h) - (hex_q h' - hex_q h)\<bar> \<le> 1"
proof -
  have d: "\<bar>js_round (hex_q h) - hex_q h\<bar> \<le> 1 / 2" "\<bar>js_round (hex_r h) - hex_r h\<bar> \<le> 1 / 2"
    "\<bar>js_round (hex_s h) - hex_s h\<bar> \<le> 1 / 2"
    by (rule js_round_dist)+
  from assms(1) have v: "hex_q h + hex_r h + hex_s h = 0" by (simp add: hex_valid_def)
  have k: "js_round (hex_q h) + js_round (hex_r h) + js_round (hex_s h) \<in> {- 1, 0, 1}"
    using js_round_sum3 [OF v] .
  from assms(2) d v k show ?thesis
    unfolding hex_round_def Let_def
    by (auto split: if_splits simp: abs_if)
qed

lemma hex_lerp_valid:
  "hex_valid a \<Longrightarrow> hex_valid b \<Longrightarrow> hex_lerp a b t =
     Inr (Hex (hex_q a * (1 - t) + hex_q b * t) (hex_r a * (1 - t) + hex_r b * t)
            (hex_s a * (1 - t) + hex_s b * t))"
proof -
  assume "hex_valid a" "hex_valid b"
  moreover have "hex_q a * (1 - t) + hex_q b * t + (hex_r a * (1 - t) + hex_r b * t)
      + (hex_s a * (1 - t) + hex_s b * t)
    = (1 - t) * (hex_q a + hex_r a + hex_s a) + t * (hex_q b + hex_r b + hex_s b)"
    by (simp add: algebra_simps)
  ultimately show ?thesis unfolding hex_lerp_def hex_valid_def by (intro new_hex_ok) simp
qed
lemma linedraw_step_ok:
  assumes "hex_valid an" "hex_valid bn"
  shows "\<exists>h. linedraw_step an bn step k = Inr h \<and> hex_lattice h"
  using hex_round_lattice by (simp add: linedraw_step_def hex_lerp_valid [OF assms])

lemma linedraw_loop_ok:
  assumes "\<And>k. \<exists>h. linedraw_step an bn step k = Inr h"
  shows "linedraw_loop an bn step n i acc =
           Inr (acc @ map (\<lambda>k. projr (linedraw_step an bn step k)) [i..<nat (\<lfloor>n\<rfloor> + 1)])"
  using assms
proof (induction an bn step n i acc rule: linedraw_loop.induct)
  case (1 an bn step n i acc)
  show ?case
  proof (cases "of_nat i \<le> n")
    case True
    from "1.prems" obtain h where h: "linedraw_step an bn step i = Inr h" by blast
    from True have "int i \<le> \<lfloor>n\<rfloor>" by (simp add: le_floor_iff)
    then have "[i..<nat (\<lfloor>n\<rfloor> + 1)] = i # [Suc i..<nat (\<lfloor>n\<rfloor> + 1)]"
      by (simp add: upt_rec)
    with True h "1.IH" [OF True h "1.prems"] show ?thesis
      by (simp add: linedraw_loop.simps [of an bn step n i acc])
  next
    case False
    then have "\<lfloor>n\<rfloor> < int i" by (simp add: floor_less_iff)
    then have "[i..<nat (\<lfloor>n\<rfloor> + 1)] = []" by simp
    with False show ?thesis
      by (simp add: linedraw_loop.simps [of an bn step n i acc])
  qed
qed

lemma nudged_valid:
  "hex_valid h \<Longrightarrow> new_hex (hex_q h + nudge) (hex_r h + nudge) (Some (hex_s h - 2 * nudge)) =
     Inr (Hex (hex_q h + nudge) (hex_r h + nudge) (hex_s h - 2 * nudge))"
  unfolding hex_valid_def by (intro new_hex_ok) linarith

lemma round_nudged:
  "hex_lattice a \<Longrightarrow> hex_round (Hex (hex_q a + nudge) (hex_r a + nudge) (hex_s a - 2 * nudge)) = Inr a"
  by (rule hex_round_near) (simp_all add: nudge_def)


lemma hex_linedraw_unfold:
  assumes va: "hex_valid a" and vb: "hex_valid b" and dist: "hex_distance a b = Inr n"
  shows "hex_linedraw a b =
    linedraw_loop (Hex (hex_q a + nudge) (hex_r a + nudge) (hex_s a - 2 * nudge))
      (Hex (hex_q b + nudge) (hex_r b + nudge) (hex_s b - 2 * nudge)) (1 / max n 1) n 0 []"
  unfolding hex_linedraw_def dist rbind_Inr nudged_valid [OF va] nudged_valid [OF vb] ..

lemma half_sum_triangle:
  "(x1::real) \<le> a1 + b1 \<Longrightarrow> x2 \<le> a2 + b2 \<Longrightarrow> x3 \<le> a3 + b3 \<Longrightarrow>
   (x1 + x2 + x3) / 2 \<le> (a1 + a2 + a3) / 2 + (b1 + b2 + b3) / 2"
  by (simp add: field_simps)

lemma hex_add_distance:
  assumes "hex_valid h" "hex_valid v"
  shows "rbind (hex_add h v) (\<lambda>n. hex_distance n h) = Inr (hex_len v)"
proof -
  have "hex_valid (Hex (hex_q h + hex_q v) (hex_r h + hex_r v) (hex_s h + hex_s v))"
    using assms by (simp add: hex_valid_def)
  then show ?thesis
    using assms by (simp add: hex_add_valid hex_distance_valid hex_len_def)
qed

lemma hex_neighbor_in_range:
  "d < 6 \<Longrightarrow> hex_neighbor h (of_nat d) = hex_add h (direction_deltas ! d)"
  by (simp add: hex_neighbor_def hex_direction_in_range)

lemma hex_diagonal_neighbor_in_range:
  "d < 6 \<Longrightarrow> hex_diagonal_neighbor h (of_nat d) = hex_add h (diagonal_deltas ! d)"
  by (simp add: hex_diagonal_neighbor_def diagonal_deltas_def)

lemma direction_deltas_len: "d < 6 \<Longrightarrow> hex_len (direction_deltas ! d) = 1"
  by (auto dest!: less_6_cases simp add: direction_deltas_def hex_len_def)

lemma diagonal_deltas_len: "d < 6 \<Longrightarrow> hex_len (diagonal_deltas ! d) = 2"
  by (auto dest!: less_6_cases simp add: diagonal_deltas_def hex_len_def)

lemma nth_direction_deltas_valid: "d < 6 \<Longrightarrow> hex_valid (direction_deltas ! d)"
  by (auto dest!: less_6_cases simp add: direction_deltas_def)

lemma nth_diagonal_deltas_valid: "d < 6 \<Longrightarrow> hex_valid (diagonal_deltas ! d)"
  by (auto dest!: less_6_cases simp add: diagonal_deltas_def)

lemma js_index_out_of_range: "d < 0 \<or> of_nat (length xs) \<le> d \<Longrightarrow> js_index xs d = None"
  by (auto simp add: js_index_def is_int_def)

lemma hex_scale_valid:
  "hex_valid h \<Longrightarrow> hex_scale h k = Inr (Hex (hex_q h * k) (hex_r h * k) (hex_s h * k))"
  unfolding hex_scale_def hex_valid_def by (rule new_hex_ok) (simp add: distrib_right [symmetric])

lemma hex_add_lattice: "hex_lattice a \<Longrightarrow> hex_lattice b \<Longrightarrow> \<exists>h. hex_add a b = Inr h \<and> hex_lattice h"
proof -
  assume a: "hex_lattice a" and b: "hex_lattice b"
  then have "hex_add a b = Inr (Hex (hex_q a + hex_q b) (hex_r a + hex_r b) (hex_s a + hex_s b))"
    by (intro hex_add_valid) auto
  moreover have "hex_lattice (Hex (hex_q a + hex_q b) (hex_r a + hex_r b) (hex_s a + hex_s b))"
    using a b unfolding hex_lattice_def hex_valid_def by (simp add: is_int_add algebra_simps)
  ultimately show ?thesis by blast
qed

lemma linedraw_run:
  assumes "hex_valid an" "hex_valid bn"
  shows "linedraw_loop an bn step n i acc =
           Inr (acc @ map (\<lambda>k. projr (linedraw_step an bn step k)) [i..<nat (\<lfloor>n\<rfloor> + 1)]) \<and>
         (\<forall>k. hex_lattice (projr (linedraw_step an bn step k)))"
proof -
  have ok: "\<exists>h. linedraw_step an bn step k = Inr h \<and> hex_lattice h" for k
    by (rule linedraw_step_ok [OF assms])
  then have e: "\<And>k. \<exists>h. linedraw_step an bn step k = Inr h" by blast
  have "hex_lattice (projr (linedraw_step an bn step k))" for k
  proof -
    from ok obtain h where "linedraw_step an bn step k = Inr h" "hex_lattice h" by blast
    then show ?thesis by simp
  qed
  then show ?thesis using linedraw_loop_ok [OF e] by blast
qed

lemma linedraw_step_ends:
  assumes a: "hex_lattice a" and b: "hex_lattice b"
    and n: "hex_len (Hex (hex_q a - hex_q b) (hex_r a - hex_r b) (hex_s a - hex_s b)) = of_nat n"
  shows "linedraw_step (Hex (hex_q a + nudge) (hex_r a + nudge) (hex_s a - 2 * nudge))
           (Hex (hex_q b + nudge) (hex_r b + nudge) (hex_s b - 2 * nudge)) (1 / max (of_nat n) 1) 0 = Inr a \<and>
         linedraw_step (Hex (hex_q a + nudge) (hex_r a + nudge) (hex_s a - 2 * nudge))
           (Hex (hex_q b + nudge) (hex_r b + nudge) (hex_s b - 2 * nudge)) (1 / max (of_nat n) 1) n = Inr b"
proof -
  let ?an = "Hex (hex_q a + nudge) (hex_r a + nudge) (hex_s a - 2 * nudge)"
  let ?bn = "Hex (hex_q b + nudge) (hex_r b + nudge) (hex_s b - 2 * nudge)"
  let ?d = "Hex (hex_q a - hex_q b) (hex_r a - hex_r b) (hex_s a - hex_s b)"
  have va: "hex_valid a" and vb: "hex_valid b" using a b by auto
  have van: "hex_valid ?an" and vbn: "hex_valid ?bn" using va vb by (simp_all add: hex_valid_def)
  note lerp = hex_lerp_valid [OF van vbn]
  have s0: "linedraw_step ?an ?bn (1 / max (of_nat n) 1) 0 = Inr a"
    using round_nudged [OF a] by (simp add: linedraw_step_def lerp)
  have "linedraw_step ?an ?bn (1 / max (of_nat n) 1) n = Inr b"
  proof (cases "n = 0")
    case True
    have "hex_valid ?d" using va vb by (simp add: hex_valid_def)
    then have "?d = Hex 0 0 0" using hex_len_zero [of ?d] n True by simp
    then have "a = b" using va vb by (cases a, cases b) simp
    with s0 True show ?thesis by simp
  next
    case False
    then have "1 / max (of_nat n) 1 * of_nat n = (1 :: real)" by simp
    then show ?thesis using round_nudged [OF b] by (simp add: linedraw_step_def lerp)
  qed
  with s0 show ?thesis by blast
qed

lemma hex_neighbor_lattice:
  assumes "hex_lattice a" "hex_neighbor a d = Inr h"
  shows "hex_lattice h"
proof -
  obtain v where rd: "js_index direction_deltas d = Some v" and e: "hex_add a v = Inr h"
    using assms(2) by (auto simp add: hex_neighbor_def hex_direction_def rbind_def split: if_splits option.splits sum.splits)
  have "hex_lattice v" by (rule direction_deltas_valid [OF js_index_Some [OF rd]])
  then obtain h' where "hex_add a v = Inr h'" "hex_lattice h'" using hex_add_lattice [OF assms(1)] by blast
  with e show ?thesis by simp
qed

lemma hex_diagonal_neighbor_lattice:
  assumes "hex_lattice a" "hex_diagonal_neighbor a d = Inr h"
  shows "hex_lattice h"
proof -
  obtain v where rd: "js_index diagonal_deltas d = Some v" and e: "hex_add a v = Inr h"
    using assms(2) by (auto simp add: hex_diagonal_neighbor_def split: option.splits)
  have "hex_lattice v" by (rule diagonal_deltas_valid [OF js_index_Some [OF rd]])
  then obtain h' where "hex_add a v = Inr h'" "hex_lattice h'" using hex_add_lattice [OF assms(1)] by blast
  with e show ?thesis by simp
qed

subsection \<open>Properties of the axial algebra\<close>

text \<open>
  In exact arithmetic the algorithm of \<open>linedraw\<close> is correct: between two lattice
  hexes it never throws and returns \<open>N + 1\<close> lattice hexes, where \<open>N\<close> is their
  distance; the first is the start hex and the last the end hex. (Theory
  \<open>Binary64\<close> shows that the program, which computes in doubles, throws instead.)
\<close>

lemma hex_linedraw_exact:
  assumes a: "hex_lattice a" and b: "hex_lattice b"
  shows "\<exists>n hs. hex_distance a b = Inr (of_nat n) \<and> hex_linedraw a b = Inr hs \<and>
           length hs = n + 1 \<and> hd hs = a \<and> last hs = b \<and> (\<forall>h \<in> set hs. hex_lattice h)"
proof -
  let ?an = "Hex (hex_q a + nudge) (hex_r a + nudge) (hex_s a - 2 * nudge)"
  let ?bn = "Hex (hex_q b + nudge) (hex_r b + nudge) (hex_s b - 2 * nudge)"
  let ?d = "Hex (hex_q a - hex_q b) (hex_r a - hex_r b) (hex_s a - hex_s b)"
  have va: "hex_valid a" and vb: "hex_valid b" using a b by auto
  have van: "hex_valid ?an" and vbn: "hex_valid ?bn" using va vb by (simp_all add: hex_valid_def)
  have "hex_lattice ?d" using a b by (auto simp add: hex_lattice_def hex_valid_def)
  then obtain n :: nat where n: "hex_len ?d = of_nat n" by (rule hex_len_lattice_nat)
  have dist: "hex_distance a b = Inr (of_nat n)"
    by (simp add: hex_distance_def hex_subtract_valid [OF va vb] n)
  define f where "f = (\<lambda>k. projr (linedraw_step ?an ?bn (1 / max (of_nat n) 1) k))"
  have run: "hex_linedraw a b = Inr (map f [0..<Suc n])" "\<forall>k. hex_lattice (f k)"
    using linedraw_run [OF van vbn, of "1 / max (of_nat n) 1" "of_nat n" 0 "[]"]
      hex_linedraw_unfold [OF va vb dist] by (simp_all add: f_def nat_add_distrib)
  have "f 0 = a" "f n = b" using linedraw_step_ends [OF a b n] by (simp_all add: f_def)
  then have "hd (map f [0..<Suc n]) = a" "last (map f [0..<Suc n]) = b"
    by (simp_all add: hd_map last_map del: upt_Suc)
  then show ?thesis using run dist by auto
qed

text \<open>
  C2: \<open>round\<close> of a valid (fractional) hex never throws and returns the lattice hex
  whose cell contains it: each coordinate moves by at most 1, the pairwise
  differences of the three coordinate changes are at most 1 (so the input lies in
  the hexagonal cell of the result, which recomputing the coordinate with the
  largest rounding error achieves), and a lattice hex is returned unchanged.
\<close>

theorem hex_round_snaps:
  assumes "hex_valid h"
  shows "\<exists>h'. hex_round h = Inr h' \<and> hex_lattice h' \<and>
           \<bar>hex_q h' - hex_q h\<bar> \<le> 1 \<and> \<bar>hex_r h' - hex_r h\<bar> \<le> 1 \<and> \<bar>hex_s h' - hex_s h\<bar> \<le> 1 \<and>
           \<bar>(hex_q h' - hex_q h) - (hex_r h' - hex_r h)\<bar> \<le> 1 \<and>
           \<bar>(hex_r h' - hex_r h) - (hex_s h' - hex_s h)\<bar> \<le> 1 \<and>
           \<bar>(hex_s h' - hex_s h) - (hex_q h' - hex_q h)\<bar> \<le> 1 \<and>
           (hex_lattice h \<longrightarrow> h' = h)"
proof -
  obtain h' where r: "hex_round h = Inr h'" "hex_lattice h'"
    using hex_round_lattice by blast
  moreover have "hex_lattice h \<longrightarrow> h' = h"
    using r(1) by (auto dest: hex_round_of_lattice)
  ultimately show ?thesis using hex_round_moves [OF assms r(1)] hex_round_cell [OF assms r(1)] by blast
qed

theorem hex_round_snaps_witness:
  "hex_valid (Hex (1/3) (1/3) (-2/3)) \<and>
   (\<exists>h'. hex_round (Hex (1/3) (1/3) (-2/3)) = Inr h' \<and> hex_lattice h' \<and>
      \<bar>hex_q h' - 1/3\<bar> \<le> 1 \<and> \<bar>hex_r h' - 1/3\<bar> \<le> 1 \<and> \<bar>hex_s h' - (-2/3)\<bar> \<le> 1) \<and>
   hex_round (Hex 2 (-1) (-1)) = Inr (Hex 2 (-1) (-1))"
proof -
  have "hex_valid (Hex (1/3) (1/3) (-2/3))" by simp
  moreover have "hex_valid (Hex 2 (-1) (-1))" "hex_lattice (Hex 2 (-1) (-1))" by simp_all
  ultimately show ?thesis
    using hex_round_snaps [of "Hex (1/3) (1/3) (-2/3)"] hex_round_snaps [of "Hex 2 (-1) (-1)"]
    by auto
qed

text \<open>
  C3: the neighbour of a hex in each of the six directions is at distance exactly 1
  from it, and its diagonal neighbour in each of the six diagonal directions at
  distance exactly 2.
\<close>

theorem hex_neighbor_distance:
  assumes "hex_valid h" "d < 6"
  shows "rbind (hex_neighbor h (of_nat d)) (\<lambda>n. hex_distance n h) = Inr 1 \<and>
         rbind (hex_diagonal_neighbor h (of_nat d)) (\<lambda>n. hex_distance n h) = Inr 2"
  using assms
  by (simp add: hex_neighbor_in_range hex_diagonal_neighbor_in_range hex_add_distance
      nth_direction_deltas_valid nth_diagonal_deltas_valid direction_deltas_len diagonal_deltas_len)

theorem hex_neighbor_distance_witness:
  "hex_valid (Hex 0 0 0) \<and> (3::nat) < 6 \<and>
   rbind (hex_neighbor (Hex 0 0 0) 3) (\<lambda>n. hex_distance n (Hex 0 0 0)) = Inr 1 \<and>
   rbind (hex_diagonal_neighbor (Hex 0 0 0) 3) (\<lambda>n. hex_distance n (Hex 0 0 0)) = Inr 2"
  using hex_neighbor_distance [of "Hex 0 0 0" 3] by simp

text \<open>
  C5: \<open>rotateLeft\<close> turns each direction vector into the next one of
  \<open>directionDeltas\<close> and \<open>rotateRight\<close> turns it back; on any valid hex,
  \<open>rotateRight\<close> undoes \<open>rotateLeft\<close> and six left rotations are the identity.
\<close>

theorem hex_rotations:
  assumes "d < 6" "hex_valid h"
  shows "hex_rotate_left (direction_deltas ! d) = Inr (direction_deltas ! ((d + 1) mod 6)) \<and>
         hex_rotate_right (direction_deltas ! ((d + 1) mod 6)) = Inr (direction_deltas ! d) \<and>
         rbind (hex_rotate_left h) hex_rotate_right = Inr h \<and>
         ((\<lambda>m. rbind m hex_rotate_left) ^^ 6) (Inr h) = Inr h"
proof -
  have dirs: "hex_rotate_left (direction_deltas ! d) = Inr (direction_deltas ! ((d + 1) mod 6)) \<and>
         hex_rotate_right (direction_deltas ! ((d + 1) mod 6)) = Inr (direction_deltas ! d)"
    using less_6_cases [OF assms(1)]
    by (auto simp add: direction_deltas_def hex_rotate_left_def hex_rotate_right_def)
  from assms(2) obtain q r where h: "h = Hex q r (- q - r)" by (rule hex_validE)
  have "rbind (hex_rotate_left h) hex_rotate_right = Inr h"
    by (simp add: h hex_rotate_left_valid hex_rotate_right_valid)
  moreover have "((\<lambda>m. rbind m hex_rotate_left) ^^ 6) (Inr h) = Inr h"
    by (simp add: h hex_rotate_left_valid numeral_eq_Suc)
  ultimately show ?thesis using dirs by blast
qed

theorem hex_rotations_witness:
  "(2::nat) < 6 \<and> hex_valid (Hex 3 (-1) (-2)) \<and>
   hex_rotate_left (direction_deltas ! 2) = Inr (direction_deltas ! 3) \<and>
   hex_rotate_right (direction_deltas ! 3) = Inr (direction_deltas ! 2) \<and>
   rbind (hex_rotate_left (Hex 3 (-1) (-2))) hex_rotate_right = Inr (Hex 3 (-1) (-2)) \<and>
   ((\<lambda>m. rbind m hex_rotate_left) ^^ 6) (Inr (Hex 3 (-1) (-2))) = Inr (Hex 3 (-1) (-2))"
  using hex_rotations [of 2 "Hex 3 (-1) (-2)"] by simp

text \<open>
  C6: \<open>distance\<close> is a metric on valid hexes: it never throws, is symmetric, is zero
  exactly between equal hexes and satisfies the triangle inequality.
\<close>

theorem hex_distance_metric:
  assumes "hex_valid a" "hex_valid b" "hex_valid c"
  shows "\<exists>x y z. hex_distance a b = Inr x \<and> hex_distance b c = Inr y \<and>
           hex_distance a c = Inr z \<and> z \<le> x + y \<and> hex_distance b a = Inr x \<and>
           (x = 0 \<longleftrightarrow> a = b)"
proof -
  have eq: "(\<bar>hex_q a - hex_q b\<bar> + \<bar>hex_r a - hex_r b\<bar> + \<bar>hex_s a - hex_s b\<bar>) / 2 = 0 \<longleftrightarrow> a = b"
    by (cases a, cases b) auto
  let ?x = "(\<bar>hex_q a - hex_q b\<bar> + \<bar>hex_r a - hex_r b\<bar> + \<bar>hex_s a - hex_s b\<bar>) / 2"
  let ?y = "(\<bar>hex_q b - hex_q c\<bar> + \<bar>hex_r b - hex_r c\<bar> + \<bar>hex_s b - hex_s c\<bar>) / 2"
  let ?z = "(\<bar>hex_q a - hex_q c\<bar> + \<bar>hex_r a - hex_r c\<bar> + \<bar>hex_s a - hex_s c\<bar>) / 2"
  have "\<bar>hex_q a - hex_q c\<bar> \<le> \<bar>hex_q a - hex_q b\<bar> + \<bar>hex_q b - hex_q c\<bar>"
    "\<bar>hex_r a - hex_r c\<bar> \<le> \<bar>hex_r a - hex_r b\<bar> + \<bar>hex_r b - hex_r c\<bar>"
    "\<bar>hex_s a - hex_s c\<bar> \<le> \<bar>hex_s a - hex_s b\<bar> + \<bar>hex_s b - hex_s c\<bar>"
    by arith+
  then have "?z \<le> ?x + ?y" by (rule half_sum_triangle)
  moreover have "hex_distance b a = Inr ?x"
    using assms by (simp add: hex_distance_valid abs_minus_commute)
  moreover have "hex_distance a b = Inr ?x" "hex_distance b c = Inr ?y" "hex_distance a c = Inr ?z"
    using assms by (simp_all add: hex_distance_valid)
  ultimately show ?thesis using eq by blast
qed

theorem hex_distance_metric_witness:
  "hex_valid (Hex 0 0 0) \<and> hex_valid (Hex 2 (-1) (-1)) \<and> hex_valid (Hex 1 1 (-2)) \<and>
   (\<exists>x y z. hex_distance (Hex 0 0 0) (Hex 2 (-1) (-1)) = Inr x \<and>
      hex_distance (Hex 2 (-1) (-1)) (Hex 1 1 (-2)) = Inr y \<and>
      hex_distance (Hex 0 0 0) (Hex 1 1 (-2)) = Inr z \<and> z \<le> x + y \<and>
      hex_distance (Hex 2 (-1) (-1)) (Hex 0 0 0) = Inr x \<and> (x = 0 \<longleftrightarrow> Hex 0 0 0 = Hex 2 (-1) (-1)))"
  using hex_distance_metric [of "Hex 0 0 0" "Hex 2 (-1) (-1)" "Hex 1 1 (-2)"] by simp

text \<open>
  C7: out of range, \<open>neighbor\<close> throws \<open>IndexOutOfRange\<close> (the check in
  \<open>Hex.direction\<close>), while \<open>diagonalNeighbor\<close>, which has no check, fails with a
  \<open>TypeError\<close> from reading \<open>.q\<close> of \<open>undefined\<close>.
\<close>

theorem hex_out_of_range_errors:
  assumes "d < 0 \<or> 6 \<le> d"
  shows "hex_neighbor h d = Inl IndexOutOfRange \<and> hex_diagonal_neighbor h d = Inl TypeError"
proof -
  have "js_index diagonal_deltas d = None"
    using assms by (intro js_index_out_of_range) (auto simp add: diagonal_deltas_def)
  then show ?thesis
    using assms by (auto simp add: hex_neighbor_def hex_direction_def hex_diagonal_neighbor_def)
qed

theorem hex_out_of_range_errors_witness:
  "((6::real) < 0 \<or> 6 \<le> (6::real)) \<and>
   hex_neighbor (Hex 0 0 0) 6 = Inl IndexOutOfRange \<and> hex_diagonal_neighbor (Hex 0 0 0) 6 = Inl TypeError"
  using hex_out_of_range_errors [of 6 "Hex 0 0 0"] by simp

text \<open>
  C19: the lattice is closed under the algebra: on lattice hexes and an integer factor,
  add, subtract, scale and both rotations never throw and return lattice hexes, and
  neighbor and diagonalNeighbor return a lattice hex whenever they do not throw.
\<close>

theorem hex_lattice_closed:
  assumes "hex_lattice a" "hex_lattice b" "is_int k"
  shows "list_all (\<lambda>r. \<exists>h. r = Inr h \<and> hex_lattice h)
           [hex_add a b, hex_subtract a b, hex_scale a k, hex_rotate_left a, hex_rotate_right a] \<and>
         list_all (\<lambda>r. \<forall>h. r = Inr h \<longrightarrow> hex_lattice h) [hex_neighbor a d, hex_diagonal_neighbor a d]"
proof -
  have v: "hex_valid a" "hex_valid b" using assms by auto
  have i: "is_int (hex_q a)" "is_int (hex_r a)" "is_int (hex_s a)" "is_int (hex_q b)" "is_int (hex_r b)" "is_int (hex_s b)"
    using assms by (simp_all add: hex_lattice_def)
  have s: "hex_q a + hex_r a + hex_s a = 0" "hex_q b + hex_r b + hex_s b = 0"
    using v by (simp_all add: hex_valid_def)
  have sk: "hex_q a * k + hex_r a * k + hex_s a * k = 0"
    using s(1) by (metis distrib_right mult_zero_left)
  have l: "hex_lattice (Hex (hex_q a + hex_q b) (hex_r a + hex_r b) (hex_s a + hex_s b))"
    "hex_lattice (Hex (hex_q a - hex_q b) (hex_r a - hex_r b) (hex_s a - hex_s b))"
    "hex_lattice (Hex (hex_q a * k) (hex_r a * k) (hex_s a * k))"
    "hex_lattice (Hex (- hex_s a) (- hex_q a) (- hex_r a))"
    "hex_lattice (Hex (- hex_r a) (- hex_s a) (- hex_q a))"
    using i s sk assms(3) by (simp_all add: is_int_add is_int_diff is_int_minus is_int_mult algebra_simps)
  show ?thesis
    using l hex_neighbor_lattice [OF assms(1)] hex_diagonal_neighbor_lattice [OF assms(1)]
    by (simp add: hex_add_valid [OF v] hex_subtract_valid [OF v] hex_scale_valid [OF v(1)]
        hex_rotate_left_valid [OF v(1)] hex_rotate_right_valid [OF v(1)])
qed

theorem hex_lattice_closed_witness:
  "hex_lattice (Hex 1 0 (- 1)) \<and> hex_lattice (Hex 0 1 (- 1)) \<and> is_int 2 \<and>
   (\<exists>h. hex_scale (Hex 1 0 (- 1)) 2 = Inr h \<and> hex_lattice h)"
  using hex_lattice_closed [of "Hex 1 0 (- 1)" "Hex 0 1 (- 1)" 2 0] by simp

subsection \<open>The mutable object\<close>

lemma new_hex_object_Inr:
  "new_hex_object num_str q r s = Inr a \<Longrightarrow> hex_valid (obj_hex a) \<and> hex_hash a = hex_id_string num_str (obj_hex a)"
  by (cases s) (auto simp add: new_hex_object_def hex_hash_def split: if_splits)

lemma int_num_str:
  assumes "js_int_string num_str" "is_int x" "\<bar>x\<bar> < 10 ^ 21"
  shows "num_str x = int_str \<lfloor>x\<rfloor> \<and> x = of_int \<lfloor>x\<rfloor>"
proof -
  have x: "x = of_int \<lfloor>x\<rfloor>" using assms(2) by (simp add: is_int_def)
  then have "of_int \<bar>\<lfloor>x\<rfloor>\<bar> < (of_int (10 ^ 21) :: real)" using assms(3) by simp
  then have "\<bar>\<lfloor>x\<rfloor>\<bar> < 10 ^ 21" by (simp only: of_int_less_iff)
  then have "num_str (of_int \<lfloor>x\<rfloor>) = int_str \<lfloor>x\<rfloor>" using assms(1) by (simp add: js_int_string_def)
  then show ?thesis using x by simp
qed

lemma hex_id_string_lattice:
  assumes "js_int_string num_str" "hex_lattice h" "hex_in_range h"
  shows "parse_triple (hex_id_string num_str h) = Some (\<lfloor>hex_q h\<rfloor>, \<lfloor>hex_r h\<rfloor>, \<lfloor>hex_s h\<rfloor>)"
proof -
  have "is_int (hex_q h)" "is_int (hex_r h)" "is_int (hex_s h)" using assms(2) by (simp_all add: hex_lattice_def)
  then have "num_str (hex_q h) = int_str \<lfloor>hex_q h\<rfloor>" "num_str (hex_r h) = int_str \<lfloor>hex_r h\<rfloor>"
    "num_str (hex_s h) = int_str \<lfloor>hex_s h\<rfloor>"
    using int_num_str [OF assms(1)] assms(3) by (simp_all add: hex_in_range_def)
  then show ?thesis by (simp add: hex_id_string_def parse_triple_int_str)
qed

lemma is_int_floor_eq: "is_int x \<Longrightarrow> is_int y \<Longrightarrow> \<lfloor>x\<rfloor> = \<lfloor>y\<rfloor> \<Longrightarrow> x = y"
  by (metis is_int_def)

lemma lattice_floor_eq:
  assumes "hex_lattice a" "hex_lattice b"
    "(\<lfloor>hex_q a\<rfloor>, \<lfloor>hex_r a\<rfloor>, \<lfloor>hex_s a\<rfloor>) = (\<lfloor>hex_q b\<rfloor>, \<lfloor>hex_r b\<rfloor>, \<lfloor>hex_s b\<rfloor>)"
  shows "a = b"
proof -
  have "hex_q a = hex_q b" "hex_r a = hex_r b" "hex_s a = hex_s b"
    using assms is_int_floor_eq by (simp_all add: hex_lattice_def)
  then show ?thesis by (cases a, cases b) simp
qed

text \<open>
  The setters break the contract: setting \<open>r := 0\<close> on \<open>Hex(1, -1, 0)\<close> and
  \<open>q := 1\<close> on \<open>Hex(0, 0, 0)\<close> gives two objects that are \<open>equals\<close> with the
  different hashes \<open>'1,-1,0'\<close> and \<open>'0,0,0'\<close>, neither of which satisfies
  \<open>q + r + s = 0\<close>.
\<close>

lemma hex_setters_break_contract:
  "\<exists>a b. new_hex_object (\<lambda>x. int_str \<lfloor>x\<rfloor>) 1 (- 1) None = Inr a \<and> new_hex_object (\<lambda>x. int_str \<lfloor>x\<rfloor>) 0 0 None = Inr b \<and>
     hex_equals (obj_hex (hex_set_r a 0)) (obj_hex (hex_set_q b 1)) \<and>
     hex_hash (hex_set_r a 0) = ''1,-1,0'' \<and> hex_hash (hex_set_q b 1) = ''0,0,0'' \<and>
     \<not> hex_valid (obj_hex (hex_set_r a 0)) \<and> \<not> hex_valid (obj_hex (hex_set_q b 1))"
proof -
  have "\<lfloor>- 1 :: real\<rfloor> = - 1" by (simp add: floor_eq_iff)
  then show ?thesis
    by (simp add: new_hex_object_def hex_set_r_def hex_set_q_def hex_hash_def hex_equals_def hex_id_string_def)
qed


text \<open>
  C12: the cached id is a faithful hash on the lattice: for a number-to-string
  conversion that prints integers as JavaScript does, the id of a lattice hex whose
  coordinates are below \<open>10\<^sup>21\<close> in magnitude reads back as its three coordinates,
  so two such hexes built by the constructor are \<open>equals\<close> exactly when their hashes
  are equal.
\<close>

theorem hex_hash_roundtrip:
  assumes "js_int_string num_str"
    and a: "new_hex_object num_str q r s = Inr a" and b: "new_hex_object num_str q' r' s' = Inr b"
    and "hex_lattice (obj_hex a)" "hex_lattice (obj_hex b)" "hex_in_range (obj_hex a)" "hex_in_range (obj_hex b)"
  shows "parse_triple (hex_hash a) = Some (\<lfloor>hex_q (obj_hex a)\<rfloor>, \<lfloor>hex_r (obj_hex a)\<rfloor>, \<lfloor>hex_s (obj_hex a)\<rfloor>) \<and>
         (hex_equals (obj_hex a) (obj_hex b) \<longleftrightarrow> hex_hash a = hex_hash b)"
proof -
  have ha: "hex_hash a = hex_id_string num_str (obj_hex a)" and hb: "hex_hash b = hex_id_string num_str (obj_hex b)"
    using new_hex_object_Inr [OF a] new_hex_object_Inr [OF b] by simp_all
  have pa: "parse_triple (hex_hash a) = Some (\<lfloor>hex_q (obj_hex a)\<rfloor>, \<lfloor>hex_r (obj_hex a)\<rfloor>, \<lfloor>hex_s (obj_hex a)\<rfloor>)"
    unfolding ha using hex_id_string_lattice assms(1,4,6) by blast
  have pb: "parse_triple (hex_hash b) = Some (\<lfloor>hex_q (obj_hex b)\<rfloor>, \<lfloor>hex_r (obj_hex b)\<rfloor>, \<lfloor>hex_s (obj_hex b)\<rfloor>)"
    unfolding hb using hex_id_string_lattice assms(1,5,7) by blast
  have "hex_equals (obj_hex a) (obj_hex b) \<longleftrightarrow> obj_hex a = obj_hex b"
    by (cases "obj_hex a", cases "obj_hex b") (simp add: hex_equals_def)
  also have "\<dots> \<longleftrightarrow> hex_hash a = hex_hash b"
  proof
    assume "obj_hex a = obj_hex b"
    then show "hex_hash a = hex_hash b" using ha hb by simp
  next
    assume "hex_hash a = hex_hash b"
    then have "(\<lfloor>hex_q (obj_hex a)\<rfloor>, \<lfloor>hex_r (obj_hex a)\<rfloor>, \<lfloor>hex_s (obj_hex a)\<rfloor>) =
               (\<lfloor>hex_q (obj_hex b)\<rfloor>, \<lfloor>hex_r (obj_hex b)\<rfloor>, \<lfloor>hex_s (obj_hex b)\<rfloor>)"
      using pa pb by simp
    then show "obj_hex a = obj_hex b" using lattice_floor_eq assms(4,5) by blast
  qed
  finally show ?thesis using pa by blast
qed

theorem hex_hash_roundtrip_witness:
  "js_int_string (\<lambda>x. int_str \<lfloor>x\<rfloor>) \<and>
   new_hex_object (\<lambda>x. int_str \<lfloor>x\<rfloor>) 1 (- 1) None = Inr \<lparr>obj_hex = Hex 1 (- 1) 0, obj_id = ''1,-1,0''\<rparr> \<and>
   new_hex_object (\<lambda>x. int_str \<lfloor>x\<rfloor>) 0 0 None = Inr \<lparr>obj_hex = Hex 0 0 0, obj_id = ''0,0,0''\<rparr> \<and>
   hex_lattice (Hex 1 (- 1) 0) \<and> hex_lattice (Hex 0 0 0) \<and> hex_in_range (Hex 1 (- 1) 0) \<and> hex_in_range (Hex 0 0 0) \<and>
   parse_triple ''1,-1,0'' = Some (1, - 1, 0)"
proof -
  have m1: "\<lfloor>- 1 :: real\<rfloor> = - 1" by (simp add: floor_eq_iff)
  have j: "js_int_string (\<lambda>x. int_str \<lfloor>x\<rfloor>)" by (simp add: js_int_string_def)
  have n: "new_hex_object (\<lambda>x. int_str \<lfloor>x\<rfloor>) 1 (- 1) None = Inr \<lparr>obj_hex = Hex 1 (- 1) 0, obj_id = ''1,-1,0''\<rparr>"
    "new_hex_object (\<lambda>x. int_str \<lfloor>x\<rfloor>) 0 0 None = Inr \<lparr>obj_hex = Hex 0 0 0, obj_id = ''0,0,0''\<rparr>"
    using m1 by (simp_all add: new_hex_object_def hex_id_string_def)
  have l: "hex_lattice (Hex 1 (- 1) 0)" "hex_lattice (Hex 0 0 0)" "hex_in_range (Hex 1 (- 1) 0)" "hex_in_range (Hex 0 0 0)"
    by (simp_all add: hex_in_range_def)
  show ?thesis
    using hex_hash_roundtrip [of "\<lambda>x. int_str \<lfloor>x\<rfloor>" 1 "- 1" None "\<lparr>obj_hex = Hex 1 (- 1) 0, obj_id = ''1,-1,0''\<rparr>"
        0 0 None "\<lparr>obj_hex = Hex 0 0 0, obj_id = ''0,0,0''\<rparr>"] m1 j n l
    by (simp add: hex_hash_def)
qed

end
