(* ===== verification/Coords.thy ===== *)
theory Coords
  imports Hex
begin

text \<open>
  The alternative coordinate systems of \<open>src/src/lib/hex/coords.ts\<close>: the classes
  \<open>HexOffsetCoord\<close> and \<open>HexDoubledCoord\<close> as records of two numbers, and their static
  conversions to and from cube coordinates. The offset conversions take the parity
  selector \<open>offset\<close> (\<open>EVEN = 1\<close>, \<open>ODD = -1\<close>) and throw unless it is one of the two;
  their \<open>h.q & 1\<close> is the 32-bit \<open>js_and\<close>, and \<open>/ 2\<close> is exact division. A
  conversion back to cube coordinates calls \<open>new Hex(q, r)\<close>, with \<open>s\<close> derived.
\<close>

record hex_offset_coord =
  oc_col :: number
  oc_row :: number

record hex_doubled_coord =
  dc_col :: number
  dc_row :: number

definition offset_EVEN :: number where
  "offset_EVEN = 1"

definition offset_ODD :: number where
  "offset_ODD = -1"

definition offset_coord_equals :: "hex_offset_coord \<Rightarrow> hex_offset_coord \<Rightarrow> bool" where
  "offset_coord_equals a b \<longleftrightarrow> oc_col a = oc_col b \<and> oc_row a = oc_row b"

definition doubled_coord_equals :: "hex_doubled_coord \<Rightarrow> hex_doubled_coord \<Rightarrow> bool" where
  "doubled_coord_equals a b \<longleftrightarrow> dc_col a = dc_col b \<and> dc_row a = dc_row b"

text \<open>
  \<open>hash()\<close> and \<open>toString()\<close> of both classes, with the number-to-string
  conversion \<open>num_str\<close> of theory \<open>Format\<close>.
\<close>

definition offset_coord_hash :: "(number \<Rightarrow> string) \<Rightarrow> hex_offset_coord \<Rightarrow> string" where
  "offset_coord_hash num_str c = num_str (oc_col c) @ '','' @ num_str (oc_row c)"

definition offset_coord_to_string :: "(number \<Rightarrow> string) \<Rightarrow> hex_offset_coord \<Rightarrow> string" where
  "offset_coord_to_string num_str c = ''OffsetCoord('' @ num_str (oc_col c) @ '', '' @ num_str (oc_row c) @ '')''"

definition doubled_coord_hash :: "(number \<Rightarrow> string) \<Rightarrow> hex_doubled_coord \<Rightarrow> string" where
  "doubled_coord_hash num_str c = num_str (dc_col c) @ '','' @ num_str (dc_row c)"

definition doubled_coord_to_string :: "(number \<Rightarrow> string) \<Rightarrow> hex_doubled_coord \<Rightarrow> string" where
  "doubled_coord_to_string num_str c = ''DoubledCoord('' @ num_str (dc_col c) @ '', '' @ num_str (dc_row c) @ '')''"

definition bad_offset :: "number \<Rightarrow> bool" where
  "bad_offset offset \<longleftrightarrow> offset \<noteq> offset_EVEN \<and> offset \<noteq> offset_ODD"

definition q_offset_from_cube :: "number \<Rightarrow> hex \<Rightarrow> hex_offset_coord result" where
  "q_offset_from_cube offset h =
     (if bad_offset offset then Inl InvalidParity
      else Inr \<lparr>oc_col = hex_q h,
                oc_row = hex_r h + (hex_q h + offset * js_and (hex_q h) 1) / 2\<rparr>)"

definition q_offset_to_cube :: "number \<Rightarrow> hex_offset_coord \<Rightarrow> hex result" where
  "q_offset_to_cube offset oc =
     (if bad_offset offset then Inl InvalidParity
      else new_hex (oc_col oc) (oc_row oc - (oc_col oc + offset * js_and (oc_col oc) 1) / 2) None)"

definition r_offset_from_cube :: "number \<Rightarrow> hex \<Rightarrow> hex_offset_coord result" where
  "r_offset_from_cube offset h =
     (if bad_offset offset then Inl InvalidParity
      else Inr \<lparr>oc_col = hex_q h + (hex_r h + offset * js_and (hex_r h) 1) / 2,
                oc_row = hex_r h\<rparr>)"

definition r_offset_to_cube :: "number \<Rightarrow> hex_offset_coord \<Rightarrow> hex result" where
  "r_offset_to_cube offset oc =
     (if bad_offset offset then Inl InvalidParity
      else new_hex (oc_col oc - (oc_row oc + offset * js_and (oc_row oc) 1) / 2) (oc_row oc) None)"

definition q_doubled_from_cube :: "hex \<Rightarrow> hex_doubled_coord" where
  "q_doubled_from_cube h = \<lparr>dc_col = hex_q h, dc_row = 2 * hex_r h + hex_q h\<rparr>"

definition q_doubled_to_cube :: "hex_doubled_coord \<Rightarrow> hex result" where
  "q_doubled_to_cube dc = new_hex (dc_col dc) ((dc_row dc - dc_col dc) / 2) None"

definition r_doubled_from_cube :: "hex \<Rightarrow> hex_doubled_coord" where
  "r_doubled_from_cube h = \<lparr>dc_col = 2 * hex_q h + hex_r h, dc_row = hex_r h\<rparr>"

definition r_doubled_to_cube :: "hex_doubled_coord \<Rightarrow> hex result" where
  "r_doubled_to_cube dc = new_hex ((dc_col dc - dc_row dc) / 2) (dc_row dc) None"

subsection \<open>Helper facts\<close>

lemma bad_offset_iff [simp]: "bad_offset offset \<longleftrightarrow> offset \<noteq> 1 \<and> offset \<noteq> -1"
  by (simp add: bad_offset_def offset_EVEN_def offset_ODD_def)

lemma valid_hex_eq: "hex_valid h \<Longrightarrow> Hex (hex_q h) (hex_r h) (- hex_q h - hex_r h) = h"
  by (cases h) (simp add: algebra_simps)

text \<open>
  The parity shear \<open>n + offset * (n & 1)\<close> of an integer \<open>n\<close> is even for both
  selectors, so the halving in the offset conversions is exact.
\<close>

lemma parity_shear_even:
  assumes "offset = 1 \<or> offset = -1"
  shows "is_int ((of_int n + offset * js_and (of_int n) 1) / 2)"
proof -
  obtain k where "of_int n + offset * js_and (of_int n) 1 = (of_int (2 * k) :: real)"
  proof (cases "offset = 1")
    case True
    have "n + n mod 2 = 2 * ((n + 1) div 2)" by presburger
    then have "of_int n + offset * js_and (of_int n) 1 = (of_int (2 * ((n + 1) div 2)) :: real)"
      using True by (metis js_and_one mult_1 of_int_add)
    then show ?thesis by (rule that)
  next
    case False
    with assms have m: "offset = -1" by simp
    have "n - n mod 2 = 2 * (n div 2)" by presburger
    then have "of_int n + offset * js_and (of_int n) 1 = (of_int (2 * (n div 2)) :: real)"
      using m by (metis js_and_one diff_conv_add_uminus mult_minus1 of_int_add of_int_minus)
    then show ?thesis by (rule that)
  qed
  then show ?thesis by simp
qed

lemma offset_choice: "\<not> bad_offset offset \<Longrightarrow> offset = 1 \<or> offset = -1"
  by simp

lemma q_offset_to_cube_ok:
  "\<not> bad_offset offset \<Longrightarrow> q_offset_to_cube offset oc =
     Inr (Hex (oc_col oc) (oc_row oc - (oc_col oc + offset * js_and (oc_col oc) 1) / 2)
            (- oc_col oc - (oc_row oc - (oc_col oc + offset * js_and (oc_col oc) 1) / 2)))"
  by (simp only: q_offset_to_cube_def if_False new_hex_None)

lemma r_offset_to_cube_ok:
  "\<not> bad_offset offset \<Longrightarrow> r_offset_to_cube offset oc =
     Inr (Hex (oc_col oc - (oc_row oc + offset * js_and (oc_row oc) 1) / 2) (oc_row oc)
            (- (oc_col oc - (oc_row oc + offset * js_and (oc_row oc) 1) / 2) - oc_row oc))"
  by (simp only: r_offset_to_cube_def if_False new_hex_None)

subsection \<open>Properties of the conversions\<close>

text \<open>
  C8: for either parity selector, converting a valid hex to q-offset coordinates and
  back returns it, and converting q-offset coordinates to a hex and back returns them.
\<close>

theorem q_offset_roundtrip:
  assumes "offset = offset_EVEN \<or> offset = offset_ODD" and "hex_valid h"
  shows "rbind (q_offset_from_cube offset h) (q_offset_to_cube offset) = Inr h \<and>
         rbind (q_offset_to_cube offset oc) (q_offset_from_cube offset) = Inr oc"
proof -
  have ok: "\<not> bad_offset offset" using assms(1) by (auto simp add: offset_EVEN_def offset_ODD_def)
  have "rbind (q_offset_from_cube offset h) (q_offset_to_cube offset) = Inr h"
    using ok by (simp add: q_offset_from_cube_def q_offset_to_cube_ok valid_hex_eq [OF assms(2)]
        del: bad_offset_iff)
  moreover have "rbind (q_offset_to_cube offset oc) (q_offset_from_cube offset) = Inr oc"
    using ok by (cases oc) (simp add: q_offset_from_cube_def q_offset_to_cube_ok del: bad_offset_iff)
  ultimately show ?thesis by blast
qed

theorem q_offset_roundtrip_witness:
  "q_offset_from_cube offset_EVEN (Hex 1 1 (-2)) = Inr \<lparr>oc_col = 1, oc_row = 2\<rparr> \<and>
   rbind (q_offset_from_cube offset_EVEN (Hex 1 1 (-2))) (q_offset_to_cube offset_EVEN) = Inr (Hex 1 1 (-2)) \<and>
   rbind (q_offset_to_cube offset_ODD \<lparr>oc_col = 3, oc_row = -1\<rparr>) (q_offset_from_cube offset_ODD) =
     Inr \<lparr>oc_col = 3, oc_row = -1\<rparr>"
proof -
  have "q_offset_from_cube offset_EVEN (Hex 1 1 (-2)) = Inr \<lparr>oc_col = 1, oc_row = 2\<rparr>"
    by (simp add: q_offset_from_cube_def offset_EVEN_def)
  moreover have "offset_EVEN = offset_EVEN \<or> offset_EVEN = offset_ODD" "hex_valid (Hex 1 1 (-2))"
    "offset_ODD = offset_EVEN \<or> offset_ODD = offset_ODD"
    by simp_all
  ultimately show ?thesis
    using q_offset_roundtrip [of offset_EVEN "Hex 1 1 (-2)"]
      q_offset_roundtrip [of offset_ODD "Hex 1 1 (-2)" "\<lparr>oc_col = 3, oc_row = -1\<rparr>"] by simp
qed

text \<open>
  C9: the same two round trips hold for the r-offset conversions.
\<close>

theorem r_offset_roundtrip:
  assumes "offset = offset_EVEN \<or> offset = offset_ODD" and "hex_valid h"
  shows "rbind (r_offset_from_cube offset h) (r_offset_to_cube offset) = Inr h \<and>
         rbind (r_offset_to_cube offset oc) (r_offset_from_cube offset) = Inr oc"
proof -
  have ok: "\<not> bad_offset offset" using assms(1) by (auto simp add: offset_EVEN_def offset_ODD_def)
  have "rbind (r_offset_from_cube offset h) (r_offset_to_cube offset) = Inr h"
    using ok by (simp add: r_offset_from_cube_def r_offset_to_cube_ok valid_hex_eq [OF assms(2)]
        del: bad_offset_iff)
  moreover have "rbind (r_offset_to_cube offset oc) (r_offset_from_cube offset) = Inr oc"
    using ok by (cases oc) (simp add: r_offset_from_cube_def r_offset_to_cube_ok del: bad_offset_iff)
  ultimately show ?thesis by blast
qed

theorem r_offset_roundtrip_witness:
  "rbind (r_offset_from_cube offset_ODD (Hex 2 (-3) 1)) (r_offset_to_cube offset_ODD) = Inr (Hex 2 (-3) 1) \<and>
   rbind (r_offset_to_cube offset_EVEN \<lparr>oc_col = -4, oc_row = 5\<rparr>) (r_offset_from_cube offset_EVEN) =
     Inr \<lparr>oc_col = -4, oc_row = 5\<rparr>"
proof -
  have "offset_ODD = offset_EVEN \<or> offset_ODD = offset_ODD" "hex_valid (Hex 2 (-3) 1)"
    "offset_EVEN = offset_EVEN \<or> offset_EVEN = offset_ODD"
    by simp_all
  then show ?thesis
    using r_offset_roundtrip [of offset_ODD "Hex 2 (-3) 1"]
      r_offset_roundtrip [of offset_EVEN "Hex 2 (-3) 1" "\<lparr>oc_col = -4, oc_row = 5\<rparr>"] by simp
qed

lemma doubled_parity_lattice:
  "(\<exists>h. q_doubled_to_cube \<lparr>dc_col = of_int c, dc_row = of_int w\<rparr> = Inr h \<and> (hex_lattice h \<longleftrightarrow> even (c + w))) \<and>
   (\<exists>h. r_doubled_to_cube \<lparr>dc_col = of_int c, dc_row = of_int w\<rparr> = Inr h \<and> (hex_lattice h \<longleftrightarrow> even (c + w)))"
proof -
  have half: "is_int ((of_int k :: real) / 2) \<longleftrightarrow> even k" for k :: int
  proof
    assume "is_int ((of_int k :: real) / 2)"
    then obtain m where "(of_int k :: real) / 2 = of_int m" by (rule is_intE)
    then have "k = 2 * m" by linarith
    then show "even k" by simp
  next
    assume "even k"
    then obtain m where "k = 2 * m" by (rule evenE)
    then show "is_int ((of_int k :: real) / 2)" by simp
  qed
  have e1: "even (w - c) \<longleftrightarrow> even (c + w)" and e2: "even (c - w) \<longleftrightarrow> even (c + w)" by presburger+
  have "is_int ((of_int w - of_int c) / 2) \<longleftrightarrow> even (c + w)"
    using half [of "w - c"] e1 by simp
  then have qd: "\<exists>h. q_doubled_to_cube \<lparr>dc_col = of_int c, dc_row = of_int w\<rparr> = Inr h \<and> (hex_lattice h \<longleftrightarrow> even (c + w))"
    by (auto simp add: q_doubled_to_cube_def intro!: is_int_minus is_int_diff)
  have "is_int ((of_int c - of_int w) / 2) \<longleftrightarrow> even (c + w)"
    using half [of "c - w"] e2 by simp
  then have rd: "\<exists>h. r_doubled_to_cube \<lparr>dc_col = of_int c, dc_row = of_int w\<rparr> = Inr h \<and> (hex_lattice h \<longleftrightarrow> even (c + w))"
    by (auto simp add: r_doubled_to_cube_def intro!: is_int_minus is_int_diff)
  from qd rd show ?thesis ..
qed


text \<open>
  C10: the doubled conversions are exact inverses: a valid hex survives
  \<open>qDoubledFromCube\<close>/\<open>qDoubledToCube\<close> and \<open>rDoubledFromCube\<close>/\<open>rDoubledToCube\<close>,
  and every doubled coordinate survives the conversion to a hex and back. The
  conversions to a hex never throw, and on integer doubled coordinates they return a
  lattice hex exactly when \<open>col + row\<close> is even; for an odd pair they silently
  return a fractional hex.
\<close>

theorem doubled_roundtrip:
  assumes "hex_valid h"
  shows "q_doubled_to_cube (q_doubled_from_cube h) = Inr h \<and>
         r_doubled_to_cube (r_doubled_from_cube h) = Inr h \<and>
         rbind (q_doubled_to_cube dc) (\<lambda>x. Inr (q_doubled_from_cube x)) = Inr dc \<and>
         rbind (r_doubled_to_cube dc) (\<lambda>x. Inr (r_doubled_from_cube x)) = Inr dc \<and>
         (\<exists>h. q_doubled_to_cube \<lparr>dc_col = of_int c, dc_row = of_int w\<rparr> = Inr h \<and> (hex_lattice h \<longleftrightarrow> even (c + w))) \<and>
         (\<exists>h. r_doubled_to_cube \<lparr>dc_col = of_int c, dc_row = of_int w\<rparr> = Inr h \<and> (hex_lattice h \<longleftrightarrow> even (c + w)))"
proof -
  have "q_doubled_to_cube (q_doubled_from_cube h) = Inr h \<and>
         r_doubled_to_cube (r_doubled_from_cube h) = Inr h \<and>
         rbind (q_doubled_to_cube dc) (\<lambda>x. Inr (q_doubled_from_cube x)) = Inr dc \<and>
         rbind (r_doubled_to_cube dc) (\<lambda>x. Inr (r_doubled_from_cube x)) = Inr dc"
    using assms
    by (cases h, cases dc)
       (simp add: q_doubled_to_cube_def q_doubled_from_cube_def r_doubled_to_cube_def
         r_doubled_from_cube_def field_simps)
  then show ?thesis using doubled_parity_lattice [of c w] by blast
qed

theorem doubled_roundtrip_witness:
  "q_doubled_to_cube (q_doubled_from_cube (Hex 1 1 (-2))) = Inr (Hex 1 1 (-2)) \<and>
   r_doubled_to_cube (r_doubled_from_cube (Hex 1 1 (-2))) = Inr (Hex 1 1 (-2)) \<and>
   rbind (q_doubled_to_cube \<lparr>dc_col = 1, dc_row = 3\<rparr>) (\<lambda>x. Inr (q_doubled_from_cube x)) =
     Inr \<lparr>dc_col = 1, dc_row = 3\<rparr> \<and>
   rbind (r_doubled_to_cube \<lparr>dc_col = 1, dc_row = 3\<rparr>) (\<lambda>x. Inr (r_doubled_from_cube x)) =
     Inr \<lparr>dc_col = 1, dc_row = 3\<rparr>"
proof -
  have "hex_valid (Hex 1 1 (-2))" by simp
  then show ?thesis using doubled_roundtrip [of "Hex 1 1 (-2)" "\<lparr>dc_col = 1, dc_row = 3\<rparr>" 1 2] by simp
qed

text \<open>
  C11: on lattice hexes the offset conversions produce integer columns and rows (the
  halving of the parity shear is exact), and integer offset coordinates convert back
  to lattice hexes, for both selectors and both the q- and r-offset layouts.
\<close>

theorem offset_lattice_integral:
  assumes "offset = offset_EVEN \<or> offset = offset_ODD" and "hex_lattice h"
    and "is_int (oc_col oc)" and "is_int (oc_row oc)"
  shows "(\<exists>c. q_offset_from_cube offset h = Inr c \<and> is_int (oc_col c) \<and> is_int (oc_row c)) \<and>
         (\<exists>c. r_offset_from_cube offset h = Inr c \<and> is_int (oc_col c) \<and> is_int (oc_row c)) \<and>
         (\<exists>x. q_offset_to_cube offset oc = Inr x \<and> hex_lattice x) \<and>
         (\<exists>x. r_offset_to_cube offset oc = Inr x \<and> hex_lattice x)"
proof -
  have off: "offset = 1 \<or> offset = -1" and ok: "\<not> bad_offset offset"
    using assms(1) by (auto simp add: offset_EVEN_def offset_ODD_def)
  from assms(2) obtain q r :: int where h: "h = Hex (of_int q) (of_int r) (- of_int q - of_int r)"
    by (rule hex_latticeE)
  from assms(3) obtain c where c: "oc_col oc = of_int c" by (rule is_intE)
  from assms(4) obtain w where w: "oc_row oc = of_int w" by (rule is_intE)
  have sq: "is_int ((of_int q + offset * js_and (of_int q) 1) / 2)"
    and sr: "is_int ((of_int r + offset * js_and (of_int r) 1) / 2)"
    and sc: "is_int ((of_int c + offset * js_and (of_int c) 1) / 2)"
    and sw: "is_int ((of_int w + offset * js_and (of_int w) 1) / 2)"
    using off by (rule parity_shear_even)+
  show ?thesis
    using ok sq sr sc sw
    by (auto simp add: h c w q_offset_from_cube_def r_offset_from_cube_def q_offset_to_cube_ok
        r_offset_to_cube_ok simp del: bad_offset_iff intro!: is_int_diff is_int_minus is_int_add)
qed

theorem offset_lattice_integral_witness:
  "(\<exists>c. q_offset_from_cube offset_ODD (Hex 3 (-1) (-2)) = Inr c \<and> is_int (oc_col c) \<and> is_int (oc_row c)) \<and>
   (\<exists>c. r_offset_from_cube offset_ODD (Hex 3 (-1) (-2)) = Inr c \<and> is_int (oc_col c) \<and> is_int (oc_row c)) \<and>
   (\<exists>x. q_offset_to_cube offset_ODD \<lparr>oc_col = 5, oc_row = -2\<rparr> = Inr x \<and> hex_lattice x) \<and>
   (\<exists>x. r_offset_to_cube offset_ODD \<lparr>oc_col = 5, oc_row = -2\<rparr> = Inr x \<and> hex_lattice x)"
proof -
  have "offset_ODD = offset_EVEN \<or> offset_ODD = offset_ODD" "hex_lattice (Hex 3 (-1) (-2))"
    "is_int (oc_col \<lparr>oc_col = 5, oc_row = -2\<rparr>)" "is_int (oc_row \<lparr>oc_col = 5, oc_row = -2\<rparr>)"
    by simp_all
  then show ?thesis by (rule offset_lattice_integral)
qed

text \<open>
  C13: every offset conversion throws \<open>InvalidParity\<close> for a selector other than
  \<open>EVEN\<close> or \<open>ODD\<close>.
\<close>

theorem offset_parity_error:
  assumes "offset \<noteq> offset_EVEN" and "offset \<noteq> offset_ODD"
  shows "q_offset_from_cube offset h = Inl InvalidParity \<and> q_offset_to_cube offset oc = Inl InvalidParity \<and>
         r_offset_from_cube offset h = Inl InvalidParity \<and> r_offset_to_cube offset oc = Inl InvalidParity"
  using assms
  by (simp add: q_offset_from_cube_def q_offset_to_cube_def r_offset_from_cube_def
      r_offset_to_cube_def bad_offset_def offset_EVEN_def offset_ODD_def)

theorem offset_parity_error_witness:
  "(0::real) \<noteq> offset_EVEN \<and> (0::real) \<noteq> offset_ODD \<and>
   q_offset_from_cube 0 (Hex 1 1 (-2)) = Inl InvalidParity \<and>
   q_offset_to_cube 0 \<lparr>oc_col = 1, oc_row = 2\<rparr> = Inl InvalidParity \<and>
   r_offset_from_cube 0 (Hex 1 1 (-2)) = Inl InvalidParity \<and>
   r_offset_to_cube 0 \<lparr>oc_col = 1, oc_row = 2\<rparr> = Inl InvalidParity"
proof -
  have "(0::real) \<noteq> offset_EVEN" "(0::real) \<noteq> offset_ODD"
    by (simp_all add: offset_EVEN_def offset_ODD_def)
  then show ?thesis
    using offset_parity_error [of 0 "Hex 1 1 (-2)" "\<lparr>oc_col = 1, oc_row = 2\<rparr>"] by simp
qed


subsection \<open>Hashes\<close>

text \<open>
  On integer coordinates within the range JavaScript prints in plain decimal, both
  hashes read back as the coordinates, so two such coordinates are \<open>equals\<close> exactly
  when their hashes are, as the specification requires.
\<close>

lemma coord_hash_roundtrip:
  assumes "js_int_string num_str" "is_int x" "is_int y" "\<bar>x\<bar> < 10 ^ 21" "\<bar>y\<bar> < 10 ^ 21"
  shows "parse_pair (offset_coord_hash num_str \<lparr>oc_col = x, oc_row = y\<rparr>) = Some (\<lfloor>x\<rfloor>, \<lfloor>y\<rfloor>) \<and>
         parse_pair (doubled_coord_hash num_str \<lparr>dc_col = x, dc_row = y\<rparr>) = Some (\<lfloor>x\<rfloor>, \<lfloor>y\<rfloor>)"
  using int_num_str [OF assms(1,2,4)] int_num_str [OF assms(1,3,5)]
  by (simp add: offset_coord_hash_def doubled_coord_hash_def parse_pair_int_str)

end
