(* ===== verification/Layout.thy ===== *)
theory Layout
  imports Hex
begin

text \<open>
  Orientation and layout: \<open>src/src/lib/hex/orientation.ts\<close> (class
  \<open>HexOrientation\<close> and its presets \<open>pointy\<close> and \<open>flat\<close>) and
  \<open>src/src/lib/hex/layout.ts\<close> (class \<open>HexLayout\<close>). An orientation is a record of
  its nine constructor fields; a layout a record of orientation, size and origin.
  \<open>hexToPixel\<close>, \<open>pixelToHex\<close> and \<open>polygonCorners\<close> compute points;
  \<open>hexCornerOffset\<close> throws outside \<open>[0, 5]\<close>, so it and \<open>polygonCorners\<close> return
  results. The loop \<open>for (const i of HexLayout.corners)\<close> is \<open>corners_loop\<close>.
  \<open>Math.PI\<close>, \<open>Math.cos\<close>, \<open>Math.sin\<close> and \<open>Math.sqrt\<close> are the exact \<open>pi\<close>,
  \<open>cos\<close>, \<open>sin\<close> and \<open>sqrt\<close>. A zero size makes \<open>pixelToHex\<close> divide by zero, which
  JavaScript answers with an infinity or \<open>NaN\<close>; the properties below assume a
  non-zero size.
\<close>

record hex_orientation =
  f0 :: number
  f1 :: number
  f2 :: number
  f3 :: number
  b0 :: number
  b1 :: number
  b2 :: number
  b3 :: number
  start_angle :: number

definition orientation_pointy :: hex_orientation where
  "orientation_pointy =
     \<lparr>f0 = sqrt 3, f1 = sqrt 3 / 2, f2 = 0, f3 = 3 / 2,
      b0 = sqrt 3 / 3, b1 = - 1 / 3, b2 = 0, b3 = 2 / 3, start_angle = 1 / 2\<rparr>"

definition orientation_flat :: hex_orientation where
  "orientation_flat =
     \<lparr>f0 = 3 / 2, f1 = 0, f2 = sqrt 3 / 2, f3 = sqrt 3,
      b0 = 2 / 3, b1 = 0, b2 = - 1 / 3, b3 = sqrt 3 / 3, start_angle = 0\<rparr>"

record hex_layout =
  orientation :: hex_orientation
  size :: point
  origin :: point

definition layout_corners :: "number list" where
  "layout_corners = [0, 1, 2, 3, 4, 5]"

definition hex_to_pixel :: "hex_layout \<Rightarrow> hex \<Rightarrow> point" where
  "hex_to_pixel L h =
     (let M = orientation L; sz = size L; org = origin L;
          x = (f0 M * hex_q h + f1 M * hex_r h) * px sz;
          y = (f2 M * hex_q h + f3 M * hex_r h) * py sz
      in \<lparr>px = x + px org, py = y + py org\<rparr>)"

definition pixel_to_hex :: "hex_layout \<Rightarrow> point \<Rightarrow> point" where
  "pixel_to_hex L p =
     (let M = orientation L; sz = size L; org = origin L;
          pt = \<lparr>px = (px p - px org) / px sz, py = (py p - py org) / py sz\<rparr>;
          x = b0 M * px pt + b1 M * py pt;
          y = b2 M * px pt + b3 M * py pt
      in \<lparr>px = x, py = y\<rparr>)"

definition corner_angle :: "hex_layout \<Rightarrow> number \<Rightarrow> real" where
  "corner_angle L corner = 2 * pi * (start_angle (orientation L) - corner) / 6"

definition hex_corner_offset :: "hex_layout \<Rightarrow> number \<Rightarrow> point result" where
  "hex_corner_offset L corner =
     (if corner < 0 \<or> corner > 5 then Inl IndexOutOfRange
      else Inr \<lparr>px = px (size L) * cos (corner_angle L corner),
                py = py (size L) * sin (corner_angle L corner)\<rparr>)"

primrec corners_loop :: "hex_layout \<Rightarrow> point \<Rightarrow> number list \<Rightarrow> point list \<Rightarrow> point list result" where
  "corners_loop L center [] acc = Inr acc"
| "corners_loop L center (i # is) acc =
     (case hex_corner_offset L i of
        Inl e \<Rightarrow> Inl e
      | Inr off \<Rightarrow> corners_loop L center is (acc @ [\<lparr>px = px center + px off, py = py center + py off\<rparr>]))"

definition polygon_corners :: "hex_layout \<Rightarrow> hex \<Rightarrow> point list result" where
  "polygon_corners L h = corners_loop L (hex_to_pixel L h) layout_corners []"

definition preset :: "hex_orientation \<Rightarrow> bool" where
  "preset M \<longleftrightarrow> M = orientation_pointy \<or> M = orientation_flat"

definition corner_point :: "hex_layout \<Rightarrow> point \<Rightarrow> number \<Rightarrow> point" where
  "corner_point L c i = \<lparr>px = px c + px (size L) * cos (corner_angle L i),
                         py = py c + py (size L) * sin (corner_angle L i)\<rparr>"

text \<open>The square of the Euclidean distance between two points.\<close>

definition pixel_dist2 :: "point \<Rightarrow> point \<Rightarrow> number" where
  "pixel_dist2 a b = (px a - px b)\<^sup>2 + (py a - py b)\<^sup>2"

subsection \<open>Helper facts\<close>

lemma sqrt3_sq [simp]: "sqrt 3 * sqrt 3 = (3::real)" by simp

lemma preset_inverse:
  assumes "preset M"
  shows "b0 M * f0 M + b1 M * f2 M = 1 \<and> b0 M * f1 M + b1 M * f3 M = 0 \<and>
         b2 M * f0 M + b3 M * f2 M = 0 \<and> b2 M * f1 M + b3 M * f3 M = 1 \<and>
         f0 M * b0 M + f1 M * b2 M = 1 \<and> f0 M * b1 M + f1 M * b3 M = 0 \<and>
         f2 M * b0 M + f3 M * b2 M = 0 \<and> f2 M * b1 M + f3 M * b3 M = 1"
  using assms by (auto simp add: preset_def orientation_pointy_def orientation_flat_def field_simps)

lemma pixel_to_hex_to_pixel:
  assumes "preset (orientation L)" "px (size L) \<noteq> 0" "py (size L) \<noteq> 0"
  shows "pixel_to_hex L (hex_to_pixel L h) = \<lparr>px = hex_q h, py = hex_r h\<rparr>"
proof -
  let ?M = "orientation L"
  have i: "b0 ?M * f0 ?M + b1 ?M * f2 ?M = 1" "b0 ?M * f1 ?M + b1 ?M * f3 ?M = 0"
    "b2 ?M * f0 ?M + b3 ?M * f2 ?M = 0" "b2 ?M * f1 ?M + b3 ?M * f3 ?M = 1"
    using preset_inverse [OF assms(1)] by auto
  have "b0 ?M * (f0 ?M * hex_q h + f1 ?M * hex_r h) + b1 ?M * (f2 ?M * hex_q h + f3 ?M * hex_r h)
      = (b0 ?M * f0 ?M + b1 ?M * f2 ?M) * hex_q h + (b0 ?M * f1 ?M + b1 ?M * f3 ?M) * hex_r h"
    "b2 ?M * (f0 ?M * hex_q h + f1 ?M * hex_r h) + b3 ?M * (f2 ?M * hex_q h + f3 ?M * hex_r h)
      = (b2 ?M * f0 ?M + b3 ?M * f2 ?M) * hex_q h + (b2 ?M * f1 ?M + b3 ?M * f3 ?M) * hex_r h"
    by (simp_all add: algebra_simps)
  then show ?thesis
    using assms(2,3) i by (simp add: pixel_to_hex_def hex_to_pixel_def Let_def)
qed

lemma hex_to_pixel_to_hex:
  assumes "preset (orientation L)" "px (size L) \<noteq> 0" "py (size L) \<noteq> 0"
  shows "hex_to_pixel L (Hex (px (pixel_to_hex L p)) (py (pixel_to_hex L p)) z) = p"
proof -
  let ?M = "orientation L"
  let ?u = "(px p - px (origin L)) / px (size L)" and ?v = "(py p - py (origin L)) / py (size L)"
  have i: "f0 ?M * b0 ?M + f1 ?M * b2 ?M = 1" "f0 ?M * b1 ?M + f1 ?M * b3 ?M = 0"
    "f2 ?M * b0 ?M + f3 ?M * b2 ?M = 0" "f2 ?M * b1 ?M + f3 ?M * b3 ?M = 1"
    using preset_inverse [OF assms(1)] by auto
  have "f0 ?M * (b0 ?M * ?u + b1 ?M * ?v) + f1 ?M * (b2 ?M * ?u + b3 ?M * ?v)
      = (f0 ?M * b0 ?M + f1 ?M * b2 ?M) * ?u + (f0 ?M * b1 ?M + f1 ?M * b3 ?M) * ?v"
    "f2 ?M * (b0 ?M * ?u + b1 ?M * ?v) + f3 ?M * (b2 ?M * ?u + b3 ?M * ?v)
      = (f2 ?M * b0 ?M + f3 ?M * b2 ?M) * ?u + (f2 ?M * b1 ?M + f3 ?M * b3 ?M) * ?v"
    by (simp_all add: algebra_simps)
  then show ?thesis
    using assms(2,3) i by (cases p) (simp add: pixel_to_hex_def hex_to_pixel_def Let_def)
qed

lemma layout_corners_nth: "i < 6 \<Longrightarrow> layout_corners ! i = of_nat i"
  by (auto dest!: less_6_cases simp add: layout_corners_def)

lemma corners_loop_ok:
  "\<forall>i \<in> set is. 0 \<le> i \<and> i \<le> 5 \<Longrightarrow>
   corners_loop L c is acc = Inr (acc @ map (corner_point L c) is)"
  by (induction "is" arbitrary: acc) (auto simp add: hex_corner_offset_def corner_point_def)

lemma polygon_corners_eq:
  "polygon_corners L h = Inr (map (corner_point L (hex_to_pixel L h)) layout_corners)"
proof -
  have "\<forall>i \<in> set layout_corners. 0 \<le> i \<and> i \<le> 5" by (simp add: layout_corners_def)
  then show ?thesis unfolding polygon_corners_def by (simp add: corners_loop_ok)
qed

lemma corner_radius:
  "(px (corner_point L c i) - px c)\<^sup>2 + (py (corner_point L c i) - py c)\<^sup>2 = s\<^sup>2"
  if "px (size L) = s" "py (size L) = s"
proof -
  have "(s * cos a)\<^sup>2 + (s * sin a)\<^sup>2 = s\<^sup>2" for a :: real
    by (simp add: power_mult_distrib flip: distrib_left)
  then show ?thesis using that by (simp add: corner_point_def)
qed

lemma chord_sq: "(cos a - cos b)\<^sup>2 + (sin a - sin b)\<^sup>2 = 2 - 2 * cos (a - b :: real)"
  using sin_cos_squared_add [of a] sin_cos_squared_add [of b] unfolding cos_diff by algebra

lemma corner_angle_step:
  "corner_angle L i - corner_angle L (i + 1) = pi / 3"
  by (simp add: corner_angle_def field_simps)

lemma chord_len:
  "(x + s * cos a - (x + s * cos b))\<^sup>2 + (y + s * sin a - (y + s * sin b))\<^sup>2
     = s\<^sup>2 * (2 - 2 * cos (a - b :: real))"
proof -
  have "(x + s * cos a - (x + s * cos b))\<^sup>2 + (y + s * sin a - (y + s * sin b))\<^sup>2
      = s\<^sup>2 * ((cos a - cos b)\<^sup>2 + (sin a - sin b)\<^sup>2)"
    by algebra
  also have "\<dots> = s\<^sup>2 * (2 - 2 * cos (a - b))" by (simp only: chord_sq)
  finally show ?thesis .
qed

lemma corner_side:
  assumes "px (size L) = s" "py (size L) = s"
  shows "(px (corner_point L c i) - px (corner_point L c (i + 1)))\<^sup>2 +
         (py (corner_point L c i) - py (corner_point L c (i + 1)))\<^sup>2 = s\<^sup>2"
  unfolding corner_point_def point.select_convs assms chord_len corner_angle_step cos_60 by simp

lemma corner_side_wrap:
  assumes "px (size L) = s" "py (size L) = s"
  shows "(px (corner_point L c 5) - px (corner_point L c 0))\<^sup>2 +
         (py (corner_point L c 5) - py (corner_point L c 0))\<^sup>2 = s\<^sup>2"
proof -
  have d: "corner_angle L 5 - corner_angle L 0 = pi / 3 - 2 * pi"
    by (simp add: corner_angle_def field_simps)
  have "cos (corner_angle L 5 - corner_angle L 0) = 1 / 2" unfolding d cos_diff by (simp add: cos_60)
  then show ?thesis unfolding corner_point_def point.select_convs assms chord_len by simp
qed


lemma pixel_dist2_add:
  "pixel_dist2 (hex_to_pixel L (Hex (hex_q h + hex_q v) (hex_r h + hex_r v) z)) (hex_to_pixel L h) =
   ((f0 (orientation L) * hex_q v + f1 (orientation L) * hex_r v) * px (size L))\<^sup>2 +
   ((f2 (orientation L) * hex_q v + f3 (orientation L) * hex_r v) * py (size L))\<^sup>2"
  by (simp add: pixel_dist2_def hex_to_pixel_def Let_def algebra_simps)

lemma preset_step_len:
  assumes "preset M" "d < 6"
  shows "(f0 M * hex_q (direction_deltas ! d) + f1 M * hex_r (direction_deltas ! d))\<^sup>2 +
         (f2 M * hex_q (direction_deltas ! d) + f3 M * hex_r (direction_deltas ! d))\<^sup>2 = 3 \<and>
         (f0 M * hex_q (diagonal_deltas ! d) + f1 M * hex_r (diagonal_deltas ! d))\<^sup>2 +
         (f2 M * hex_q (diagonal_deltas ! d) + f3 M * hex_r (diagonal_deltas ! d))\<^sup>2 = 9"
  using assms less_6_cases [OF assms(2)]
  by (auto simp add: preset_def orientation_pointy_def orientation_flat_def direction_deltas_def
      diagonal_deltas_def power2_eq_square algebra_simps)

lemma sq_sum_scale: "(a * c)\<^sup>2 + (b * c)\<^sup>2 = (a\<^sup>2 + b\<^sup>2) * (c\<^sup>2 :: real)"
  by (simp add: power_mult_distrib distrib_right)

subsection \<open>Properties of the layout\<close>

text \<open>
  C14: for the pointy and flat presets and a non-zero size, the two transforms are
  mutually inverse: \<open>pixelToHex\<close> inverts \<open>hexToPixel\<close> on the axial coordinates, so
  that building the hex from its result and rounding returns every lattice hex, and
  \<open>hexToPixel\<close> of the hex built from \<open>pixelToHex\<close> of any pixel is that pixel.
\<close>

theorem layout_roundtrip:
  assumes "preset (orientation L)" "px (size L) \<noteq> 0" "py (size L) \<noteq> 0" "hex_lattice h"
  shows "pixel_to_hex L (hex_to_pixel L h) = \<lparr>px = hex_q h, py = hex_r h\<rparr> \<and>
         rbind (new_hex (px (pixel_to_hex L (hex_to_pixel L h))) (py (pixel_to_hex L (hex_to_pixel L h))) None)
           hex_round = Inr h \<and>
         (\<forall>p. rbind (new_hex (px (pixel_to_hex L p)) (py (pixel_to_hex L p)) None)
                (\<lambda>x. Inr (hex_to_pixel L x)) = Inr p)"
proof -
  have p: "pixel_to_hex L (hex_to_pixel L h) = \<lparr>px = hex_q h, py = hex_r h\<rparr>"
    using assms(1-3) by (rule pixel_to_hex_to_pixel)
  have v: "hex_valid h" using assms(4) by (rule hex_lattice_valid)
  then have "Hex (hex_q h) (hex_r h) (- hex_q h - hex_r h) = h"
    by (cases h) (simp add: algebra_simps)
  then show ?thesis using p hex_round_of_lattice [OF assms(4)] hex_to_pixel_to_hex [OF assms(1-3)] by simp
qed

theorem layout_roundtrip_witness:
  "rbind (new_hex (px (pixel_to_hex (hex_layout.make orientation_flat \<lparr>px = 10, py = 10\<rparr> \<lparr>px = 350, py = 350\<rparr>)
        (hex_to_pixel (hex_layout.make orientation_flat \<lparr>px = 10, py = 10\<rparr> \<lparr>px = 350, py = 350\<rparr>) (Hex 2 (-1) (-1)))))
      (py (pixel_to_hex (hex_layout.make orientation_flat \<lparr>px = 10, py = 10\<rparr> \<lparr>px = 350, py = 350\<rparr>)
        (hex_to_pixel (hex_layout.make orientation_flat \<lparr>px = 10, py = 10\<rparr> \<lparr>px = 350, py = 350\<rparr>) (Hex 2 (-1) (-1)))))
      None) hex_round = Inr (Hex 2 (-1) (-1))"
proof -
  have "preset (orientation (hex_layout.make orientation_flat \<lparr>px = 10, py = 10\<rparr> \<lparr>px = 350, py = 350\<rparr>))"
    "px (size (hex_layout.make orientation_flat \<lparr>px = 10, py = 10\<rparr> \<lparr>px = 350, py = 350\<rparr>)) \<noteq> 0"
    "py (size (hex_layout.make orientation_flat \<lparr>px = 10, py = 10\<rparr> \<lparr>px = 350, py = 350\<rparr>)) \<noteq> 0"
    "hex_lattice (Hex 2 (-1) (-1))"
    by (simp_all add: preset_def hex_layout.defs)
  from layout_roundtrip [OF this] show ?thesis by blast
qed

text \<open>
  C16: for the pointy and flat presets and a square size \<open>(s, s)\<close>, \<open>hexToPixel\<close>
  puts the centre of each neighbour of a hex at distance \<open>sqrt 3 * |s|\<close> from the
  hex's centre and each diagonal neighbour at distance \<open>3 * |s|\<close>: the centres form
  the hexagonal lattice of hexagons of circumradius \<open>|s|\<close>. With size 10 the
  neighbour \<open>Hex(1, 0, -1)\<close> of the origin is about 17.32 away, not the 8.660 the
  specification computes for it.
\<close>

theorem neighbor_spacing:
  assumes "preset (orientation L)" "px (size L) = s" "py (size L) = s" "hex_valid h" "d < 6"
  shows "rbind (hex_neighbor h (of_nat d)) (\<lambda>n. Inr (pixel_dist2 (hex_to_pixel L n) (hex_to_pixel L h))) =
           Inr (3 * s\<^sup>2) \<and>
         rbind (hex_diagonal_neighbor h (of_nat d)) (\<lambda>n. Inr (pixel_dist2 (hex_to_pixel L n) (hex_to_pixel L h))) =
           Inr (9 * s\<^sup>2)"
  using assms preset_step_len [OF assms(1,5)]
  by (simp add: hex_neighbor_in_range hex_diagonal_neighbor_in_range hex_add_valid
      nth_direction_deltas_valid nth_diagonal_deltas_valid pixel_dist2_add sq_sum_scale)

theorem neighbor_spacing_witness:
  "rbind (hex_neighbor (Hex 0 0 0) 0) (\<lambda>n. Inr (pixel_dist2
      (hex_to_pixel \<lparr>orientation = orientation_pointy, size = \<lparr>px = 10, py = 10\<rparr>, origin = \<lparr>px = 0, py = 0\<rparr>\<rparr> n)
      (hex_to_pixel \<lparr>orientation = orientation_pointy, size = \<lparr>px = 10, py = 10\<rparr>, origin = \<lparr>px = 0, py = 0\<rparr>\<rparr> (Hex 0 0 0))))
   = Inr 300"
  using neighbor_spacing [of "\<lparr>orientation = orientation_pointy, size = \<lparr>px = 10, py = 10\<rparr>, origin = \<lparr>px = 0, py = 0\<rparr>\<rparr>"
      10 "Hex 0 0 0" 0]
  by (simp add: preset_def)

text \<open>
  C17: \<open>polygonCorners\<close> never throws and returns six points; with a square size
  \<open>(s, s)\<close> each lies at distance \<open>|s|\<close> from \<open>hexToPixel(h)\<close> and consecutive
  corners, the last and the first included, are \<open>|s|\<close> apart: a regular hexagon.
\<close>

theorem polygon_corners_regular:
  assumes "px (size L) = s" "py (size L) = s"
  shows "\<exists>cs. polygon_corners L h = Inr cs \<and> length cs = 6 \<and>
     (\<forall>i < 6. (px (cs ! i) - px (hex_to_pixel L h))\<^sup>2 + (py (cs ! i) - py (hex_to_pixel L h))\<^sup>2 = s\<^sup>2) \<and>
     (\<forall>i < 6. (px (cs ! i) - px (cs ! ((i + 1) mod 6)))\<^sup>2 +
              (py (cs ! i) - py (cs ! ((i + 1) mod 6)))\<^sup>2 = s\<^sup>2)"
proof -
  let ?c = "hex_to_pixel L h"
  let ?cs = "map (corner_point L ?c) layout_corners"
  have len: "length ?cs = 6" by (simp add: layout_corners_def)
  have nth: "?cs ! i = corner_point L ?c (of_nat i)" if "i < 6" for i
  proof -
    have "length layout_corners = 6" by (simp add: layout_corners_def)
    then show ?thesis using that by (simp add: layout_corners_nth)
  qed
  have rad: "\<forall>i < 6. (px (?cs ! i) - px ?c)\<^sup>2 + (py (?cs ! i) - py ?c)\<^sup>2 = s\<^sup>2"
    using corner_radius [OF assms] nth by simp
  have side: "(px (?cs ! i) - px (?cs ! ((i + 1) mod 6)))\<^sup>2 +
              (py (?cs ! i) - py (?cs ! ((i + 1) mod 6)))\<^sup>2 = s\<^sup>2" if "i < 6" for i
  proof (cases "i = 5")
    case True
    then show ?thesis using corner_side_wrap [OF assms, of ?c] nth [of 5] nth [of 0] by simp
  next
    case False
    with that have "(i + 1) mod 6 = i + 1" "i + 1 < 6" by simp_all
    then show ?thesis
      using corner_side [OF assms, of ?c "of_nat i"] nth [OF that] nth [of "i + 1"]
      by (simp add: add.commute)
  qed
  show ?thesis using polygon_corners_eq len rad side by blast
qed

theorem polygon_corners_regular_witness:
  "px (size (hex_layout.make orientation_flat \<lparr>px = 10, py = 10\<rparr> \<lparr>px = 0, py = 0\<rparr>)) = 10 \<and>
   py (size (hex_layout.make orientation_flat \<lparr>px = 10, py = 10\<rparr> \<lparr>px = 0, py = 0\<rparr>)) = 10 \<and>
   (\<exists>cs. polygon_corners (hex_layout.make orientation_flat \<lparr>px = 10, py = 10\<rparr> \<lparr>px = 0, py = 0\<rparr>) (Hex 1 0 (-1)) = Inr cs \<and>
      length cs = 6)"
proof -
  have a: "px (size (hex_layout.make orientation_flat \<lparr>px = 10, py = 10\<rparr> \<lparr>px = 0, py = 0\<rparr>)) = 10"
    "py (size (hex_layout.make orientation_flat \<lparr>px = 10, py = 10\<rparr> \<lparr>px = 0, py = 0\<rparr>)) = 10"
    by (simp_all add: hex_layout.defs)
  from polygon_corners_regular [OF a, of "Hex 1 0 (-1)"] a show ?thesis by blast
qed

end
