(* ===== verification/HexMap.thy ===== *)
theory HexMap
  imports Hex
begin

text \<open>
  The hex map of \<open>src/src/lib/hex/maps/index.ts\<close> (abstract class \<open>HexMap\<close>) and its
  hexagon-shaped population \<open>src/src/lib/hex/maps/hexagon-map.ts\<close>
  (\<open>HexagonHexMap\<close>). The container is a JavaScript \<open>Map<Hex, TData>\<close>, which compares
  keys by object identity and iterates in insertion order. The model therefore keeps
  an object store (\<open>hex_store\<close>: the \<open>Hex\<close> objects allocated so far, a reference
  being an index into it) and the map as the list of its entries in insertion order,
  keyed by reference. \<open>get\<close> returns \<open>hexData.get(hex) || null\<close>: a stored value
  that JavaScript treats as false reads as \<open>null\<close>; \<open>truthy\<close> is that test on the
  payload type.
\<close>

type_synonym hex_ref = nat
type_synonym hex_store = "hex list"

record 'd hex_map =
  hex_data :: "(hex_ref \<times> 'd) list"

definition hexmap_empty :: "'d hex_map" where
  "hexmap_empty = \<lparr>hex_data = []\<rparr>"

definition alloc_hex :: "hex_store \<Rightarrow> hex \<Rightarrow> hex_store \<times> hex_ref" where
  "alloc_hex store h = (store @ [h], length store)"

fun map_set :: "('k \<times> 'd) list \<Rightarrow> 'k \<Rightarrow> 'd \<Rightarrow> ('k \<times> 'd) list" where
  "map_set [] k d = [(k, d)]"
| "map_set ((k', d') # ps) k d = (if k' = k then (k, d) # ps else (k', d') # map_set ps k d)"

fun map_delete :: "('k \<times> 'd) list \<Rightarrow> 'k \<Rightarrow> ('k \<times> 'd) list" where
  "map_delete [] k = []"
| "map_delete ((k', d') # ps) k = (if k' = k then ps else (k', d') # map_delete ps k)"

fun map_lookup :: "('k \<times> 'd) list \<Rightarrow> 'k \<Rightarrow> 'd option" where
  "map_lookup [] k = None"
| "map_lookup ((k', d') # ps) k = (if k' = k then Some d' else map_lookup ps k)"

definition hexmap_for_each :: "('d \<Rightarrow> hex_ref \<Rightarrow> 's \<Rightarrow> 's) \<Rightarrow> 'd hex_map \<Rightarrow> 's \<Rightarrow> 's" where
  "hexmap_for_each callback m s = fold (\<lambda>(k, d) s. callback d k s) (hex_data m) s"

definition hexmap_has :: "'d hex_map \<Rightarrow> hex_ref \<Rightarrow> bool" where
  "hexmap_has m k \<longleftrightarrow> map_lookup (hex_data m) k \<noteq> None"

definition hexmap_get :: "('d \<Rightarrow> bool) \<Rightarrow> 'd hex_map \<Rightarrow> hex_ref \<Rightarrow> 'd option" where
  "hexmap_get truthy m k =
     (case map_lookup (hex_data m) k of None \<Rightarrow> None | Some d \<Rightarrow> if truthy d then Some d else None)"

definition hexmap_set :: "'d hex_map \<Rightarrow> hex_ref \<Rightarrow> 'd \<Rightarrow> 'd hex_map" where
  "hexmap_set m k d = m\<lparr>hex_data := map_set (hex_data m) k d\<rparr>"

definition hexmap_delete :: "'d hex_map \<Rightarrow> hex_ref \<Rightarrow> 'd hex_map" where
  "hexmap_delete m k = m\<lparr>hex_data := map_delete (hex_data m) k\<rparr>"

text \<open>
  \<open>HexagonHexMap\<close>: \<open>TestData\<close> is a record with one string field; the constructor's
  two nested loops over \<open>q\<close> and \<open>r\<close> (integers, as the grid size is) are
  \<open>hexagon_cols\<close> and \<open>hexagon_rows\<close>. Each iteration allocates a new \<open>Hex\<close> object
  and sets it with the payload \<open>{color: getHexColor(hex)}\<close>.
\<close>

record test_data =
  color :: string

definition default_hex_color :: "hex \<Rightarrow> string" where
  "default_hex_color h = ''gray''"

type_synonym populate_state = "hex_store \<times> test_data hex_map"

function hexagon_rows ::
  "(hex \<Rightarrow> string) \<Rightarrow> int \<Rightarrow> int \<Rightarrow> int \<Rightarrow> populate_state \<Rightarrow> populate_state result" where
  "hexagon_rows get_color q r r2 st =
     (if r \<le> r2 then
        (case new_hex (of_int q) (of_int r) (Some (of_int (- q - r))) of
           Inl e \<Rightarrow> Inl e
         | Inr h \<Rightarrow>
             (let (store', k) = alloc_hex (fst st) h
              in hexagon_rows get_color q (r + 1) r2
                   (store', hexmap_set (snd st) k \<lparr>color = get_color h\<rparr>)))
      else Inr st)"
  by pat_completeness auto
termination
  by (relation "measure (\<lambda>(f, q, r, r2, st). nat (r2 - r + 1))") auto

function hexagon_cols :: "int \<Rightarrow> (hex \<Rightarrow> string) \<Rightarrow> int \<Rightarrow> populate_state \<Rightarrow> populate_state result" where
  "hexagon_cols grid_size get_color q st =
     (if q \<le> grid_size then
        (case hexagon_rows get_color q (max (- grid_size) (- q - grid_size))
                (min grid_size (- q + grid_size)) st of
           Inl e \<Rightarrow> Inl e
         | Inr st' \<Rightarrow> hexagon_cols grid_size get_color (q + 1) st')
      else Inr st)"
  by pat_completeness auto
termination
  by (relation "measure (\<lambda>(n, f, q, st). nat (n - q + 1))") auto

definition hexagon_hex_map :: "int \<Rightarrow> (hex \<Rightarrow> string) \<Rightarrow> hex_store \<Rightarrow> populate_state result" where
  "hexagon_hex_map grid_size get_color store =
     hexagon_cols grid_size get_color (- grid_size) (store, hexmap_empty)"

declare hexagon_rows.simps [simp del] hexagon_cols.simps [simp del]

text \<open>
  The JavaScript truthiness test of \<open>get\<close> on the two payload types the repository
  uses: a number is falsy when it is \<open>0\<close> (NaN, the other falsy number, is outside the
  model of numbers), and an object such as \<open>TestData\<close> is always truthy.
\<close>

definition js_truthy_number :: "number \<Rightarrow> bool" where
  "js_truthy_number x \<longleftrightarrow> x \<noteq> 0"

definition test_data_truthy :: "test_data \<Rightarrow> bool" where
  "test_data_truthy d \<longleftrightarrow> True"

subsection \<open>Specification of the container and of the population\<close>

text \<open>
  The abstract view of a hex map is the partial function from references to payloads;
  a well-formed map has each key once. \<open>hexmap_reachable\<close> is the set of maps a client
  can build from the empty map with \<open>set\<close> and \<open>delete\<close>. \<open>hexagon_hexes n\<close> is the
  list of the lattice hexes the double loop visits, column by column, \<open>col_range\<close>
  the rows of one column and \<open>new_entries\<close> the entries the loop appends when the
  store already holds \<open>k\<close> objects.
\<close>

definition hexmap_wf :: "'d hex_map \<Rightarrow> bool" where
  "hexmap_wf m \<longleftrightarrow> distinct (map fst (hex_data m))"

definition hexmap_abs :: "'d hex_map \<Rightarrow> hex_ref \<rightharpoonup> 'd" where
  "hexmap_abs m = map_lookup (hex_data m)"

inductive hexmap_reachable :: "'d hex_map \<Rightarrow> bool" where
  reach_empty: "hexmap_reachable hexmap_empty"
| reach_set: "hexmap_reachable m \<Longrightarrow> hexmap_reachable (hexmap_set m k d)"
| reach_delete: "hexmap_reachable m \<Longrightarrow> hexmap_reachable (hexmap_delete m k)"

definition hexmap_visits :: "'d hex_map \<Rightarrow> (hex_ref \<times> 'd) list" where
  "hexmap_visits m = hexmap_for_each (\<lambda>d k acc. acc @ [(k, d)]) m []"

definition cube_hex :: "int \<Rightarrow> int \<Rightarrow> hex" where
  "cube_hex q r = Hex (of_int q) (of_int r) (of_int (- q - r))"

definition col_range :: "int \<Rightarrow> int \<Rightarrow> int list" where
  "col_range n q = [max (- n) (- q - n)..min n (- q + n)]"

definition hexagon_hexes :: "int \<Rightarrow> hex list" where
  "hexagon_hexes n = concat (map (\<lambda>q. map (cube_hex q) (col_range n q)) [- n..n])"

definition new_entries :: "(hex \<Rightarrow> string) \<Rightarrow> nat \<Rightarrow> hex list \<Rightarrow> (hex_ref \<times> test_data) list" where
  "new_entries f k hs = zip [k..<k + length hs] (map (\<lambda>h. \<lparr>color = f h\<rparr>) hs)"

definition keys_below :: "populate_state \<Rightarrow> bool" where
  "keys_below st \<longleftrightarrow> (\<forall>k \<in> set (map fst (hex_data (snd st))). k < length (fst st))"

subsection \<open>The container\<close>

lemma map_lookup_eq [simp]: "map_lookup ps = map_of ps"
  by (induction ps) (auto simp add: fun_eq_iff)

lemma keys_map_set [simp]: "map fst (map_set ps k d) = (if k \<in> set (map fst ps) then map fst ps else map fst ps @ [k])"
  by (induction ps) force+

lemma map_of_map_set [simp]: "map_of (map_set ps k d) = (map_of ps)(k \<mapsto> d)"
  by (induction ps) (auto simp add: fun_eq_iff)

lemma map_set_fresh: "k \<notin> set (map fst ps) \<Longrightarrow> map_set ps k d = ps @ [(k, d)]"
  by (induction ps) auto

lemma keys_map_delete: "distinct (map fst ps) \<Longrightarrow> map fst (map_delete ps k) = removeAll k (map fst ps)"
  by (induction ps) (auto simp add: removeAll_id)

lemma map_delete_removes: "distinct (map fst ps) \<Longrightarrow> k \<notin> set (map fst (map_delete ps k))"
  by (simp add: keys_map_delete)

lemma map_of_map_delete:
  "distinct (map fst ps) \<Longrightarrow> map_of (map_delete ps k) = (map_of ps)(k := None)"
proof (induction ps)
  case Nil
  then show ?case by (simp add: fun_eq_iff)
next
  case (Cons p ps)
  then show ?case by (cases p) (auto simp add: fun_eq_iff map_of_eq_None_iff)
qed

lemma distinct_map_set: "distinct (map fst ps) \<Longrightarrow> distinct (map fst (map_set ps k d))"
  by simp

lemma distinct_map_delete: "distinct (map fst ps) \<Longrightarrow> distinct (map fst (map_delete ps k))"
  by (simp add: keys_map_delete distinct_removeAll)

subsection \<open>The hexagon population\<close>

lemma new_entries_Nil [simp]: "new_entries f k [] = []"
  by (simp add: new_entries_def)

lemma new_entries_Cons: "new_entries f k (h # hs) = (k, \<lparr>color = f h\<rparr>) # new_entries f (Suc k) hs"
  by (simp add: new_entries_def upt_conv_Cons del: upt_Suc)

lemma new_entries_append:
  "new_entries f k (hs @ gs) = new_entries f k hs @ new_entries f (k + length hs) gs"
proof -
  have "[k..<k + length (hs @ gs)] = [k..<k + length hs] @ [k + length hs..<k + length hs + length gs]"
    using upt_add_eq_append [of k "k + length hs" "length gs"] by (simp add: add.assoc)
  then show ?thesis by (simp add: new_entries_def zip_append)
qed

lemma keys_new_entries: "map fst (new_entries f k hs) = [k..<k + length hs]"
  by (simp add: new_entries_def)

lemma new_hex_cube: "new_hex (of_int q) (of_int r) (Some (of_int (- q - r))) = Inr (cube_hex q r)"
  by (simp add: cube_hex_def)

lemma hexagon_rows_eq:
  "keys_below st \<Longrightarrow> hexagon_rows f q r r2 st =
     Inr (fst st @ map (cube_hex q) [r..r2],
          (snd st)\<lparr>hex_data := hex_data (snd st) @ new_entries f (length (fst st)) (map (cube_hex q) [r..r2])\<rparr>)"
proof (induction f q r r2 st rule: hexagon_rows.induct)
  case (1 f q r r2 st)
  show ?case
  proof (cases "r \<le> r2")
    case True
    obtain store m where st: "st = (store, m)" by fastforce
    let ?h = "cube_hex q r"
    let ?st' = "(store @ [?h], hexmap_set m (length store) \<lparr>color = f ?h\<rparr>)"
    have fresh: "length store \<notin> set (map fst (hex_data m))"
      using "1.prems" st by (auto simp add: keys_below_def)
    have set': "hexmap_set m (length store) \<lparr>color = f ?h\<rparr> =
        m\<lparr>hex_data := hex_data m @ [(length store, \<lparr>color = f ?h\<rparr>)]\<rparr>"
      using fresh by (simp add: hexmap_set_def map_set_fresh)
    have kb: "keys_below ?st'"
      using "1.prems" st by (auto simp add: keys_below_def set')
    have ih: "hexagon_rows f q (r + 1) r2 ?st' =
        Inr (store @ [?h] @ map (cube_hex q) [r + 1..r2],
             m\<lparr>hex_data := hex_data m @ [(length store, \<lparr>color = f ?h\<rparr>)] @
                new_entries f (Suc (length store)) (map (cube_hex q) [r + 1..r2])\<rparr>)"
    proof -
      have al: "(store @ [?h], length store) = alloc_hex (fst st) ?h" by (simp add: alloc_hex_def st)
      show ?thesis using "1.IH" [OF True new_hex_cube refl al] kb by (simp add: st set')
    qed
    have "[r..r2] = r # [r + 1..r2]" using True by (simp add: upto_rec1)
    then show ?thesis
      using True ih unfolding hexagon_rows.simps [of f q r r2] new_hex_cube
      by (simp add: st alloc_hex_def new_entries_Cons)
  next
    case False
    then show ?thesis by (simp add: hexagon_rows.simps [of f q r r2])
  qed
qed

lemma keys_below_extend:
  "keys_below st \<Longrightarrow>
   keys_below (fst st @ hs, (snd st)\<lparr>hex_data := hex_data (snd st) @ new_entries f (length (fst st)) hs\<rparr>)"
  by (auto simp add: keys_below_def keys_new_entries)

lemma hexagon_cols_eq:
  "keys_below st \<Longrightarrow> hexagon_cols n f q st =
     Inr (fst st @ concat (map (\<lambda>q. map (cube_hex q) (col_range n q)) [q..n]),
          (snd st)\<lparr>hex_data := hex_data (snd st) @ new_entries f (length (fst st))
              (concat (map (\<lambda>q. map (cube_hex q) (col_range n q)) [q..n]))\<rparr>)"
proof (induction n f q st rule: hexagon_cols.induct)
  case (1 n f q st)
  show ?case
  proof (cases "q \<le> n")
    case True
    let ?hs = "map (cube_hex q) (col_range n q)"
    let ?st' = "(fst st @ ?hs, (snd st)\<lparr>hex_data := hex_data (snd st) @ new_entries f (length (fst st)) ?hs\<rparr>)"
    have rows: "hexagon_rows f q (max (- n) (- q - n)) (min n (- q + n)) st = Inr ?st'"
      using hexagon_rows_eq [OF "1.prems"] by (simp add: col_range_def)
    have ih: "hexagon_cols n f (q + 1) ?st' =
       Inr (fst ?st' @ concat (map (\<lambda>q. map (cube_hex q) (col_range n q)) [q + 1..n]),
          (snd ?st')\<lparr>hex_data := hex_data (snd ?st') @ new_entries f (length (fst ?st'))
              (concat (map (\<lambda>q. map (cube_hex q) (col_range n q)) [q + 1..n]))\<rparr>)"
      using "1.IH" [OF True rows [unfolded col_range_def]] keys_below_extend [OF "1.prems"]
      by (simp add: col_range_def)
    have "[q..n] = q # [q + 1..n]" using True by (simp add: upto_rec1)
    then show ?thesis
      using ih unfolding hexagon_cols.simps [of n f q] rows
      by (simp add: True new_entries_append)
  next
    case False
    then show ?thesis by (simp add: hexagon_cols.simps [of n f q])
  qed
qed

lemma hexagon_hex_map_eq:
  "hexagon_hex_map n f store =
     Inr (store @ hexagon_hexes n, \<lparr>hex_data = new_entries f (length store) (hexagon_hexes n)\<rparr>)"
  using hexagon_cols_eq [of "(store, hexmap_empty)" n f "- n"]
  by (simp add: hexagon_hex_map_def hexagon_hexes_def keys_below_def hexmap_empty_def)

lemma length_col_range:
  "- n \<le> q \<Longrightarrow> q \<le> n \<Longrightarrow> int (length (col_range n q)) = 2 * n + 1 - \<bar>q\<bar>"
  by (simp add: col_range_def)

lemma sum_list_upto: "sum_list (map f [a..b]) = sum f {a..b}"
  by (simp add: sum_list_distinct_conv_sum_set)

lemma int_sum_list_map: "int (sum_list (map f xs)) = sum_list (map (\<lambda>x. int (f x)) xs)"
  by (induction xs) simp_all

lemma sum_abs_sym: "(\<Sum>q\<in>{- int m..int m}. \<bar>q\<bar>) = int (m * (m + 1))"
proof (induction m)
  case 0 then show ?case by simp
next
  case (Suc m)
  have "{- int (Suc m)..int (Suc m)} = insert (- int (Suc m)) (insert (int (Suc m)) {- int m..int m})"
    by auto
  then show ?case using Suc by (simp add: algebra_simps)
qed

lemma length_hexagon_hexes:
  "0 \<le> n \<Longrightarrow> int (length (hexagon_hexes n)) = 3 * n\<^sup>2 + 3 * n + 1"
proof -
  assume n: "0 \<le> n"
  then obtain m where m: "n = int m" using nonneg_eq_int by blast
  have "int (length (hexagon_hexes n)) = (\<Sum>q\<in>{- n..n}. int (length (col_range n q)))"
    by (simp add: hexagon_hexes_def length_concat int_sum_list_map comp_def flip: sum_list_upto)
  also have "\<dots> = (\<Sum>q\<in>{- n..n}. 2 * n + 1 - \<bar>q\<bar>)"
    by (rule sum.cong) (auto simp add: length_col_range)
  also have "\<dots> = (2 * n + 1) * (2 * n + 1) - int (m * (m + 1))"
    using n by (simp add: sum_subtractf sum_abs_sym m)
  finally show ?thesis by (simp add: m power2_eq_square algebra_simps)
qed

lemma cube_hex_eq [simp]: "cube_hex q r = cube_hex q' r' \<longleftrightarrow> q = q' \<and> r = r'"
  by (auto simp add: cube_hex_def)

lemma hex_len_cube: "hex_len (cube_hex q r) = of_int (max \<bar>q\<bar> (max \<bar>r\<bar> \<bar>q + r\<bar>))"
  using hex_len_valid [of "cube_hex q r"] by (simp add: cube_hex_def of_int_max abs_minus_commute add.commute)

lemma cube_hex_lattice [simp]: "hex_lattice (cube_hex q r)"
  by (simp add: cube_hex_def is_int_diff is_int_minus)

lemma lattice_cube_hex: assumes "hex_lattice h" obtains q r where "h = cube_hex q r"
  using assms by (rule hex_latticeE) (simp add: cube_hex_def)

lemma cube_hex_in_hexagon:
  "cube_hex q r \<in> set (hexagon_hexes n) \<longleftrightarrow> max \<bar>q\<bar> (max \<bar>r\<bar> \<bar>q + r\<bar>) \<le> n"
  by (auto simp add: hexagon_hexes_def col_range_def intro!: bexI [of _ q] image_eqI [of _ "cube_hex q" r])

lemma set_hexagon_hexes: "set (hexagon_hexes n) = {h. hex_lattice h \<and> hex_len h \<le> of_int n}"
proof (intro set_eqI iffI)
  fix h assume "h \<in> set (hexagon_hexes n)"
  moreover obtain q r where "h = cube_hex q r"
    using calculation by (auto simp add: hexagon_hexes_def)
  ultimately show "h \<in> {h. hex_lattice h \<and> hex_len h \<le> of_int n}" by (simp add: hex_len_cube cube_hex_in_hexagon)
next
  fix h assume "h \<in> {h. hex_lattice h \<and> hex_len h \<le> of_int n}"
  then have l: "hex_lattice h" and b: "hex_len h \<le> of_int n" by auto
  from l obtain q r where h: "h = cube_hex q r" by (rule lattice_cube_hex)
  then show "h \<in> set (hexagon_hexes n)"
    using b by (simp add: cube_hex_in_hexagon hex_len_cube)
qed

lemma distinct_concat_cols:
  assumes "\<And>q r q' r'. g q r = g q' r' \<Longrightarrow> q = q' \<and> r = r'" "\<And>q. distinct (xs q)"
  shows "distinct qs \<Longrightarrow> distinct (concat (map (\<lambda>q. map (g q) (xs q)) qs))"
proof (induction qs)
  case Nil then show ?case by simp
next
  case (Cons q qs)
  have "inj_on (g q) (set (xs q))" using assms(1) by (auto simp add: inj_on_def)
  then show ?case using Cons assms by (auto simp add: distinct_map dest: assms(1))
qed

lemma distinct_hexagon_hexes: "distinct (hexagon_hexes n)"
  unfolding hexagon_hexes_def
  by (rule distinct_concat_cols) (simp_all add: col_range_def)

subsection \<open>Container and population lemmas\<close>

lemma new_entries_refs:
  "map (\<lambda>(k, d). (store @ hs) ! k) (new_entries f (length store) hs) = hs"
proof -
  have "map (\<lambda>(k, d). (store @ hs) ! k) (new_entries f (length store) hs) =
      map (\<lambda>k. (store @ hs) ! k) [length store..<length store + length hs]"
    by (subst keys_new_entries [of f "length store" hs, symmetric]) (simp add: case_prod_beta')
  also have "\<dots> = hs"
    by (rule nth_equalityI) (simp_all add: nth_append del: upt_Suc)
  finally show ?thesis .
qed

lemma new_entries_payload:
  "(k, d) \<in> set (new_entries f (length store) hs) \<Longrightarrow>
   k < length (store @ hs) \<and> d = \<lparr>color = f ((store @ hs) ! k)\<rparr>"
  by (auto simp add: new_entries_def set_zip nth_append)

lemma hexmap_wf_set: "hexmap_wf m \<Longrightarrow> hexmap_wf (hexmap_set m k d)"
  by (simp add: hexmap_wf_def hexmap_set_def)

lemma hexmap_wf_delete: "hexmap_wf m \<Longrightarrow> hexmap_wf (hexmap_delete m k)"
  by (simp add: hexmap_wf_def hexmap_delete_def distinct_map_delete)

lemma hexmap_visits_eq: "hexmap_visits m = hex_data m"
proof -
  have "fold (\<lambda>(k, d) s. s @ [(k, d)]) ps acc = acc @ ps" for ps :: "(hex_ref \<times> 'd) list" and acc
    by (induction ps arbitrary: acc) auto
  then have "fold (\<lambda>(k, d) s. s @ [(k, d)]) (hex_data m) [] = hex_data m"
    by (metis append_Nil)
  then show ?thesis by (simp add: hexmap_visits_def hexmap_for_each_def)
qed

lemma hexagon_hex_map_Inr:
  "hexagon_hex_map n f store = Inr (store', m) \<longleftrightarrow>
   store' = store @ hexagon_hexes n \<and> hex_data m = new_entries f (length store) (hexagon_hexes n)"
  by (cases m) (auto simp add: hexagon_hex_map_eq)

lemma new_entries_payloads:
  "map (\<lambda>(k, d). g d) (new_entries f L hs) = map (\<lambda>h. g \<lparr>color = f h\<rparr>) hs"
  by (induction hs arbitrary: L) (simp_all add: new_entries_Cons)

subsection \<open>Properties of the hex map\<close>

text \<open>
  C20: for a size \<open>n \<ge> 0\<close> the populated map has exactly \<open>3n\<^sup>2 + 3n + 1\<close>
  entries, one freshly allocated \<open>Hex\<close> object each.
\<close>
theorem hexagon_hex_map_count:
  assumes "0 \<le> n" "hexagon_hex_map n f store = Inr (store', m)"
  shows "int (length (hex_data m)) = 3 * n\<^sup>2 + 3 * n + 1 \<and> length store' = length store + length (hex_data m)"
  using assms(2) length_hexagon_hexes [OF assms(1)]
  by (simp add: hexagon_hex_map_Inr new_entries_def)

theorem hexagon_hex_map_count_witness:
  "hexagon_hex_map 2 default_hex_color [] = Inr (hexagon_hexes 2, \<lparr>hex_data = new_entries default_hex_color 0 (hexagon_hexes 2)\<rparr>) \<and>
   length (hex_data \<lparr>hex_data = new_entries default_hex_color 0 (hexagon_hexes 2)\<rparr>) = 19"
proof -
  have e: "hexagon_hex_map 2 default_hex_color [] = Inr (hexagon_hexes 2, \<lparr>hex_data = new_entries default_hex_color 0 (hexagon_hexes 2)\<rparr>)"
    by (simp add: hexagon_hex_map_eq)
  show ?thesis using hexagon_hex_map_count [OF _ e] e by simp
qed

text \<open>
  C21: the populated map is well formed (each key once), the hexes its keys refer to
  are pairwise distinct and are exactly the lattice hexes within distance \<open>n\<close> of
  the origin, and each entry's payload is the colour the callback gives its hex.
\<close>
theorem hexagon_hex_map_cells:
  assumes "hexagon_hex_map n f store = Inr (store', m)"
  shows "hexmap_wf m \<and>
    distinct (map (\<lambda>(k, d). store' ! k) (hex_data m)) \<and>
    set (map (\<lambda>(k, d). store' ! k) (hex_data m)) = {h. hex_lattice h \<and> hex_len h \<le> of_int n} \<and>
    (\<forall>(k, d) \<in> set (hex_data m). k < length store' \<and> d = \<lparr>color = f (store' ! k)\<rparr>)"
proof -
  have s: "store' = store @ hexagon_hexes n"
    and m: "hex_data m = new_entries f (length store) (hexagon_hexes n)"
    using assms by (simp_all add: hexagon_hex_map_Inr)
  show ?thesis
    unfolding s m new_entries_refs
    by (auto simp add: hexmap_wf_def m keys_new_entries distinct_hexagon_hexes set_hexagon_hexes
        dest: new_entries_payload)
qed

theorem hexagon_hex_map_cells_witness:
  "hexagon_hex_map 1 default_hex_color [] = Inr (hexagon_hexes 1, \<lparr>hex_data = new_entries default_hex_color 0 (hexagon_hexes 1)\<rparr>) \<and>
   Hex 1 (- 1) 0 \<in> set (map (\<lambda>(k, d). hexagon_hexes 1 ! k) (new_entries default_hex_color 0 (hexagon_hexes 1)))"
proof -
  have e: "hexagon_hex_map 1 default_hex_color [] = Inr (hexagon_hexes 1, \<lparr>hex_data = new_entries default_hex_color 0 (hexagon_hexes 1)\<rparr>)"
    by (simp add: hexagon_hex_map_eq)
  have "hex_lattice (Hex 1 (- 1) 0) \<and> hex_len (Hex 1 (- 1) 0) \<le> of_int 1"
    by (simp add: hex_len_def)
  then show ?thesis using hexagon_hex_map_cells [OF e] e by simp
qed

text \<open>
  The container refines the partial function it represents: on a well-formed
  map, \<open>set\<close>, \<open>delete\<close>, \<open>has\<close> and \<open>get\<close> (on the always-truthy
  \<open>TestData\<close> payload) implement update, removal, domain test and lookup of the
  abstract partial function.
\<close>
lemma hexmap_refinement:
  assumes "hexmap_wf m"
  shows "hexmap_abs (hexmap_set m k d) = (hexmap_abs m)(k \<mapsto> d) \<and>
    hexmap_abs (hexmap_delete m k) = (hexmap_abs m)(k := None) \<and>
    hexmap_has m k = (k \<in> dom (hexmap_abs m)) \<and>
    hexmap_get test_data_truthy m k = hexmap_abs m k"
  using assms
  by (simp add: hexmap_abs_def hexmap_set_def hexmap_delete_def hexmap_has_def hexmap_get_def
      hexmap_wf_def map_of_map_delete test_data_truthy_def domIff split: option.split)

text \<open>
  Every map built from the empty map by \<open>set\<close> and \<open>delete\<close> holds each
  key at most once.
\<close>
lemma hexmap_reachable_wf:
  "hexmap_reachable m \<Longrightarrow> hexmap_wf m"
  by (induction rule: hexmap_reachable.induct)
    (simp_all add: hexmap_wf_set hexmap_wf_delete, simp add: hexmap_wf_def hexmap_empty_def)

text \<open>
  \<open>forEach\<close> on a well-formed map visits every current entry exactly once:
  the visited keys are distinct and the visited pairs are the graph of the map.
\<close>
lemma hexmap_for_each_once:
  assumes "hexmap_wf m"
  shows "distinct (map fst (hexmap_visits m)) \<and>
    set (hexmap_visits m) = {(k, d). hexmap_abs m k = Some d}"
  using assms by (simp add: hexmap_visits_eq hexmap_wf_def hexmap_abs_def)

text \<open>
  C23: keys are compared by object identity: after populating a map of size
  \<open>n \<ge> 0\<close>, which contains a hex with coordinates (0, 0, 0), a newly constructed
  \<open>Hex(0, 0, 0)\<close> is not found by \<open>has\<close> or \<open>get\<close>, and \<open>set\<close> with it adds a
  second entry for the same coordinates.
\<close>
theorem hexmap_object_identity:
  assumes "0 \<le> n" "hexagon_hex_map n f store = Inr (store', m)"
    "alloc_hex store' (Hex 0 0 0) = (store'', k)"
  shows "Hex 0 0 0 \<in> set (map (\<lambda>(k, d). store' ! k) (hex_data m)) \<and>
    \<not> hexmap_has m k \<and> hexmap_get test_data_truthy m k = None \<and>
    length (hex_data (hexmap_set m k \<lparr>color = c\<rparr>)) = length (hex_data m) + 1"
proof -
  have s: "store' = store @ hexagon_hexes n"
    and m: "hex_data m = new_entries f (length store) (hexagon_hexes n)"
    and k: "k = length store'"
    using assms(2,3) by (simp_all add: hexagon_hex_map_Inr alloc_hex_def)
  have "cube_hex 0 0 \<in> set (hexagon_hexes n)"
    using assms(1) by (simp add: cube_hex_in_hexagon)
  then have o: "Hex 0 0 0 \<in> set (hexagon_hexes n)" by (simp add: cube_hex_def)
  have fresh: "k \<notin> set (map fst (hex_data m))"
    by (simp add: m keys_new_entries k s)
  then have none: "map_of (hex_data m) k = None"
    by (simp add: map_of_eq_None_iff)
  show ?thesis
    using o fresh none
    by (simp add: s m new_entries_refs hexmap_has_def hexmap_get_def hexmap_set_def map_set_fresh)
qed

theorem hexmap_object_identity_witness:
  "hexagon_hex_map 1 default_hex_color [] =
     Inr (hexagon_hexes 1, \<lparr>hex_data = new_entries default_hex_color 0 (hexagon_hexes 1)\<rparr>) \<and>
   \<not> hexmap_has \<lparr>hex_data = new_entries default_hex_color 0 (hexagon_hexes 1)\<rparr> (length (hexagon_hexes 1))"
proof -
  have e: "hexagon_hex_map 1 default_hex_color [] =
     Inr (hexagon_hexes 1, \<lparr>hex_data = new_entries default_hex_color 0 (hexagon_hexes 1)\<rparr>)"
    by (simp add: hexagon_hex_map_eq)
  have a: "alloc_hex (hexagon_hexes 1) (Hex 0 0 0) = (hexagon_hexes 1 @ [Hex 0 0 0], length (hexagon_hexes 1))"
    by (simp add: alloc_hex_def)
  show ?thesis using hexmap_object_identity [OF _ e a] e by simp
qed

end
