(* ===== verification/Renderer.thy ===== *)
theory Renderer
  imports Layout HexMap "HOL-Library.Stream"
begin

text \<open>
  The map renderer of \<open>src/src/lib/hex/renderer.ts\<close> (\<open>HexMapRenderer\<close>). The
  \<open>CanvasRenderingContext2D\<close> it draws on is modelled by the part of its state the
  renderer reads and writes: the canvas size, the three style properties it sets, and
  the trace of the drawing calls made so far, in order (\<open>canvas\<close>, \<open>draw_cmd\<close>).
  \<open>fill\<close> and \<open>stroke\<close> paint with the style current when they are called, so their
  trace entries carry it. Pixels are not modelled: the renderer's contract is the
  sequence of drawing calls it makes. The payload type is generic; \<open>color_of\<close>
  reads its optional \<open>color\<close> property. The module's unused helper \<open>remapRandom\<close>
  reads \<open>Math.random\<close>, modelled as the stream of the values it will return.
\<close>

datatype shape = Hexagon | Circle

datatype draw_cmd =
    ClearRect number number number number
  | FillRect string number number number number
  | BeginPath
  | MoveTo number number
  | LineTo number number
  | ClosePath
  | Arc number number number number number
  | Fill string
  | Stroke string number

record canvas =
  canvas_width :: number
  canvas_height :: number
  fill_style :: string
  stroke_style :: string
  line_width :: number
  trace :: "draw_cmd list"

definition emit :: "draw_cmd \<Rightarrow> canvas \<Rightarrow> canvas" where
  "emit c ctx = ctx\<lparr>trace := trace ctx @ [c]\<rparr>"

definition ctx_fill :: "canvas \<Rightarrow> canvas" where
  "ctx_fill ctx = emit (Fill (fill_style ctx)) ctx"

definition ctx_stroke :: "canvas \<Rightarrow> canvas" where
  "ctx_stroke ctx = emit (Stroke (stroke_style ctx) (line_width ctx)) ctx"

definition ctx_fill_rect :: "number \<Rightarrow> number \<Rightarrow> number \<Rightarrow> number \<Rightarrow> canvas \<Rightarrow> canvas" where
  "ctx_fill_rect x y w h ctx = emit (FillRect (fill_style ctx) x y w h) ctx"

record hex_map_renderer =
  r_layout :: hex_layout
  background_color :: string

definition new_renderer :: "hex_layout \<Rightarrow> string option \<Rightarrow> hex_map_renderer" where
  "new_renderer L bg = \<lparr>r_layout = L, background_color = (case bg of None \<Rightarrow> ''transparent'' | Some c \<Rightarrow> c)\<rparr>"

definition resolve_fill :: "('d \<Rightarrow> string option) \<Rightarrow> 'd option \<Rightarrow> string" where
  "resolve_fill color_of data =
     (case data of None \<Rightarrow> ''black''
      | Some d \<Rightarrow> (case color_of d of None \<Rightarrow> ''black'' | Some c \<Rightarrow> if c = [] then ''black'' else c))"

definition hexagon_path :: "point list \<Rightarrow> canvas \<Rightarrow> canvas" where
  "hexagon_path corners ctx =
     emit ClosePath
       (fold (\<lambda>i c. emit (LineTo (px (corners ! i)) (py (corners ! i))) c) [1..<6]
         (emit (MoveTo (px (corners ! 0)) (py (corners ! 0))) ctx))"

definition render_hex ::
  "('d \<Rightarrow> string option) \<Rightarrow> hex_map_renderer \<Rightarrow> canvas \<Rightarrow> hex \<Rightarrow> 'd option \<Rightarrow> shape \<Rightarrow> canvas result" where
  "render_hex color_of R ctx h data sh =
     rbind (polygon_corners (r_layout R) h) (\<lambda>corners.
       let ctx = emit BeginPath ctx;
           ctx = (case sh of
                    Hexagon \<Rightarrow> hexagon_path corners ctx
                  | Circle \<Rightarrow>
                      (let center = hex_to_pixel (r_layout R) h
                       in emit (Arc (px center) (py center) (py (size (r_layout R)) / 2) 0 (2 * pi)) ctx));
           col = resolve_fill color_of data;
           ctx = ctx\<lparr>fill_style := col, stroke_style := col, line_width := 2\<rparr>
       in Inr (ctx_stroke (ctx_fill ctx)))"

fun render_entries ::
  "('d \<Rightarrow> string option) \<Rightarrow> hex_map_renderer \<Rightarrow> hex_store \<Rightarrow> shape \<Rightarrow>
   (hex_ref \<times> 'd) list \<Rightarrow> canvas \<Rightarrow> canvas result" where
  "render_entries color_of R store sh [] ctx = Inr ctx"
| "render_entries color_of R store sh ((k, d) # es) ctx =
     rbind (render_hex color_of R ctx (store ! k) (Some d) sh)
       (render_entries color_of R store sh es)"

definition clear_canvas :: "hex_map_renderer \<Rightarrow> canvas \<Rightarrow> canvas" where
  "clear_canvas R ctx =
     (let ctx = emit (ClearRect 0 0 (canvas_width ctx) (canvas_height ctx)) ctx;
          ctx = ctx\<lparr>fill_style := background_color R\<rparr>
      in ctx_fill_rect 0 0 (canvas_width ctx) (canvas_height ctx) ctx)"

definition render_map ::
  "('d \<Rightarrow> string option) \<Rightarrow> hex_map_renderer \<Rightarrow> canvas \<Rightarrow> hex_store \<Rightarrow> 'd hex_map \<Rightarrow>
   shape \<Rightarrow> bool \<Rightarrow> canvas result" where
  "render_map color_of R ctx store m sh clear =
     render_entries color_of R store sh (hex_data m) (if clear then clear_canvas R ctx else ctx)"


definition remap_random :: "number stream \<Rightarrow> number \<times> number stream" where
  "remap_random rs = (shd rs * 2 - 1, stl rs)"

text \<open>
  \<open>HexMapConfig\<close> of \<open>src/src/lib/hex/config.ts\<close>: a pair of callbacks, the
  population (a mutation of the map, here a map transformer) and the render pass (a
  sequence of drawing calls on a canvas, here a canvas transformer), with builders that
  copy the configuration replacing one or both. No other source uses it.
\<close>

record 'd hex_map_config =
  cfg_populate :: "'d hex_map \<Rightarrow> 'd hex_map"
  cfg_render :: "canvas \<Rightarrow> 'd hex_map \<Rightarrow> canvas"

definition new_hex_map_config ::
  "('d hex_map \<Rightarrow> 'd hex_map) \<Rightarrow> (canvas \<Rightarrow> 'd hex_map \<Rightarrow> canvas) \<Rightarrow> 'd hex_map_config" where
  "new_hex_map_config populate render = \<lparr>cfg_populate = populate, cfg_render = render\<rparr>"

definition with_populate :: "'d hex_map_config \<Rightarrow> ('d hex_map \<Rightarrow> 'd hex_map) \<Rightarrow> 'd hex_map_config" where
  "with_populate c populate = new_hex_map_config populate (cfg_render c)"

definition with_render :: "'d hex_map_config \<Rightarrow> (canvas \<Rightarrow> 'd hex_map \<Rightarrow> canvas) \<Rightarrow> 'd hex_map_config" where
  "with_render c render = new_hex_map_config (cfg_populate c) render"

definition with_populate_and_render ::
  "'d hex_map_config \<Rightarrow> ('d hex_map \<Rightarrow> 'd hex_map) \<Rightarrow> (canvas \<Rightarrow> 'd hex_map \<Rightarrow> canvas) \<Rightarrow> 'd hex_map_config" where
  "with_populate_and_render c populate render = new_hex_map_config populate render"

text \<open>
  The specification of the renderer's output: the drawing calls for one hex
  (\<open>hex_cmds\<close>) and for a list of map entries (\<open>entries_cmds\<close>); \<open>fills\<close> and
  \<open>paths\<close> count the fill calls, with their styles, and the paths begun in a trace.
\<close>

definition hex_cmds :: "('d \<Rightarrow> string option) \<Rightarrow> hex_map_renderer \<Rightarrow> hex \<Rightarrow> 'd option \<Rightarrow> shape \<Rightarrow> draw_cmd list" where
  "hex_cmds color_of R h data sh =
     (let L = r_layout R; c = hex_to_pixel L h; col = resolve_fill color_of data;
          pt = corner_point L c
      in BeginPath #
         (case sh of
            Hexagon \<Rightarrow> MoveTo (px (pt 0)) (py (pt 0)) #
                       map (\<lambda>i. LineTo (px (pt (of_nat i))) (py (pt (of_nat i)))) [1..<6] @ [ClosePath]
          | Circle \<Rightarrow> [Arc (px c) (py c) (py (size L) / 2) 0 (2 * pi)]) @
         [Fill col, Stroke col 2])"

fun fills :: "draw_cmd list \<Rightarrow> string list" where
  "fills [] = []"
| "fills (Fill c # cs) = c # fills cs"
| "fills (_ # cs) = fills cs"

fun paths :: "draw_cmd list \<Rightarrow> nat" where
  "paths [] = 0"
| "paths (BeginPath # cs) = Suc (paths cs)"
| "paths (_ # cs) = paths cs"

definition entries_cmds ::
  "('d \<Rightarrow> string option) \<Rightarrow> hex_map_renderer \<Rightarrow> hex_store \<Rightarrow> shape \<Rightarrow> (hex_ref \<times> 'd) list \<Rightarrow> draw_cmd list" where
  "entries_cmds color_of R store sh es = concat (map (\<lambda>(k, d). hex_cmds color_of R (store ! k) (Some d) sh) es)"

subsection \<open>Renderer lemmas\<close>

lemma trace_emit [simp]: "trace (emit c ctx) = trace ctx @ [c]"
  by (simp add: emit_def)

lemma emit_fields [simp]:
  "canvas_width (emit c ctx) = canvas_width ctx" "canvas_height (emit c ctx) = canvas_height ctx"
  "fill_style (emit c ctx) = fill_style ctx" "stroke_style (emit c ctx) = stroke_style ctx"
  "line_width (emit c ctx) = line_width ctx"
  by (simp_all add: emit_def)

lemma fold_emit:
  "fold (\<lambda>i c. emit (g i) c) is ctx = ctx\<lparr>trace := trace ctx @ map g is\<rparr>"
  by (induction "is" arbitrary: ctx) (simp_all add: emit_def)

lemma corners_nth:
  "i < 6 \<Longrightarrow> map (corner_point L c) layout_corners ! i = corner_point L c (of_nat i)"
proof -
  assume "i < 6"
  moreover have "length layout_corners = 6" by (simp add: layout_corners_def)
  ultimately show ?thesis by (simp add: layout_corners_nth)
qed

lemma render_hex_eq:
  "render_hex color_of R ctx h data sh =
     Inr (ctx\<lparr>fill_style := resolve_fill color_of data, stroke_style := resolve_fill color_of data,
              line_width := 2, trace := trace ctx @ hex_cmds color_of R h data sh\<rparr>)"
proof -
  let ?cs = "map (corner_point (r_layout R) (hex_to_pixel (r_layout R) h)) layout_corners"
  have l: "map (\<lambda>i. LineTo (px (?cs ! i)) (py (?cs ! i))) [1..<6] =
      map (\<lambda>i. LineTo (px (corner_point (r_layout R) (hex_to_pixel (r_layout R) h) (of_nat i)))
                       (py (corner_point (r_layout R) (hex_to_pixel (r_layout R) h) (of_nat i)))) [1..<6]"
    by (rule map_cong) (simp_all add: corners_nth)
  show ?thesis
    unfolding render_hex_def polygon_corners_eq hexagon_path_def fold_emit
    by (cases sh) (simp_all add: hex_cmds_def Let_def ctx_fill_def ctx_stroke_def emit_def corners_nth l)
qed

lemma fills_append [simp]: "fills (xs @ ys) = fills xs @ fills ys"
  by (induction xs rule: fills.induct) simp_all

lemma paths_append [simp]: "paths (xs @ ys) = paths xs + paths ys"
  by (induction xs rule: paths.induct) simp_all

lemma fills_paths_lines [simp]:
  "fills (map (\<lambda>i. LineTo (f i) (g i)) xs) = [] \<and> paths (map (\<lambda>i. LineTo (f i) (g i)) xs) = 0"
  by (induction xs) simp_all

lemma fills_hex_cmds [simp]: "fills (hex_cmds color_of R h data sh) = [resolve_fill color_of data]"
  by (cases sh) (simp_all add: hex_cmds_def Let_def)

lemma paths_hex_cmds [simp]: "paths (hex_cmds color_of R h data sh) = 1"
  by (cases sh) (simp_all add: hex_cmds_def Let_def)

lemma render_entries_eq:
  "\<exists>ctx'. render_entries color_of R store sh es ctx = Inr ctx' \<and>
     trace ctx' = trace ctx @ entries_cmds color_of R store sh es \<and>
     canvas_width ctx' = canvas_width ctx \<and> canvas_height ctx' = canvas_height ctx"
proof (induction es arbitrary: ctx)
  case Nil
  then show ?case by (simp add: entries_cmds_def)
next
  case (Cons e es)
  obtain k d where e: "e = (k, d)" by fastforce
  show ?case
    using Cons.IH [of "ctx\<lparr>fill_style := resolve_fill color_of (Some d),
        stroke_style := resolve_fill color_of (Some d), line_width := 2,
        trace := trace ctx @ hex_cmds color_of R (store ! k) (Some d) sh\<rparr>"]
    by (auto simp add: e render_hex_eq entries_cmds_def)
qed

lemma trace_clear_canvas:
  "trace (clear_canvas R ctx) = trace ctx @ [ClearRect 0 0 (canvas_width ctx) (canvas_height ctx),
      FillRect (background_color R) 0 0 (canvas_width ctx) (canvas_height ctx)]
   \<and> canvas_width (clear_canvas R ctx) = canvas_width ctx \<and> canvas_height (clear_canvas R ctx) = canvas_height ctx"
  by (simp add: clear_canvas_def ctx_fill_rect_def emit_def)

lemma fills_entries_cmds [simp]:
  "fills (entries_cmds color_of R store sh es) = map (\<lambda>(k, d). resolve_fill color_of (Some d)) es"
  by (induction es) (auto simp add: entries_cmds_def)

lemma paths_entries_cmds [simp]: "paths (entries_cmds color_of R store sh es) = length es"
  by (induction es) (auto simp add: entries_cmds_def)

subsection \<open>Properties of the renderer\<close>

text \<open>
  C32: renderMap never throws, and the drawing calls it makes are the clearing pair
  (clearRect and a fillRect in the background colour) when clear is set, followed by
  the draw commands of each map entry in the map's iteration order: for a hexagon a
  closed path through the six polygon corners, for a circle an arc of radius
  size.y / 2 about the hex centre, then fill and stroke with the entry's colour and
  line width 2.
\<close>

theorem render_map_trace:
  "\<exists>ctx'. render_map color_of R ctx store m sh clear = Inr ctx' \<and>
     trace ctx' = trace ctx @
       (if clear then [ClearRect 0 0 (canvas_width ctx) (canvas_height ctx),
                       FillRect (background_color R) 0 0 (canvas_width ctx) (canvas_height ctx)] else []) @
       entries_cmds color_of R store sh (hex_data m)"
  using render_entries_eq [of color_of R store sh "hex_data m" "if clear then clear_canvas R ctx else ctx"]
  by (cases clear) (auto simp add: render_map_def trace_clear_canvas)

lemma remap_random_range:
  "sset rs \<subseteq> {0..<1} \<Longrightarrow>
   - 1 \<le> fst (remap_random rs) \<and> fst (remap_random rs) < 1 \<and> sset (snd (remap_random rs)) \<subseteq> {0..<1}"
  using shd_sset [of rs] stl_sset [of _ rs] by (auto simp add: remap_random_def)

end
