(* ===== verification/Noise.thy ===== *)
theory Noise
  imports Prelude "HOL-Library.Monad_Syntax" "HOL-Library.Stream"
begin

text \<open>
  The noise field of \<open>src/src/lib/noise/noise.ts\<close>. The module builds, once, a
  \<open>Uint8Array\<close> \<open>p\<close> of 512 bytes from the 256-entry sequence \<open>P\<close> of \<open>p.ts\<close>
  (a file the repository imports but does not contain, so \<open>P\<close> is a parameter of
  every theorem): \<open>perm_init\<close> is that initialisation loop, storing each value with
  the \<open>ToUint8\<close> conversion of a typed-array write (\<open>to_uint8\<close>; a missing entry of
  \<open>P\<close> reads \<open>undefined\<close> and is stored as 0). \<open>perlin2\<close> takes the table as an
  argument; each typed-array read is \<open>js_index\<close>, and a read out of range, which in
  JavaScript would silently yield \<open>undefined\<close> and a \<open>NaN\<close> result, makes the model
  return \<open>None\<close>, so that the theorems show that no read is ever out of range.
  \<open>octave2\<close> (a private helper of the module) sums a base noise function over
  octaves; its result \<open>value / total\<close> is \<open>NaN\<close> when the loop never runs, which the
  model returns as \<open>None\<close>; the accumulator \<open>total\<close> is named \<open>tot\<close>
  (\<open>total\<close> is a constant of HOL). \<open>Noise.random2\<close> calls \<open>Math.random\<close> twice: the
  generator is modelled as the stream of the values it will return, which
  \<open>random2\<close> consumes from the left (the x coordinate first).
\<close>

definition to_uint8 :: "number option \<Rightarrow> 8 word" where
  "to_uint8 v = (case v of None \<Rightarrow> 0 | Some x \<Rightarrow> word_of_int (js_trunc x))"

definition perm_init :: "number list \<Rightarrow> 8 word list" where
  "perm_init P =
     fold (\<lambda>i p. let v = js_index P (of_nat i) in p[i + 256 := to_uint8 v, i := to_uint8 v])
       [0..<256] (replicate 512 0)"

definition byte_val :: "8 word \<Rightarrow> number" where
  "byte_val w = of_nat (unat w)"

definition fade :: "number \<Rightarrow> number" where
  "fade t = t * t * t * (t * (t * 6 - 15) + 10)"

definition lerp :: "number \<Rightarrow> number \<Rightarrow> number \<Rightarrow> number" where
  "lerp t a b = a + t * (b - a)"

definition grad2 :: "number \<Rightarrow> number \<Rightarrow> number \<Rightarrow> number" where
  "grad2 i x y = (let v = if js_and i 1 \<noteq> 0 then y else x in if js_and i 2 \<noteq> 0 then - v else v)"

definition perlin2 :: "8 word list \<Rightarrow> number \<Rightarrow> number \<Rightarrow> number option" where
  "perlin2 p x y = do {
     let xi = of_int \<lfloor>x\<rfloor>;
     let yi = of_int \<lfloor>y\<rfloor>;
     let X = js_and xi 255;
     let Y = js_and yi 255;
     let x = x - xi;
     let y = y - yi;
     let u = fade x;
     let v = fade y;
     pX \<leftarrow> js_index p X;
     pX1 \<leftarrow> js_index p (X + 1);
     let A = byte_val pX + Y;
     let B = byte_val pX1 + Y;
     pA \<leftarrow> js_index p A;
     pB \<leftarrow> js_index p B;
     pA1 \<leftarrow> js_index p (A + 1);
     pB1 \<leftarrow> js_index p (B + 1);
     Some (lerp v (lerp u (grad2 (byte_val pA) x y) (grad2 (byte_val pB) (x - 1) y))
                  (lerp u (grad2 (byte_val pA1) x (y - 1)) (grad2 (byte_val pB1) (x - 1) (y - 1))))
   }"

definition random2 :: "number stream \<Rightarrow> point \<times> number stream" where
  "random2 rs = (\<lparr>px = shd rs, py = shd (stl rs)\<rparr>, stl (stl rs))"

function octave_loop ::
  "(number \<Rightarrow> number \<Rightarrow> number) \<Rightarrow> number \<Rightarrow> number \<Rightarrow> number \<Rightarrow> nat \<Rightarrow>
   number \<Rightarrow> number \<Rightarrow> number \<Rightarrow> number \<Rightarrow> number \<times> number" where
  "octave_loop noise octaves x y i tot frequency amplitude value =
     (if of_nat i < octaves then
        octave_loop noise octaves x y (Suc i) (tot + amplitude) (frequency * 2) (amplitude * (1 / 2))
          (value + noise (x * frequency) (y * frequency) * amplitude)
      else (tot, value))"
  by pat_completeness auto
termination
proof (relation "measure (\<lambda>(noise, octaves, x, y, i, _). nat \<lceil>octaves\<rceil> - i)", goal_cases)
  case 1
  then show ?case by simp
next
  case (2 noise octaves x y i)
  then have "int i < \<lceil>octaves\<rceil>" by (simp add: less_ceiling_iff)
  then show ?case by simp
qed

definition octave2 :: "(number \<Rightarrow> number \<Rightarrow> number) \<Rightarrow> number \<Rightarrow> number \<Rightarrow> number \<Rightarrow> number option" where
  "octave2 noise octaves x y =
     (let (tot, value) = octave_loop noise octaves x y 0 0 1 1 0
      in if tot = 0 then None else Some (value / tot))"

declare octave_loop.simps [simp del]

subsection \<open>The permutation table\<close>

lemma mod256_cases:
  assumes "j < 512" "k < (256::nat)"
  shows "j mod 256 = k \<longleftrightarrow> j = k \<or> j = k + 256"
proof -
  define m d where "m = j mod 256" and "d = j div 256"
  have m: "m < 256" and j: "j = m + 256 * d" and d: "d < 2"
    using assms(1) by (simp_all add: m_def d_def div_less_iff_less_mult)
  have "j mod 256 = m" by (simp add: m_def)
  then show ?thesis using m j d assms(2) by (cases d) auto
qed

lemma perm_step:
  assumes "k < 256"
  shows "(map (\<lambda>j. if j mod 256 < k then f (j mod 256) else 0) [0..<512])[k + 256 := f k, k := f k] =
         map (\<lambda>j. if j mod 256 < Suc k then f (j mod 256) else 0) [0..<512]"
proof (rule nth_equalityI)
  show "length ((map (\<lambda>j. if j mod 256 < k then f (j mod 256) else 0) [0..<512])[k + 256 := f k, k := f k]) =
        length (map (\<lambda>j. if j mod 256 < Suc k then f (j mod 256) else 0) [0..<512])" by simp
next
  fix j assume "j < length ((map (\<lambda>j. if j mod 256 < k then f (j mod 256) else 0) [0..<512])[k + 256 := f k, k := f k])"
  then have j: "j < 512" by simp
  have "j mod 256 = k \<longleftrightarrow> j = k \<or> j = k + 256" using j assms by (rule mod256_cases)
  then show "(map (\<lambda>j. if j mod 256 < k then f (j mod 256) else 0) [0..<512])[k + 256 := f k, k := f k] ! j =
        map (\<lambda>j. if j mod 256 < Suc k then f (j mod 256) else 0) [0..<512] ! j"
    using j assms by (auto simp add: nth_list_update less_Suc_eq)
qed

lemma perm_init_eq:
  "perm_init P = map (\<lambda>j. to_uint8 (js_index P (of_nat (j mod 256)))) [0..<512]"
proof -
  let ?f = "\<lambda>i. to_uint8 (js_index P (of_nat i))"
  have "fold (\<lambda>i p. let v = js_index P (of_nat i) in p[i + 256 := to_uint8 v, i := to_uint8 v]) [0..<k]
          (replicate 512 0) = map (\<lambda>j. if j mod 256 < k then ?f (j mod 256) else 0) [0..<512]"
    if "k \<le> 256" for k
    using that
  proof (induction k)
    case 0
    have "map (\<lambda>j. if j mod 256 < 0 then ?f (j mod 256) else 0) [0..<512] = map (\<lambda>j. 0) [0..<512]"
      by simp
    then show ?case by (simp only: map_replicate_const length_upt) simp
  next
    case (Suc k)
    then have "fold (\<lambda>i p. let v = js_index P (of_nat i) in p[i + 256 := to_uint8 v, i := to_uint8 v]) [0..<k]
          (replicate 512 0) = map (\<lambda>j. if j mod 256 < k then ?f (j mod 256) else 0) [0..<512]"
      by simp
    then show ?case using perm_step [of k ?f] Suc.prems by (simp add: Let_def)
  qed
  from this [of 256] show ?thesis
    unfolding perm_init_def by simp
qed

lemma length_perm_init [simp]: "length (perm_init P) = 512"
  by (simp add: perm_init_eq)

lemma unat_byte: "unat (w :: 8 word) < 256"
  using unsigned_less [of w] by simp

lemma js_index_table: "n < length p \<Longrightarrow> js_index p (of_nat n) = Some (p ! n)"
  by simp

lemma perlin2_eq:
  fixes p :: "8 word list" and x y :: number
  assumes "length p = 512"
  defines "X \<equiv> nat (\<lfloor>x\<rfloor> mod 256)" and "Y \<equiv> nat (\<lfloor>y\<rfloor> mod 256)"
    and "fx \<equiv> x - of_int \<lfloor>x\<rfloor>" and "fy \<equiv> y - of_int \<lfloor>y\<rfloor>"
  defines "A \<equiv> unat (p ! X) + Y" and "B \<equiv> unat (p ! (X + 1)) + Y"
  shows "perlin2 p x y =
    Some (lerp (fade fy)
      (lerp (fade fx) (grad2 (byte_val (p ! A)) fx fy) (grad2 (byte_val (p ! B)) (fx - 1) fy))
      (lerp (fade fx) (grad2 (byte_val (p ! (A + 1))) fx (fy - 1)) (grad2 (byte_val (p ! (B + 1))) (fx - 1) (fy - 1))))"
proof -
  have X: "js_and (of_int \<lfloor>x\<rfloor>) 255 = of_nat X" and Y: "js_and (of_int \<lfloor>y\<rfloor>) 255 = of_nat Y"
    by (simp_all add: X_def Y_def)
  have bX: "X < 256" "Y < 256" unfolding X_def Y_def by simp_all
  have bA: "A < 511" "B < 511"
    using bX unat_byte [of "p ! X"] unat_byte [of "p ! (X + 1)"] unfolding A_def B_def by linarith+
  have r: "js_index p (of_nat X) = Some (p ! X)" "js_index p (of_nat X + 1) = Some (p ! (X + 1))"
    "js_index p (byte_val (p ! X) + of_nat Y) = Some (p ! A)"
    "js_index p (byte_val (p ! Suc X) + of_nat Y) = Some (p ! B)"
    "js_index p (byte_val (p ! X) + of_nat Y + 1) = Some (p ! (A + 1))"
    "js_index p (byte_val (p ! Suc X) + of_nat Y + 1) = Some (p ! (B + 1))"
    using js_index_table [of X p] js_index_table [of "X + 1" p] js_index_table [of A p]
      js_index_table [of B p] js_index_table [of "A + 1" p] js_index_table [of "B + 1" p]
      bX bA assms(1) unfolding A_def B_def byte_val_def by (simp_all add: add.commute add.left_commute)
  have l: "X < length p" "Suc X < length p" using bX assms(1) by simp_all
  show ?thesis
    using l unfolding perlin2_def Let_def X Y fx_def [symmetric] fy_def [symmetric] by (simp add: r)
qed

subsection \<open>Fade, lerp and grad2\<close>

lemma fade_complement: "1 - fade t = (1 - t) ^ 3 * (6 * t\<^sup>2 + 3 * t + 1)"
  unfolding fade_def by (simp add: power2_eq_square power3_eq_cube algebra_simps)

lemma fade_range: "0 \<le> t \<Longrightarrow> t \<le> 1 \<Longrightarrow> 0 \<le> fade t \<and> fade t \<le> 1"
proof
  assume t: "0 \<le> t" "t \<le> 1"
  have "t * (t * 6 - 15) + 10 = 6 * (t - 5 / 4)\<^sup>2 + 5 / 8"
    by (simp add: power2_eq_square algebra_simps)
  then have "0 \<le> t * (t * 6 - 15) + 10" by simp
  then show "0 \<le> fade t" unfolding fade_def using t by simp
  have "0 \<le> (1 - t) ^ 3 * (6 * t\<^sup>2 + 3 * t + 1)" using t by simp
  then show "fade t \<le> 1" using fade_complement [of t] by linarith
qed

lemma lerp_bound:
  assumes "0 \<le> t" "t \<le> 1" "\<bar>a\<bar> \<le> c" "\<bar>b\<bar> \<le> c"
  shows "\<bar>lerp t a b\<bar> \<le> c"
proof -
  have "lerp t a b = (1 - t) * a + t * b" by (simp add: lerp_def algebra_simps)
  also have "\<bar>\<dots>\<bar> \<le> (1 - t) * \<bar>a\<bar> + t * \<bar>b\<bar>"
    using assms(1,2) by (metis abs_mult abs_of_nonneg abs_triangle_ineq diff_ge_0_iff_ge)
  also have "\<dots> \<le> (1 - t) * c + t * c"
    using assms by (intro add_mono mult_left_mono) simp_all
  finally show ?thesis by (simp add: algebra_simps)
qed

lemma grad2_bound: "\<bar>grad2 i a b\<bar> \<le> max \<bar>a\<bar> \<bar>b\<bar>"
  by (simp add: grad2_def Let_def)

lemma frac_part_range: "0 \<le> x - of_int \<lfloor>x\<rfloor> \<and> x - of_int \<lfloor>x\<rfloor> < 1"
  by linarith

subsection \<open>The octave sum\<close>

lemma of_nat_less_iff_ceiling: "of_nat i < (oc :: real) \<longleftrightarrow> i < nat \<lceil>oc\<rceil>"
  by (metis less_ceiling_iff of_int_of_nat_eq zless_nat_eq_int_zless)

lemma octave_loop_eq:
  "octave_loop noise oc x y i tot f a v =
     (tot + (\<Sum>k<nat \<lceil>oc\<rceil> - i. a / 2 ^ k),
      v + (\<Sum>k<nat \<lceil>oc\<rceil> - i. noise (x * (f * 2 ^ k)) (y * (f * 2 ^ k)) * (a / 2 ^ k)))"
proof (induction noise oc x y i tot f a v rule: octave_loop.induct)
  case (1 noise oc x y i tot f a v)
  show ?case
  proof (cases "of_nat i < oc")
    case True
    then have n: "nat \<lceil>oc\<rceil> - i = Suc (nat \<lceil>oc\<rceil> - Suc i)"
      by (simp add: of_nat_less_iff_ceiling)
    have s1: "(\<Sum>k<Suc m. a / 2 ^ k) = a + (\<Sum>k<m. a * (1 / 2) / 2 ^ k)" for m
      by (subst sum.lessThan_Suc_shift) simp
    have s2: "(\<Sum>k<Suc m. noise (x * (f * 2 ^ k)) (y * (f * 2 ^ k)) * (a / 2 ^ k)) =
        noise (x * f) (y * f) * a +
        (\<Sum>k<m. noise (x * (f * 2 * 2 ^ k)) (y * (f * 2 * 2 ^ k)) * (a * (1 / 2) / 2 ^ k))" for m
      by (subst sum.lessThan_Suc_shift) (simp add: mult.assoc mult.left_commute)
    have step: "octave_loop noise oc x y i tot f a v =
        octave_loop noise oc x y (Suc i) (tot + a) (f * 2) (a * (1 / 2)) (v + noise (x * f) (y * f) * a)"
      by (subst octave_loop.simps) (simp only: True if_True)
    show ?thesis
      unfolding step "1.IH" [OF True] n s1 s2 by (simp add: algebra_simps)
  next
    case False
    then have "\<not> i < nat \<lceil>oc\<rceil>" by (metis of_nat_less_iff_ceiling)
    then have "nat \<lceil>oc\<rceil> - i = 0" by (simp only: not_less diff_is_0_eq)
    moreover have "octave_loop noise oc x y i tot f a v = (tot, v)"
      by (subst octave_loop.simps) (simp only: False if_False)
    ultimately show ?thesis by simp
  qed
qed

lemma octave_weights_pos: "0 < n \<Longrightarrow> 0 < (\<Sum>k<n. 1 / (2::real) ^ k)"
  by (rule sum_pos) auto

lemma ratio_bound: "0 < t \<Longrightarrow> \<bar>s\<bar> \<le> t \<Longrightarrow> \<bar>s / t\<bar> \<le> (1::real)"
  by (simp add: abs_div_pos [symmetric])

lemma weighted_term_bound: "\<bar>a\<bar> \<le> 1 \<Longrightarrow> \<bar>a / 2 ^ k\<bar> \<le> 1 / (2::real) ^ k"
  by (simp add: abs_divide divide_right_mono)

lemma octave_weights_sum: "(\<Sum>k<n. 1 / (2::real) ^ k) = 2 - 2 / 2 ^ n"
  by (induction n) (simp_all add: field_simps)

lemma octave2_eq:
  "octave2 noise oc x y =
     (if oc \<le> 0 then None
      else Some ((\<Sum>k<nat \<lceil>oc\<rceil>. noise (x * 2 ^ k) (y * 2 ^ k) / 2 ^ k) / (\<Sum>k<nat \<lceil>oc\<rceil>. 1 / 2 ^ k)))"
proof (cases "oc \<le> 0")
  case True
  then have "nat \<lceil>oc\<rceil> = 0" by simp
  then show ?thesis using True by (simp add: octave2_def octave_loop_eq)
next
  case False
  then have "0 < nat \<lceil>oc\<rceil>" by simp
  then have "(\<Sum>k<nat \<lceil>oc\<rceil>. 1 / (2::real) ^ k) \<noteq> 0" using octave_weights_pos [of "nat \<lceil>oc\<rceil>"] by linarith
  then show ?thesis using False by (simp add: octave2_def octave_loop_eq)
qed
lemma perlin2_range: "\<exists>v. perlin2 (perm_init P) x y = Some v \<and> \<bar>v\<bar> \<le> 1"
proof -
  define fx where "fx = x - of_int \<lfloor>x\<rfloor>"
  define fy where "fy = y - of_int \<lfloor>y\<rfloor>"
  have f: "0 \<le> fx" "fx < 1" "0 \<le> fy" "fy < 1" using frac_part_range unfolding fx_def fy_def by blast+
  then have fade: "0 \<le> fade fx" "fade fx \<le> 1" "0 \<le> fade fy" "fade fy \<le> 1"
    using fade_range [of fx] fade_range [of fy] by simp_all
  have g: "\<bar>grad2 i a b\<bar> \<le> 1" if "\<bar>a\<bar> \<le> 1" "\<bar>b\<bar> \<le> 1" for i a b
    using grad2_bound [of i a b] that by simp
  have abs: "\<bar>fx\<bar> \<le> 1" "\<bar>fx - 1\<bar> \<le> 1" "\<bar>fy\<bar> \<le> 1" "\<bar>fy - 1\<bar> \<le> 1" using f by simp_all
  show ?thesis
    unfolding perlin2_eq [OF length_perm_init] fx_def [symmetric] fy_def [symmetric]
    by (simp add: lerp_bound fade g abs)
qed

subsection \<open>Properties of the noise field\<close>

lemma perlin2_at_lattice: "perlin2 (perm_init P) (of_int i) (of_int j) = Some 0"
  unfolding perlin2_eq [OF length_perm_init] by (simp add: fade_def lerp_def grad2_def)

text \<open>
  C24: perlin2, on the table the module builds from any sequence P, never reads the
  table out of range and returns a value in [-1, 1], which is exactly 0 at the
  integer lattice points.
\<close>

theorem perlin2_total_bounded:
  "(\<exists>v. perlin2 (perm_init P) x y = Some v \<and> \<bar>v\<bar> \<le> 1) \<and> perlin2 (perm_init P) (of_int i) (of_int j) = Some 0"
  using perlin2_range perlin2_at_lattice by blast

text \<open>
  C25: the initialisation loop leaves a table of 512 bytes whose entry j is P[j mod 256]
  stored as an unsigned byte: the 256-entry sequence duplicated.
\<close>

theorem perm_init_table:
  "length (perm_init P) = 512 \<and>
   (\<forall>j < 512. perm_init P ! j = to_uint8 (js_index P (of_nat (j mod 256))))"
  by (simp add: perm_init_eq)

theorem perm_init_table_witness:
  "(300::nat) < 512 \<and> perm_init [] ! 300 = 0"
proof -
  have "perm_init [] ! 300 = to_uint8 (js_index [] (of_nat (300 mod 256)))"
    using perm_init_table [of "[]"] by simp
  then show ?thesis by (simp add: to_uint8_def)
qed

text \<open>
  C27: perlin2 is periodic with period 256 in each coordinate: the cell index is taken
  with x & 255 and the fractional offsets do not change.
\<close>

theorem perlin2_periodic:
  "perlin2 p (x + 256 * of_int k) y = perlin2 p x y \<and> perlin2 p x (y + 256 * of_int k) = perlin2 p x y"
proof -
  have fl: "\<lfloor>z + 256 * of_int k\<rfloor> = \<lfloor>z\<rfloor> + 256 * k" for z :: real
    using floor_add_int [of z "256 * k"] by simp
  have md: "js_and (of_int \<lfloor>z\<rfloor> + 256 * of_int k) 255 = of_int (\<lfloor>z\<rfloor> mod 256)" for z :: real
    using js_and_255 [of "\<lfloor>z\<rfloor> + 256 * k"] by simp
  show ?thesis unfolding perlin2_def by (simp add: fl md)
qed

text \<open>
  C28: grad2 at an integer index i returns x, y, -x or -y as i mod 4 is 0, 1, 2 or 3, for
  every integer i, negative ones included.
\<close>

theorem grad2_selects: "grad2 (of_int i) a b = [a, b, - a, - b] ! nat (i mod 4)"
proof -
  define r where "r = i mod 4"
  have r2: "i mod 2 = r mod 2" unfolding r_def by (simp add: mod_mod_cancel)
  have g: "grad2 (of_int i) a b = (let v = if r mod 2 \<noteq> 0 then b else a in if r AND 2 \<noteq> 0 then - v else v)"
    by (simp add: grad2_def js_and_two r2 flip: r_def)
  have "r = 0 \<or> r = 1 \<or> r = 2 \<or> r = 3" unfolding r_def by arith
  then show ?thesis unfolding g r_def [symmetric] by auto
qed

text \<open>
  C29: the fade curve fixes 0 and 1, is symmetric (fade (1 - t) = 1 - fade t), maps
  [0, 1] into [0, 1], and has derivative 30 t^2 (t - 1)^2, which vanishes at both ends.
\<close>

theorem fade_properties:
  "fade 0 = 0 \<and> fade 1 = 1 \<and> (\<forall>t. fade (1 - t) = 1 - fade t) \<and>
   (\<forall>t. 0 \<le> t \<and> t \<le> 1 \<longrightarrow> 0 \<le> fade t \<and> fade t \<le> 1) \<and>
   (\<forall>t. (fade has_real_derivative 30 * t\<^sup>2 * (t - 1)\<^sup>2) (at t))"
proof (intro conjI allI impI)
  show "fade 0 = 0" "fade 1 = 1" by (simp_all add: fade_def)
next
  fix t :: real
  show "fade (1 - t) = 1 - fade t" unfolding fade_def by (simp add: algebra_simps power2_eq_square)
next
  fix t :: real assume "0 \<le> t \<and> t \<le> 1"
  then show "0 \<le> fade t" "fade t \<le> 1" using fade_range by blast+
next
  fix t :: real
  show "(fade has_real_derivative 30 * t\<^sup>2 * (t - 1)\<^sup>2) (at t)"
    unfolding fade_def [abs_def]
    by (auto intro!: derivative_eq_intros simp add: power2_eq_square algebra_simps)
qed

theorem fade_properties_witness:
  "0 \<le> (1 / 2 :: real) \<and> (1 / 2 :: real) \<le> 1 \<and> 0 \<le> fade (1 / 2) \<and> fade (1 / 2) \<le> 1 \<and> fade (1 / 2) = 1 / 2"
proof -
  have "fade (1 - 1 / 2) = 1 - fade (1 / 2)" using fade_properties by blast
  moreover have "0 \<le> fade (1 / 2) \<and> fade (1 / 2) \<le> 1" using fade_properties by simp
  ultimately show ?thesis by simp
qed

text \<open>
  C30: octave2 with octaves <= 0 divides 0 by 0 and yields NaN (None); otherwise the loop
  runs ceiling(octaves) times and the result is the sum of noise(x 2^k, y 2^k) / 2^k
  divided by the total amplitude 2 - 2 / 2^n.
\<close>

theorem octave2_contract:
  "octave2 noise oc x y =
     (if oc \<le> 0 then None
      else Some ((\<Sum>k<nat \<lceil>oc\<rceil>. noise (x * 2 ^ k) (y * 2 ^ k) / 2 ^ k) / (2 - 2 / 2 ^ nat \<lceil>oc\<rceil>)))"
  by (simp add: octave2_eq octave_weights_sum)

text \<open>
  C31: octave2 over a base noise bounded by 1 and a positive number of octaves returns a
  value bounded by 1 (the octave sum is normalised by the total amplitude).
\<close>

theorem octave2_bounded:
  assumes "\<And>a b. \<bar>noise a b\<bar> \<le> 1" "0 < oc"
  shows "\<exists>v. octave2 noise oc x y = Some v \<and> \<bar>v\<bar> \<le> 1"
proof -
  let ?N = "nat \<lceil>oc\<rceil>"
  let ?s = "\<Sum>k<?N. noise (x * 2 ^ k) (y * 2 ^ k) / 2 ^ k"
  let ?t = "\<Sum>k<?N. 1 / (2::real) ^ k"
  have t: "0 < ?t" using assms(2) octave_weights_pos [of ?N] by simp
  have "\<bar>?s\<bar> \<le> (\<Sum>k<?N. \<bar>noise (x * 2 ^ k) (y * 2 ^ k) / 2 ^ k\<bar>)" by (rule sum_abs)
  also have "\<dots> \<le> ?t"
    by (rule sum_mono) (rule weighted_term_bound [OF assms(1)])
  finally have "\<bar>?s / ?t\<bar> \<le> 1" by (rule ratio_bound [OF t])
  then show ?thesis using assms(2) by (simp add: octave2_eq)
qed

theorem octave2_bounded_witness:
  "0 < (5 / 2 :: real) \<and> (\<exists>v. octave2 (\<lambda>a b. 1 / 2) (5 / 2) 0 0 = Some v \<and> \<bar>v\<bar> \<le> 1)"
  using octave2_bounded [of "\<lambda>a b. 1 / 2" "5 / 2" 0 0] by simp


lemma random2_unit_square:
  assumes "sset rs \<subseteq> {0..<1}"
  shows "0 \<le> px (fst (random2 rs)) \<and> px (fst (random2 rs)) < 1 \<and>
         0 \<le> py (fst (random2 rs)) \<and> py (fst (random2 rs)) < 1 \<and> sset (snd (random2 rs)) \<subseteq> {0..<1}"
proof -
  have "shd rs \<in> sset rs" "shd (stl rs) \<in> sset rs" "sset (stl (stl rs)) \<subseteq> sset rs"
    using stl_sset shd_sset by (metis subsetI)+
  then show ?thesis using assms by (auto simp add: random2_def)
qed

end
