(* ===== verification/Editor.thy ===== *)
theory Editor
  imports Renderer Noise
begin

text \<open>
  The per-hex colour policy and the renderer set-up of the editor component
  \<open>src/src/components/editor/editor.tsx\<close> (\<open>HexEditor\<close>). The React state the
  sliders edit is the record \<open>editor_params\<close>; the gradient returned by
  \<open>getGradientObject()\<close> is \<open>None\<close> (null) or its list of colour stops, each with
  its position \<open>left\<close> (a percentage) and its colour \<open>value\<close>. The colour library's
  \<open>new Color(a).mix(new Color(b), w).hex()\<close> is the parameter \<open>mix\<close>. A computation
  whose JavaScript value is \<open>NaN\<close> or infinite (a division by zero) returns \<open>None\<close>.
  The JSX, the sliders and the colour picker are not modelled.
\<close>

datatype orientation_choice = Pointy | Flat

record gradient_stop =
  stop_left :: number
  stop_value :: string

record editor_params =
  grid_size :: int
  hex_size :: number
  orientation_sel :: orientation_choice
  shape_sel :: shape
  noise_scale :: number
  noise_offset_x :: number
  noise_offset_y :: number
  gradient :: "gradient_stop list option"
  canvas_w :: number
  canvas_h :: number

definition editor_layout :: "editor_params \<Rightarrow> hex_layout" where
  "editor_layout E =
     \<lparr>orientation = (case orientation_sel E of Pointy \<Rightarrow> orientation_pointy | Flat \<Rightarrow> orientation_flat),
      size = \<lparr>px = hex_size E, py = hex_size E\<rparr>,
      origin = \<lparr>px = canvas_w E / 2, py = canvas_h E / 2\<rparr>\<rparr>"

definition hex_noise :: "number list \<Rightarrow> editor_params \<Rightarrow> hex \<Rightarrow> number option" where
  "hex_noise P E h = do {
     let p = hex_to_pixel (editor_layout E) h;
     n \<leftarrow> perlin2 (perm_init P) ((px p + noise_offset_x E) * noise_scale E)
                               ((py p + noise_offset_y E) * noise_scale E);
     let n = n / 2 + 1 / 2;
     let l = hex_len h;
     if grid_size E = 0 then None
     else (let l = l / of_int (grid_size E); l = 1 - l in Some (n * l))
   }"

fun stop_search ::
  "number \<Rightarrow> gradient_stop list \<Rightarrow> gradient_stop \<Rightarrow> gradient_stop \<Rightarrow> gradient_stop \<times> gradient_stop" where
  "stop_search nh [] l r = (l, r)"
| "stop_search nh (c # cs) l r =
     (let l = r; r = c in
      if stop_left l \<le> nh \<and> nh < stop_left r then (l, r) else stop_search nh cs l r)"

definition gradient_color ::
  "(string \<Rightarrow> string \<Rightarrow> number \<Rightarrow> string) \<Rightarrow> gradient_stop list \<Rightarrow> number \<Rightarrow> string option" where
  "gradient_color mix colors n =
     (case colors of [] \<Rightarrow> None
      | c0 # _ \<Rightarrow>
          (let nh = of_int \<lceil>n * 100\<rceil>;
               (l, r) = stop_search nh colors c0 c0;
               den = stop_left r / 100 - stop_left l / 100
           in if den = 0 then None
              else Some (mix (stop_value l) (stop_value r) ((n - stop_left l / 100) / den))))"

definition hex_color ::
  "(string \<Rightarrow> string \<Rightarrow> number \<Rightarrow> string) \<Rightarrow> number list \<Rightarrow> editor_params \<Rightarrow> hex \<Rightarrow> string option" where
  "hex_color mix P E h =
     (case gradient E of None \<Rightarrow> Some ''black''
      | Some colors \<Rightarrow> do { n \<leftarrow> hex_noise P E h; gradient_color mix colors n })"

definition editor_renderer :: "editor_params \<Rightarrow> hex_map_renderer result" where
  "editor_renderer E =
     (case gradient E of
        None \<Rightarrow> Inr (new_renderer (editor_layout E) (Some ''black''))
      | Some [] \<Rightarrow> Inl TypeError
      | Some (c # _) \<Rightarrow>
          Inr (new_renderer (editor_layout E) (Some (if stop_value c = [] then ''black'' else stop_value c))))"


text \<open>
  The render effect (\<open>useEffect\<close>) with the two memos it depends on: the map is
  populated with the colour callback, the renderer is built, and \<open>renderMap\<close> draws
  the map with the selected shape, clearing first (its default). The callback's value
  when the weight is \<open>NaN\<close> or infinite is whatever the colour library makes of it,
  which the model leaves open as the parameter \<open>nan_color\<close>. The payload's colour is
  read by \<open>data?.color\<close>, always present for \<open>TestData\<close>.
\<close>

definition editor_callback ::
  "(string \<Rightarrow> string \<Rightarrow> number \<Rightarrow> string) \<Rightarrow> string \<Rightarrow> number list \<Rightarrow> editor_params \<Rightarrow> hex \<Rightarrow> string" where
  "editor_callback mix nan_color P E h =
     (case hex_color mix P E h of Some c \<Rightarrow> c | None \<Rightarrow> nan_color)"

definition test_data_color :: "test_data \<Rightarrow> string option" where
  "test_data_color d = Some (color d)"

definition editor_render ::
  "(string \<Rightarrow> string \<Rightarrow> number \<Rightarrow> string) \<Rightarrow> string \<Rightarrow> number list \<Rightarrow> editor_params \<Rightarrow>
   canvas \<Rightarrow> hex_store \<Rightarrow> (canvas \<times> hex_store \<times> test_data hex_map) result" where
  "editor_render mix nan_color P E ctx store =
     rbind (hexagon_hex_map (grid_size E) (editor_callback mix nan_color P E) store) (\<lambda>(store', m).
     rbind (editor_renderer E) (\<lambda>R.
     rbind (render_map test_data_color R ctx store' m (shape_sel E) True) (\<lambda>ctx'.
     Inr (ctx', store', m))))"

subsection \<open>Editor lemmas\<close>

lemma stop_search_no_break:
  "\<forall>s \<in> set cs. stop_left s \<le> nh \<Longrightarrow>
   stop_search nh cs l r = (if cs = [] then (l, r) else (last (r # butlast cs), last cs))"
proof (induction nh cs l r rule: stop_search.induct)
  case (1 nh l r)
  then show ?case by simp
next
  case (2 nh c cs l r)
  then show ?case by (cases cs) (auto simp add: Let_def)
qed

lemma last_butlast_nth: "2 \<le> length cs \<Longrightarrow> last (r # butlast cs) = cs ! (length cs - 2)"
  by (cases cs rule: rev_cases) (auto simp add: last_conv_nth nth_append)

lemma sorted_le_last: "sorted (map stop_left cs) \<Longrightarrow> s \<in> set cs \<Longrightarrow> stop_left s \<le> stop_left (last cs)"
  by (induction cs) (auto simp add: sorted_append)

lemma mix_weight_gt_one: "l < r \<Longrightarrow> r / 100 < n \<Longrightarrow> 1 < (n - l / 100) / (r / 100 - l / (100::real))"
  by (simp add: field_simps)

lemma gradient_color_Cons:
  "gradient_color mix (c0 # rest) n =
     (let nh = of_int \<lceil>n * 100\<rceil>;
          (l, r) = stop_search nh (c0 # rest) c0 c0;
          den = stop_left r / 100 - stop_left l / 100
      in if den = 0 then None
         else Some (mix (stop_value l) (stop_value r) ((n - stop_left l / 100) / den)))"
  unfolding gradient_color_def by (simp only: list.case)

lemma hex_len_nonneg: "0 \<le> hex_len h"
  by (simp add: hex_len_def)

lemma unit_product: "0 \<le> a \<Longrightarrow> a \<le> 1 \<Longrightarrow> 0 \<le> b \<Longrightarrow> b \<le> 1 \<Longrightarrow> 0 \<le> a * b \<and> a * b \<le> (1::real)"
  by (simp add: mult_le_one)

subsection \<open>Properties of the colour policy\<close>

text \<open>
  C34: for gradient stops sorted by position, a noise value beyond the last stop's
  position makes the stop search run to the end and return the last two stops, and
  the colour is their mix with a weight greater than 1: the code extrapolates past
  the last stop instead of clamping to its colour.
\<close>

theorem gradient_beyond_last_stop:
  assumes "sorted (map stop_left cs)" "2 \<le> length cs" "stop_left (last cs) / 100 < n"
    "stop_left (cs ! (length cs - 2)) < stop_left (last cs)"
  shows "\<exists>w. gradient_color mix cs n =
           Some (mix (stop_value (cs ! (length cs - 2))) (stop_value (last cs)) w) \<and> 1 < w"
proof -
  obtain c0 rest where cs: "cs = c0 # rest" using assms(2) by (cases cs) auto
  have "stop_left (last cs) < n * 100" using assms(3) by simp
  moreover have "n * 100 \<le> of_int \<lceil>n * 100\<rceil>" by (rule le_of_int_ceiling)
  ultimately have nh: "stop_left (last cs) \<le> of_int \<lceil>n * 100\<rceil>" by linarith
  have all: "\<forall>s \<in> set cs. stop_left s \<le> of_int \<lceil>n * 100\<rceil>"
  proof
    fix s assume "s \<in> set cs"
    with sorted_le_last [OF assms(1)] have "stop_left s \<le> stop_left (last cs)" by blast
    with nh show "stop_left s \<le> of_int \<lceil>n * 100\<rceil>" by linarith
  qed
  have ss: "stop_search (of_int \<lceil>n * 100\<rceil>) cs c0 c0 = (cs ! (length cs - 2), last cs)"
    using stop_search_no_break [OF all] last_butlast_nth [OF assms(2)] cs by simp
  have g: "gradient_color mix cs n =
     (let nh = of_int \<lceil>n * 100\<rceil>;
          (l, r) = stop_search nh cs c0 c0;
          den = stop_left r / 100 - stop_left l / 100
      in if den = 0 then None
         else Some (mix (stop_value l) (stop_value r) ((n - stop_left l / 100) / den)))"
    using gradient_color_Cons [of mix c0 rest n] by (simp only: cs)
  have "gradient_color mix cs n =
      Some (mix (stop_value (cs ! (length cs - 2))) (stop_value (last cs))
        ((n - stop_left (cs ! (length cs - 2)) / 100) /
         (stop_left (last cs) / 100 - stop_left (cs ! (length cs - 2)) / 100)))"
    using assms(4) unfolding g Let_def ss by simp
  with mix_weight_gt_one [OF assms(4,3)] show ?thesis by blast
qed

theorem gradient_beyond_last_stop_witness:
  "sorted (map stop_left [\<lparr>stop_left = 0, stop_value = ''a''\<rparr>, \<lparr>stop_left = 50, stop_value = ''b''\<rparr>]) \<and>
   gradient_color (\<lambda>a b w. if 1 < w then a @ b else a)
     [\<lparr>stop_left = 0, stop_value = ''a''\<rparr>, \<lparr>stop_left = 50, stop_value = ''b''\<rparr>] (3 / 4) = Some ''ab''"
  using gradient_beyond_last_stop [of "[\<lparr>stop_left = 0, stop_value = ''a''\<rparr>, \<lparr>stop_left = 50, stop_value = ''b''\<rparr>]" "3 / 4"
      "\<lambda>a b w. if 1 < w then a @ b else a"]
  by auto

end
