(* ===== verification/EditorState.thy ===== *)
theory EditorState
  imports Editor
begin

text \<open>
  The editor component \<open>HexEditor\<close> of \<open>src/src/components/editor/editor.tsx\<close> as a
  state machine. Its React state is the record \<open>editor_params\<close> of theory \<open>Editor\<close>;
  \<open>editor_init\<close> is the state of the first render (the \<open>useState\<close> initial values
  and the default props), \<open>editor_event\<close> the change handlers of its seven
  controls, \<open>editor_handle\<close> the state update each one makes, and
  \<open>control_value_ok\<close> the values each slider can emit: its \<open>min\<close>, its \<open>max\<close>
  and the multiples of its \<open>step\<close> from \<open>min\<close> (0.1 for the hex size, 0.001 for the
  noise scale, and the default step 1 for the grid size and the offsets, so those
  are integers). The colour picker's \<open>setColor\<close> is modelled by the gradient that
  \<open>getGradientObject()\<close> returns for the new colour string.

  A render of the component is modelled by \<open>editor_view\<close>: the state, the
  memoised map with the object store its keys point into, and the canvas
  (\<open>None\<close> when \<open>canvasRef.current\<close> or its 2D context is null). The map memo is
  recomputed only when its dependencies change (\<open>map_deps\<close>: every field but the
  shape, the layout memo's dependencies included); the renderer memo is a pure
  value, so recomputing it on every render gives the value the memo holds; the
  effect runs on every render whose state changed, since every field is a
  dependency of the map memo or of the effect. A handler that sets a field to
  its current value makes React bail out of the render. An exception of a memo
  aborts the session (a result \<open>Inl\<close>).
\<close>

datatype editor_event =
    SetOrientation orientation_choice
  | SetShape shape
  | SetGridSize int
  | SetHexSize number
  | SetNoiseScale number
  | SetNoiseOffsetX number
  | SetNoiseOffsetY number
  | SetColor "gradient_stop list option"

definition editor_init :: "number \<Rightarrow> number \<Rightarrow> gradient_stop list option \<Rightarrow> editor_params" where
  "editor_init w h g0 =
     \<lparr>grid_size = 20, hex_size = 10, orientation_sel = Pointy, shape_sel = Hexagon,
      noise_scale = 1 / 25, noise_offset_x = 0, noise_offset_y = 0, gradient = g0,
      canvas_w = w, canvas_h = h\<rparr>"

fun editor_handle :: "editor_event \<Rightarrow> editor_params \<Rightarrow> editor_params" where
  "editor_handle (SetOrientation v) E = E\<lparr>orientation_sel := v\<rparr>"
| "editor_handle (SetShape v) E = E\<lparr>shape_sel := v\<rparr>"
| "editor_handle (SetGridSize v) E = E\<lparr>grid_size := v\<rparr>"
| "editor_handle (SetHexSize v) E = E\<lparr>hex_size := v\<rparr>"
| "editor_handle (SetNoiseScale v) E = E\<lparr>noise_scale := v\<rparr>"
| "editor_handle (SetNoiseOffsetX v) E = E\<lparr>noise_offset_x := v\<rparr>"
| "editor_handle (SetNoiseOffsetY v) E = E\<lparr>noise_offset_y := v\<rparr>"
| "editor_handle (SetColor g) E = E\<lparr>gradient := g\<rparr>"

fun control_value_ok :: "editor_event \<Rightarrow> bool" where
  "control_value_ok (SetGridSize v) = (0 \<le> v \<and> v \<le> 100)"
| "control_value_ok (SetHexSize v) = (1 \<le> v \<and> v \<le> 25 \<and> is_int ((v - 1) * 10))"
| "control_value_ok (SetNoiseScale v) = (0 \<le> v \<and> v \<le> 3 / 20 \<and> is_int (v * 1000))"
| "control_value_ok (SetNoiseOffsetX v) = (- 1000 \<le> v \<and> v \<le> 1000 \<and> is_int v)"
| "control_value_ok (SetNoiseOffsetY v) = (- 1000 \<le> v \<and> v \<le> 1000 \<and> is_int v)"
| "control_value_ok _ = True"

definition editor_wf :: "editor_params \<Rightarrow> bool" where
  "editor_wf E \<longleftrightarrow>
     0 \<le> grid_size E \<and> grid_size E \<le> 100 \<and> 1 \<le> hex_size E \<and> hex_size E \<le> 25 \<and>
     0 \<le> noise_scale E \<and> noise_scale E \<le> 3 / 20 \<and>
     \<bar>noise_offset_x E\<bar> \<le> 1000 \<and> \<bar>noise_offset_y E\<bar> \<le> 1000 \<and>
     is_int ((hex_size E - 1) * 10) \<and> is_int (noise_scale E * 1000) \<and>
     is_int (noise_offset_x E) \<and> is_int (noise_offset_y E)"

inductive editor_reachable :: "number \<Rightarrow> number \<Rightarrow> gradient_stop list option \<Rightarrow> editor_params \<Rightarrow> bool"
  for w h g0 where
  init: "editor_reachable w h g0 (editor_init w h g0)"
| step: "editor_reachable w h g0 E \<Longrightarrow> control_value_ok ev \<Longrightarrow> editor_reachable w h g0 (editor_handle ev E)"

definition controls_to :: "editor_params \<Rightarrow> editor_event list" where
  "controls_to T =
     [SetOrientation (orientation_sel T), SetShape (shape_sel T), SetGridSize (grid_size T),
      SetHexSize (hex_size T), SetNoiseScale (noise_scale T), SetNoiseOffsetX (noise_offset_x T),
      SetNoiseOffsetY (noise_offset_y T), SetColor (gradient T)]"

record editor_view =
  view_params :: editor_params
  view_store :: hex_store
  view_map :: "test_data hex_map"
  view_canvas :: "canvas option"

definition map_deps :: "editor_params \<Rightarrow> editor_params" where
  "map_deps E = E\<lparr>shape_sel := Hexagon\<rparr>"

definition editor_commit ::
  "editor_params \<Rightarrow> canvas option \<Rightarrow> hex_store \<times> test_data hex_map \<Rightarrow> editor_view result" where
  "editor_commit E cv = (\<lambda>(store, m).
     rbind (editor_renderer E) (\<lambda>R.
       case cv of
         None \<Rightarrow> Inr \<lparr>view_params = E, view_store = store, view_map = m, view_canvas = None\<rparr>
       | Some ctx \<Rightarrow>
           rbind (render_map test_data_color R ctx store m (shape_sel E) True) (\<lambda>ctx'.
             Inr \<lparr>view_params = E, view_store = store, view_map = m, view_canvas = Some ctx'\<rparr>)))"

definition editor_mount ::
  "(string \<Rightarrow> string \<Rightarrow> number \<Rightarrow> string) \<Rightarrow> string \<Rightarrow> number list \<Rightarrow> editor_params \<Rightarrow>
   canvas option \<Rightarrow> hex_store \<Rightarrow> editor_view result" where
  "editor_mount mix nan_color P E cv store =
     rbind (hexagon_hex_map (grid_size E) (editor_callback mix nan_color P E) store) (editor_commit E cv)"

definition editor_update ::
  "(string \<Rightarrow> string \<Rightarrow> number \<Rightarrow> string) \<Rightarrow> string \<Rightarrow> number list \<Rightarrow> editor_event \<Rightarrow>
   editor_view \<Rightarrow> editor_view result" where
  "editor_update mix nan_color P ev V =
     (let E = view_params V; E' = editor_handle ev E in
      if E' = E then Inr V
      else rbind (if map_deps E' = map_deps E then Inr (view_store V, view_map V)
                  else hexagon_hex_map (grid_size E') (editor_callback mix nan_color P E') (view_store V))
             (editor_commit E' (view_canvas V)))"

fun editor_session ::
  "(string \<Rightarrow> string \<Rightarrow> number \<Rightarrow> string) \<Rightarrow> string \<Rightarrow> number list \<Rightarrow> editor_event list \<Rightarrow>
   editor_view \<Rightarrow> editor_view result" where
  "editor_session mix nan_color P [] V = Inr V"
| "editor_session mix nan_color P (ev # evs) V =
     rbind (editor_update mix nan_color P ev V) (editor_session mix nan_color P evs)"

definition editor_run ::
  "(string \<Rightarrow> string \<Rightarrow> number \<Rightarrow> string) \<Rightarrow> string \<Rightarrow> number list \<Rightarrow> editor_params \<Rightarrow>
   editor_event list \<Rightarrow> canvas option \<Rightarrow> hex_store \<Rightarrow> editor_view result" where
  "editor_run mix nan_color P E evs cv store =
     rbind (editor_mount mix nan_color P E cv store) (editor_session mix nan_color P evs)"

text \<open>
  The drawing calls of one frame of the editor for state \<open>E\<close> and renderer \<open>R\<close>
  on a canvas of size \<open>cw \<times> ch\<close>: the clearing pair, then each hex of the
  hexagon of radius \<open>gridSize\<close> in population order, in the colour the editor's
  callback gives it.
\<close>

definition frame_cmds ::
  "(string \<Rightarrow> string \<Rightarrow> number \<Rightarrow> string) \<Rightarrow> string \<Rightarrow> number list \<Rightarrow> hex_map_renderer \<Rightarrow>
   editor_params \<Rightarrow> number \<Rightarrow> number \<Rightarrow> draw_cmd list" where
  "frame_cmds mix nan_color P R E cw ch =
     [ClearRect 0 0 cw ch, FillRect (background_color R) 0 0 cw ch] @
     concat (map (\<lambda>h. hex_cmds test_data_color R h (Some \<lparr>color = editor_callback mix nan_color P E h\<rparr>) (shape_sel E))
               (hexagon_hexes (grid_size E)))"

fun sets_empty_gradient :: "editor_event \<Rightarrow> bool" where
  "sets_empty_gradient (SetColor g) = (g = Some [])"
| "sets_empty_gradient _ = False"

definition view_shows ::
  "(string \<Rightarrow> string \<Rightarrow> number \<Rightarrow> string) \<Rightarrow> string \<Rightarrow> number list \<Rightarrow> number \<Rightarrow> number \<Rightarrow>
   editor_view \<Rightarrow> bool" where
  "view_shows mix nan_color P cw ch V \<longleftrightarrow>
     (\<exists>ctx R pre. view_canvas V = Some ctx \<and> editor_renderer (view_params V) = Inr R \<and>
        canvas_width ctx = cw \<and> canvas_height ctx = ch \<and>
        trace ctx = pre @ frame_cmds mix nan_color P R (view_params V) cw ch) \<and>
     map (\<lambda>(k, d). (view_store V ! k, d)) (hex_data (view_map V)) =
       map (\<lambda>h. (h, \<lparr>color = editor_callback mix nan_color P (view_params V) h\<rparr>)) (hexagon_hexes (grid_size (view_params V)))"

subsection \<open>The controls\<close>

lemma canvas_size_handle [simp]:
  "canvas_w (editor_handle ev E) = canvas_w E" "canvas_h (editor_handle ev E) = canvas_h E"
  by (cases ev; simp)+

lemma editor_wf_handle: "editor_wf E \<Longrightarrow> control_value_ok ev \<Longrightarrow> editor_wf (editor_handle ev E)"
  by (cases ev) (auto simp add: editor_wf_def abs_le_iff)

lemma editor_wf_init: "editor_wf (editor_init w h g0)"
  by (simp add: editor_wf_def editor_init_def)

lemma editor_reachable_inv:
  "editor_reachable w h g0 E \<Longrightarrow> editor_wf E \<and> canvas_w E = w \<and> canvas_h E = h"
  by (induction rule: editor_reachable.induct)
     (auto simp add: editor_wf_init editor_wf_handle, simp_all add: editor_init_def)

lemma fold_controls_to:
  "canvas_w T = canvas_w E \<Longrightarrow> canvas_h T = canvas_h E \<Longrightarrow> fold editor_handle (controls_to T) E = T"
  by (cases T, cases E) (simp add: controls_to_def)

lemma editor_layout_regular:
  "editor_wf E \<Longrightarrow>
   preset (orientation (editor_layout E)) \<and> px (size (editor_layout E)) \<noteq> 0 \<and> py (size (editor_layout E)) \<noteq> 0"
  by (cases "orientation_sel E") (auto simp add: editor_layout_def editor_wf_def preset_def)

subsection \<open>The render session\<close>

lemma hex_noise_shape [simp]: "hex_noise P (E\<lparr>shape_sel := s\<rparr>) = hex_noise P E"
  unfolding hex_noise_def editor_layout_def by (simp add: Let_def cong: if_cong)

lemma editor_callback_shape [simp]:
  "editor_callback mix nan_color P (E\<lparr>shape_sel := s\<rparr>) = editor_callback mix nan_color P E"
  unfolding editor_callback_def hex_color_def hex_noise_shape by simp

lemma map_deps_eq:
  assumes "map_deps E' = map_deps E"
  shows "editor_callback mix nan_color P E' = editor_callback mix nan_color P E \<and> grid_size E' = grid_size E"
  using arg_cong [OF assms, of "editor_callback mix nan_color P"] arg_cong [OF assms, of grid_size]
  by (simp add: map_deps_def)

lemma editor_renderer_ok: "gradient E \<noteq> Some [] \<longleftrightarrow> (\<exists>R. editor_renderer E = Inr R)"
  by (cases "gradient E" rule: option.exhaust; cases "the (gradient E)") (simp_all add: editor_renderer_def)

lemma gradient_handle:
  "gradient E \<noteq> Some [] \<Longrightarrow> \<not> sets_empty_gradient ev \<Longrightarrow> gradient (editor_handle ev E) \<noteq> Some []"
  by (cases ev) simp_all

lemma new_entries_consistent:
  "map (\<lambda>(k, d). ((store @ hs) ! k, d)) (new_entries f (length store) hs) = map (\<lambda>h. (h, \<lparr>color = f h\<rparr>)) hs"
proof (induction hs arbitrary: store)
  case Nil
  then show ?case by simp
next
  case (Cons h hs)
  show ?case
    using Cons.IH [of "store @ [h]"] by (simp add: new_entries_Cons)
qed

lemma entries_cmds_consistent:
  assumes "map (\<lambda>(k, d). (store ! k, d)) es = map (\<lambda>h. (h, \<lparr>color = f h\<rparr>)) hs"
  shows "entries_cmds color_of R store sh es =
           concat (map (\<lambda>h. hex_cmds color_of R h (Some \<lparr>color = f h\<rparr>) sh) hs)"
proof -
  have "entries_cmds color_of R store sh es =
      concat (map (\<lambda>(h, d). hex_cmds color_of R h (Some d) sh) (map (\<lambda>(k, d). (store ! k, d)) es))"
    by (simp add: entries_cmds_def case_prod_beta' o_def)
  then show ?thesis by (simp add: assms o_def)
qed

lemma render_map_clear:
  "\<exists>ctx'. render_map color_of R ctx store m sh True = Inr ctx' \<and>
     trace ctx' = trace ctx @ [ClearRect 0 0 (canvas_width ctx) (canvas_height ctx),
                               FillRect (background_color R) 0 0 (canvas_width ctx) (canvas_height ctx)] @
                  entries_cmds color_of R store sh (hex_data m) \<and>
     canvas_width ctx' = canvas_width ctx \<and> canvas_height ctx' = canvas_height ctx"
  using render_entries_eq [of color_of R store sh "hex_data m" "clear_canvas R ctx"]
  by (auto simp add: render_map_def trace_clear_canvas)

lemma editor_commit_shows:
  assumes R: "editor_renderer E = Inr R"
    and c: "map (\<lambda>(k, d). (store ! k, d)) (hex_data m) =
              map (\<lambda>h. (h, \<lparr>color = editor_callback mix nan_color P E h\<rparr>)) (hexagon_hexes (grid_size E))"
  shows "\<exists>V. editor_commit E (Some ctx) (store, m) = Inr V \<and> view_params V = E \<and>
           view_shows mix nan_color P (canvas_width ctx) (canvas_height ctx) V"
proof -
  obtain ctx' where r: "render_map test_data_color R ctx store m (shape_sel E) True = Inr ctx'"
    and t: "trace ctx' = trace ctx @ [ClearRect 0 0 (canvas_width ctx) (canvas_height ctx),
              FillRect (background_color R) 0 0 (canvas_width ctx) (canvas_height ctx)] @
              entries_cmds test_data_color R store (shape_sel E) (hex_data m)"
    and w: "canvas_width ctx' = canvas_width ctx" "canvas_height ctx' = canvas_height ctx"
    using render_map_clear by blast
  have "trace ctx' = trace ctx @ frame_cmds mix nan_color P R E (canvas_width ctx) (canvas_height ctx)"
    unfolding t frame_cmds_def entries_cmds_consistent [OF c] by simp
  then show ?thesis
    using R c w by (auto simp add: editor_commit_def r view_shows_def)
qed


lemma editor_populate_shows:
  "hexagon_hex_map (grid_size E) (editor_callback mix nan_color P E) store = Inr (store', m) \<Longrightarrow>
   map (\<lambda>(k, d). (store' ! k, d)) (hex_data m) =
     map (\<lambda>h. (h, \<lparr>color = editor_callback mix nan_color P E h\<rparr>)) (hexagon_hexes (grid_size E))"
  by (simp add: hexagon_hex_map_Inr new_entries_consistent)

lemma editor_mount_shows:
  assumes "gradient E \<noteq> Some []"
  shows "\<exists>V. editor_mount mix nan_color P E (Some ctx) store = Inr V \<and> view_params V = E \<and>
           view_shows mix nan_color P (canvas_width ctx) (canvas_height ctx) V"
proof -
  obtain R where R: "editor_renderer E = Inr R" using assms editor_renderer_ok by blast
  let ?st = "(store @ hexagon_hexes (grid_size E),
              \<lparr>hex_data = new_entries (editor_callback mix nan_color P E) (length store) (hexagon_hexes (grid_size E))\<rparr>)"
  have pop: "hexagon_hex_map (grid_size E) (editor_callback mix nan_color P E) store = Inr ?st"
    by (rule hexagon_hex_map_eq)
  show ?thesis
    using editor_commit_shows [OF R editor_populate_shows [OF pop], of ctx]
    by (simp add: editor_mount_def pop)
qed

lemma editor_update_shows:
  assumes V: "view_shows mix nan_color P cw ch V" and ev: "\<not> sets_empty_gradient ev"
  shows "\<exists>V'. editor_update mix nan_color P ev V = Inr V' \<and>
           view_params V' = editor_handle ev (view_params V) \<and> view_shows mix nan_color P cw ch V'"
proof (cases "editor_handle ev (view_params V) = view_params V")
  case True
  then show ?thesis using V by (simp add: editor_update_def)
next
  case False
  let ?E = "view_params V" and ?E' = "editor_handle ev (view_params V)"
  obtain ctx R0 pre where c: "view_canvas V = Some ctx" "editor_renderer ?E = Inr R0"
      "canvas_width ctx = cw" "canvas_height ctx = ch"
    and m: "map (\<lambda>(k, d). (view_store V ! k, d)) (hex_data (view_map V)) =
              map (\<lambda>h. (h, \<lparr>color = editor_callback mix nan_color P ?E h\<rparr>)) (hexagon_hexes (grid_size ?E))"
    using V unfolding view_shows_def by blast
  have "gradient ?E' \<noteq> Some []"
    using gradient_handle [OF _ ev] c(2) editor_renderer_ok by blast
  then obtain R where R: "editor_renderer ?E' = Inr R" using editor_renderer_ok by blast
  obtain st where st: "(if map_deps ?E' = map_deps ?E then Inr (view_store V, view_map V)
        else hexagon_hex_map (grid_size ?E') (editor_callback mix nan_color P ?E') (view_store V)) = Inr st"
    and mst: "map (\<lambda>(k, d). (fst st ! k, d)) (hex_data (snd st)) =
        map (\<lambda>h. (h, \<lparr>color = editor_callback mix nan_color P ?E' h\<rparr>)) (hexagon_hexes (grid_size ?E'))"
  proof (cases "map_deps ?E' = map_deps ?E")
    case True
    then show ?thesis using that m map_deps_eq [OF True] by simp
  next
    case False
    let ?st = "(view_store V @ hexagon_hexes (grid_size ?E'),
        \<lparr>hex_data = new_entries (editor_callback mix nan_color P ?E') (length (view_store V))
                       (hexagon_hexes (grid_size ?E'))\<rparr>)"
    have pop: "hexagon_hex_map (grid_size ?E') (editor_callback mix nan_color P ?E') (view_store V) = Inr ?st"
      by (rule hexagon_hex_map_eq)
    show ?thesis using that [of ?st] False pop editor_populate_shows [OF pop] by simp
  qed
  obtain store' m' where st': "st = (store', m')" by fastforce
  obtain V' where "editor_commit ?E' (Some ctx) (store', m') = Inr V'" "view_params V' = ?E'"
      "view_shows mix nan_color P (canvas_width ctx) (canvas_height ctx) V'"
    using editor_commit_shows [OF R mst [unfolded st', simplified], of ctx] by blast
  then show ?thesis
    using False st st' c by (auto simp add: editor_update_def Let_def)
qed

lemma editor_session_shows:
  "view_shows mix nan_color P cw ch V \<Longrightarrow> \<not> list_ex sets_empty_gradient evs \<Longrightarrow>
   \<exists>V'. editor_session mix nan_color P evs V = Inr V' \<and>
     view_params V' = fold editor_handle evs (view_params V) \<and> view_shows mix nan_color P cw ch V'"
proof (induction evs arbitrary: V)
  case Nil
  then show ?case by simp
next
  case (Cons ev evs)
  obtain V1 where "editor_update mix nan_color P ev V = Inr V1"
      "view_params V1 = editor_handle ev (view_params V)" "view_shows mix nan_color P cw ch V1"
    using editor_update_shows [OF Cons.prems(1)] Cons.prems(2) by auto
  then show ?case using Cons.IH [of V1] Cons.prems(2) by auto
qed


subsection \<open>Properties of the editor\<close>

text \<open>
  C4: the memoised editor always shows its current state: mounted on a canvas and
  driven by any sequence of control events, none of which sets an empty gradient,
  the editor never throws, its state is the events applied in order, and the last
  drawing calls on the canvas are one complete frame of that state (the clearing
  pair, then every hex of the hexagon of radius \<open>gridSize\<close> in the colour of the
  current callback), although the map memo is reused whenever only the shape
  changed.
\<close>

theorem editor_session_display:
  assumes "gradient E \<noteq> Some []" "\<not> list_ex sets_empty_gradient evs"
  shows "\<exists>V ctx' R pre. editor_run mix nan_color P E evs (Some ctx) store = Inr V \<and>
           view_params V = fold editor_handle evs E \<and> view_canvas V = Some ctx' \<and>
           editor_renderer (view_params V) = Inr R \<and>
           trace ctx' = pre @ frame_cmds mix nan_color P R (view_params V) (canvas_width ctx) (canvas_height ctx)"
proof -
  obtain V0 where m: "editor_mount mix nan_color P E (Some ctx) store = Inr V0" "view_params V0 = E"
      "view_shows mix nan_color P (canvas_width ctx) (canvas_height ctx) V0"
    using editor_mount_shows [OF assms(1)] by blast
  obtain V where s: "editor_session mix nan_color P evs V0 = Inr V"
      "view_params V = fold editor_handle evs E"
      "view_shows mix nan_color P (canvas_width ctx) (canvas_height ctx) V"
    using editor_session_shows [OF m(3) assms(2)] m(2) by auto
  then show ?thesis
    using m(1) unfolding view_shows_def by (auto simp add: editor_run_def)
qed

theorem editor_session_display_witness:
  "gradient (editor_init 700 700 None) \<noteq> Some [] \<and>
   \<not> list_ex sets_empty_gradient [SetShape Circle, SetGridSize 3] \<and>
   (\<exists>V. editor_run (\<lambda>a b w. a) ''x'' [] (editor_init 700 700 None) [SetShape Circle, SetGridSize 3]
          (Some \<lparr>canvas_width = 700, canvas_height = 700, fill_style = [], stroke_style = [], line_width = 1, trace = []\<rparr>) [] = Inr V \<and>
        grid_size (view_params V) = 3 \<and> shape_sel (view_params V) = Circle)"
  using editor_session_display [of "editor_init 700 700 None" "[SetShape Circle, SetGridSize 3]" "\<lambda>a b w. a" "''x''" "[]"
      "\<lparr>canvas_width = 700, canvas_height = 700, fill_style = [], stroke_style = [], line_width = 1, trace = []\<rparr>" "[]"]
  by (auto simp add: editor_init_def)

text \<open>
  C18: every state the editor reaches from its first render through its controls
  keeps each slider value within its slider's range and the canvas size of the
  props, and its layout (a preset with a hex size of at least 1) makes
  \<open>hexToPixel\<close> invert \<open>pixelToHex\<close> on every pixel.
\<close>

theorem editor_reachable_wf:
  assumes "editor_reachable w h g0 E"
  shows "editor_wf E \<and> canvas_w E = w \<and> canvas_h E = h \<and>
         (\<forall>p. rbind (new_hex (px (pixel_to_hex (editor_layout E) p)) (py (pixel_to_hex (editor_layout E) p)) None)
                (\<lambda>x. Inr (hex_to_pixel (editor_layout E) x)) = Inr p)"
proof -
  have i: "editor_wf E \<and> canvas_w E = w \<and> canvas_h E = h" by (rule editor_reachable_inv [OF assms])
  then have "preset (orientation (editor_layout E)) \<and> px (size (editor_layout E)) \<noteq> 0 \<and>
             py (size (editor_layout E)) \<noteq> 0" by (simp add: editor_layout_regular)
  then show ?thesis using i by (simp add: hex_to_pixel_to_hex)
qed

theorem editor_reachable_wf_witness:
  "editor_reachable 700 700 None (editor_handle (SetHexSize 25) (editor_init 700 700 None)) \<and>
   editor_wf (editor_handle (SetHexSize 25) (editor_init 700 700 None))"
proof -
  have r: "editor_reachable 700 700 None (editor_handle (SetHexSize 25) (editor_init 700 700 None))"
    by (rule editor_reachable.step [OF editor_reachable.init]) simp
  show ?thesis using editor_reachable_wf [OF r] r by simp
qed

end
