(* ===== verification/Shell.thy ===== *)
theory Shell
  imports Prelude
begin

text \<open>
  The application shell: the element trees the React components of
  \<open>src/src/components/layout/nav-bar.tsx\<close> (\<open>Logo\<close>, \<open>NavBar\<close>) and
  \<open>src/src/app/layout.tsx\<close> (\<open>RootLayout\<close>, \<open>metadata\<close>) return, and the build
  configuration of \<open>src/next.config.js\<close>. A JSX element is \<open>Elem tag attributes
  children\<close>, a string child is \<open>Text\<close>, and an interactive widget whose behaviour a
  page models is \<open>Widget\<close> (the type parameter). A component written in the
  repository is replaced by the tree it returns; a component imported from a file
  the repository does not contain (\<open>ThemeToggle\<close>, \<open>ThemeProvider\<close>, the
  \<open>lucide-react\<close> icon) stays an element of its name. The class-name helper
  \<open>cn\<close> of the missing \<open>~/lib/utils\<close> and the class name \<open>next/font\<close> generates
  for the Inter font are parameters.
\<close>

datatype attr_val = AStr string | ANum number | ABool bool

datatype 'w ui = Elem string "(string \<times> attr_val) list" "'w ui list" | Text string | Widget 'w

definition logo :: "'w ui" where
  "logo =
     Elem ''span'' [(''className'', AStr ''flex'')]
       [Elem ''Hexagon'' [] [],
        Elem ''span'' [(''className'', AStr ''ml-2 font-semibold'')] [Text ''Hex Grids'']]"

definition nav_bar :: "'w ui" where
  "nav_bar =
     Elem ''div'' [(''className'', AStr ''sticky w-full px-4 top-0 z-50 h-12 bg-background'')]
       [Elem ''div'' [(''className'', AStr ''flex justify-between items-center w-full h-full'')]
          [logo, Elem ''ThemeToggle'' [] []]]"

record page_metadata =
  meta_title :: string
  meta_description :: string

definition metadata :: page_metadata where
  "metadata = \<lparr>meta_title = ''Ripley - Hex Grids'', meta_description = ''Hexagon Grid Image Generator''\<rparr>"

definition root_layout :: "(string list \<Rightarrow> string) \<Rightarrow> string \<Rightarrow> 'w ui \<Rightarrow> 'w ui" where
  "root_layout cn font_class children =
     Elem ''html'' [(''lang'', AStr ''en'')]
       [Elem ''body'' [(''className'', AStr (cn [font_class, ''min-h-screen'']))]
          [Elem ''ThemeProvider''
             [(''attribute'', AStr ''class''), (''defaultTheme'', AStr ''system''),
              (''enableSystem'', ABool True), (''disableTransitionOnChange'', ABool True)]
             [Elem ''div'' [(''className'', AStr ''min-h-screen'')] [nav_bar, children]]]]"

record next_config =
  output_mode :: string
  base_path :: string
  images_unoptimized :: bool

definition next_config :: next_config where
  "next_config = \<lparr>output_mode = ''export'', base_path = ''/hex-grids'', images_unoptimized = True\<rparr>"

text \<open>
  Traversals of an element tree in document order: its text, its widgets, and the
  attribute lists of the elements of a given tag.
\<close>

fun ui_texts :: "'w ui \<Rightarrow> string list" where
  "ui_texts (Elem t as cs) = concat (map ui_texts cs)"
| "ui_texts (Text s) = [s]"
| "ui_texts (Widget w) = []"

fun ui_widgets :: "'w ui \<Rightarrow> 'w list" where
  "ui_widgets (Elem t as cs) = concat (map ui_widgets cs)"
| "ui_widgets (Text s) = []"
| "ui_widgets (Widget w) = [w]"

fun ui_find :: "string \<Rightarrow> 'w ui \<Rightarrow> (string \<times> attr_val) list list" where
  "ui_find tag (Elem t as cs) = (if t = tag then [as] else []) @ concat (map (ui_find tag) cs)"
| "ui_find tag (Text s) = []"
| "ui_find tag (Widget w) = []"

subsection \<open>Properties of the shell\<close>

lemma nav_bar_content [simp]:
  "ui_texts nav_bar = [''Hex Grids'']" "ui_widgets nav_bar = []"
  "ui_find tag nav_bar =
     (if tag = ''div'' then [[(''className'', AStr ''sticky w-full px-4 top-0 z-50 h-12 bg-background'')],
                             [(''className'', AStr ''flex justify-between items-center w-full h-full'')]] else []) @
     (if tag = ''span'' then [[(''className'', AStr ''flex'')], [(''className'', AStr ''ml-2 font-semibold'')]] else []) @
     (if tag = ''Hexagon'' then [[]] else []) @ (if tag = ''ThemeToggle'' then [[]] else [])"
  by (simp_all add: nav_bar_def logo_def)

text \<open>
  The root layout adds the navigation bar's text (the application name) before the
  page, keeps the page's widgets, and adds exactly one theme toggle and one element
  of each of its wrapper tags, so a page's canvas, controls and texts appear once.
\<close>

lemma root_layout_content:
  "ui_texts (root_layout cn f page) = ''Hex Grids'' # ui_texts page \<and>
   ui_widgets (root_layout cn f page) = ui_widgets page \<and>
   ui_find ''ThemeToggle'' (root_layout cn f page) = [] # ui_find ''ThemeToggle'' page \<and>
   (\<forall>tag. tag \<notin> {''html'', ''body'', ''ThemeProvider'', ''div'', ''span'', ''Hexagon'', ''ThemeToggle''} \<longrightarrow>
      ui_find tag (root_layout cn f page) = ui_find tag page)"
  by (simp add: root_layout_def)

end
