(* ===== verification/EditorView.thy ===== *)
theory EditorView
  imports EditorState Shell
begin

text \<open>
  The element tree \<open>HexEditor\<close> returns (\<open>editor.tsx\<close>, its JSX) as a \<open>control ui\<close>
  of theory \<open>Shell\<close>: the heading, one labelled block per control, and the canvas in a
  card. A \<open>Select\<close> is the element of that name whose children are, in order,
  the widget that carries its \<open>value\<close>, the values of its items and its
  \<open>onValueChange\<close>, then the \<open>SelectTrigger\<close> with the text the code computes for
  it, then the \<open>SelectContent\<close> with one \<open>SelectItem\<close> per item (its \<open>value\<close>
  attribute and its text). Every other control is a widget carrying the props the
  component passes it: a \<open>Slider\<close> its \<open>min\<close>, \<open>max\<close>, \<open>step\<close> (default 1),
  \<open>value\<close> and \<open>onValueChange\<close> (applied to the first value of the array); the
  \<open>ColorPicker\<close> its display props and \<open>onChange\<close>. A handler returns the state
  update it makes, an \<open>editor_event\<close>. The selects store the chosen string and the
  code reads it back with \<open>orientation === 'pointy'\<close> and \<open>shape === 'hexagon'\<close>,
  which is how the handlers map strings to the two choices. The picker's new colour
  string reaches the model through \<open>getGradientObject()\<close>, the parameter
  \<open>gradient_of\<close>. The colour string held in the state is not part of the model.

  \<open>control_accepts\<close> is the contract of the UI library the controls come from:
  a slider emits only values within \<open>[min, max]\<close> on its step grid, a select only
  the value of one of its items, the picker any colour string.
\<close>

datatype ui_value = VNum number | VStr string

datatype control =
    SelectControl string "string list" "string \<Rightarrow> editor_event"
  | SliderControl number number number number "number \<Rightarrow> editor_event"
  | ColorControl "(string \<times> attr_val) list" "string \<Rightarrow> editor_event"

definition orientation_str :: "orientation_choice \<Rightarrow> string" where
  "orientation_str v = (case v of Pointy \<Rightarrow> ''pointy'' | Flat \<Rightarrow> ''flat'')"

definition shape_str :: "shape \<Rightarrow> string" where
  "shape_str v = (case v of Hexagon \<Rightarrow> ''hexagon'' | Circle \<Rightarrow> ''circle'')"

definition control_block :: "(string \<times> attr_val) list \<Rightarrow> string \<Rightarrow> control ui \<Rightarrow> control ui" where
  "control_block attrs label c = Elem ''div'' attrs [Elem ''Label'' [] [Text label], c]"

definition select_elem ::
  "string \<Rightarrow> (string \<Rightarrow> editor_event) \<Rightarrow> string \<Rightarrow> (string \<times> string) list \<Rightarrow> control ui" where
  "select_elem value on_change trigger items =
     Elem ''Select'' []
       [Widget (SelectControl value (map fst items) on_change),
        Elem ''SelectTrigger'' [] [Text trigger],
        Elem ''SelectContent'' [] (map (\<lambda>(v, t). Elem ''SelectItem'' [(''value'', AStr v)] [Text t]) items)]"

definition editor_page :: "(string \<Rightarrow> gradient_stop list option) \<Rightarrow> editor_params \<Rightarrow> control ui" where
  "editor_page gradient_of E =
     Elem ''Fragment'' []
       [Elem ''h1'' [(''className'', AStr ''text-center text-2xl font-bold mb-4'')] [Text ''Hex Map Editor''],
        Elem ''div'' [(''className'', AStr ''flex items-start justify-center w-full h-full'')]
          [Elem ''div'' [(''className'', AStr ''flex flex-col justify-start h-full w-[300px] mr-2'')]
             [control_block [(''className'', AStr ''mb-2'')] ''Orientation''
                (select_elem (orientation_str (orientation_sel E))
                   (\<lambda>v. SetOrientation (if v = ''pointy'' then Pointy else Flat))
                   (if orientation_sel E = Pointy then ''Pointy'' else ''Flat'')
                   [(''flat'', ''Flat''), (''pointy'', ''Pointy'')]),
              control_block [(''className'', AStr ''mb-2'')] ''Shape''
                (select_elem (shape_str (shape_sel E))
                   (\<lambda>v. SetShape (if v = ''hexagon'' then Hexagon else Circle))
                   (if shape_sel E = Hexagon then ''Hexagon'' else ''Circle'')
                   [(''hexagon'', ''Hexagon''), (''circle'', ''Circle'')]),
              control_block [(''className'', AStr ''mb-2'')] ''Grid Size''
                (Widget (SliderControl 0 100 1 (of_int (grid_size E)) (\<lambda>v. SetGridSize \<lfloor>v\<rfloor>))),
              control_block [(''className'', AStr ''mb-2'')] ''Hex Size''
                (Widget (SliderControl 1 25 (1 / 10) (hex_size E) SetHexSize)),
              control_block [(''className'', AStr ''mb-2'')] ''Noise Scale''
                (Widget (SliderControl 0 (3 / 20) (1 / 1000) (noise_scale E) SetNoiseScale)),
              control_block [(''className'', AStr ''mb-2'')] ''Noise Offset X''
                (Widget (SliderControl (- 1000) 1000 1 (noise_offset_x E) SetNoiseOffsetX)),
              control_block [(''className'', AStr ''mb-2'')] ''Noise Offset Y''
                (Widget (SliderControl (- 1000) 1000 1 (noise_offset_y E) SetNoiseOffsetY)),
              control_block [] ''Colors''
                (Widget (ColorControl
                   [(''height'', ANum 200), (''hidePresets'', ABool True), (''hideInputs'', ABool True),
                    (''hideOpacity'', ABool True), (''hideEyeDrop'', ABool True),
                    (''hideAdvancedSliders'', ABool True), (''hideColorGuide'', ABool True),
                    (''hideInputType'', ABool True), (''hideColorTypeBtns'', ABool True),
                    (''hideGradientType'', ABool True), (''hideGradientAngle'', ABool True),
                    (''hideGradientStop'', ABool True)]
                   (\<lambda>s. SetColor (gradient_of s))))],
           Elem ''Card'' [(''className'', AStr ''overflow-hidden'')]
             [Elem ''canvas'' [(''ref'', AStr ''canvasRef''), (''id'', AStr ''hex-editor''),
                               (''width'', ANum (canvas_w E)), (''height'', ANum (canvas_h E))] []]]]"

fun control_accepts :: "control \<Rightarrow> ui_value \<Rightarrow> editor_event option" where
  "control_accepts (SliderControl lo hi st v h) (VNum x) =
     (if lo \<le> x \<and> x \<le> hi \<and> is_int ((x - lo) / st) then Some (h x) else None)"
| "control_accepts (SelectControl v vals h) (VStr s) =
     (if s \<in> set vals then Some (h s) else None)"
| "control_accepts (ColorControl props h) (VStr s) = Some (h s)"
| "control_accepts _ _ = None"

fun control_shows :: "control \<Rightarrow> ui_value option" where
  "control_shows (SliderControl lo hi st v h) = Some (VNum v)"
| "control_shows (SelectControl v vals h) = Some (VStr v)"
| "control_shows (ColorControl props h) = None"

text \<open>
  A user of the page: \<open>ui_run\<close> applies a sequence of interactions, each a control
  of the rendered page (its index among the page's widgets) and a value the user
  gives it; the control's handler turns the value into a state update, and the
  page is rendered again from the new state before the next interaction. A value
  the control cannot emit, or an index past the last control, ends the run with
  \<open>None\<close>.
\<close>

fun ui_run ::
  "(string \<Rightarrow> gradient_stop list option) \<Rightarrow> editor_params \<Rightarrow> (nat \<times> ui_value) list \<Rightarrow> editor_params option" where
  "ui_run gradient_of E [] = Some E"
| "ui_run gradient_of E ((i, x) # xs) =
     (let ws = ui_widgets (editor_page gradient_of E) in
      if i < length ws then
        (case control_accepts (ws ! i) x of
           None \<Rightarrow> None
         | Some ev \<Rightarrow> ui_run gradient_of (editor_handle ev E) xs)
      else None)"


subsection \<open>The controls of the page\<close>

lemma editor_page_widgets:
  "ui_widgets (editor_page gradient_of E) =
     [SelectControl (orientation_str (orientation_sel E)) [''flat'', ''pointy'']
        (\<lambda>v. SetOrientation (if v = ''pointy'' then Pointy else Flat)),
      SelectControl (shape_str (shape_sel E)) [''hexagon'', ''circle'']
        (\<lambda>v. SetShape (if v = ''hexagon'' then Hexagon else Circle)),
      SliderControl 0 100 1 (of_int (grid_size E)) (\<lambda>v. SetGridSize \<lfloor>v\<rfloor>),
      SliderControl 1 25 (1 / 10) (hex_size E) SetHexSize,
      SliderControl 0 (3 / 20) (1 / 1000) (noise_scale E) SetNoiseScale,
      SliderControl (- 1000) 1000 1 (noise_offset_x E) SetNoiseOffsetX,
      SliderControl (- 1000) 1000 1 (noise_offset_y E) SetNoiseOffsetY,
      ColorControl
        [(''height'', ANum 200), (''hidePresets'', ABool True), (''hideInputs'', ABool True),
         (''hideOpacity'', ABool True), (''hideEyeDrop'', ABool True),
         (''hideAdvancedSliders'', ABool True), (''hideColorGuide'', ABool True),
         (''hideInputType'', ABool True), (''hideColorTypeBtns'', ABool True),
         (''hideGradientType'', ABool True), (''hideGradientAngle'', ABool True),
         (''hideGradientStop'', ABool True)]
        (\<lambda>s. SetColor (gradient_of s))]"
  by (simp add: editor_page_def control_block_def select_elem_def)

lemma editor_page_texts:
  "ui_texts (editor_page gradient_of E) =
     [''Hex Map Editor'', ''Orientation'', if orientation_sel E = Pointy then ''Pointy'' else ''Flat'',
      ''Flat'', ''Pointy'', ''Shape'', if shape_sel E = Hexagon then ''Hexagon'' else ''Circle'',
      ''Hexagon'', ''Circle'', ''Grid Size'', ''Hex Size'', ''Noise Scale'',
      ''Noise Offset X'', ''Noise Offset Y'', ''Colors'']"
  by (simp add: editor_page_def control_block_def select_elem_def)

lemma editor_page_canvas:
  "ui_find ''canvas'' (editor_page gradient_of E) =
     [[(''ref'', AStr ''canvasRef''), (''id'', AStr ''hex-editor''),
       (''width'', ANum (canvas_w E)), (''height'', ANum (canvas_h E))]]"
  by (simp add: editor_page_def control_block_def select_elem_def)

lemma accepts_slider [simp]:
  "(\<exists>x. control_accepts (SliderControl lo hi st v h) x = Some ev) \<longleftrightarrow>
   (\<exists>y. lo \<le> y \<and> y \<le> hi \<and> is_int ((y - lo) / st) \<and> h y = ev)"
proof
  assume "\<exists>x. control_accepts (SliderControl lo hi st v h) x = Some ev"
  then obtain x where "control_accepts (SliderControl lo hi st v h) x = Some ev" by blast
  then show "\<exists>y. lo \<le> y \<and> y \<le> hi \<and> is_int ((y - lo) / st) \<and> h y = ev"
    by (cases x) (auto split: if_splits)
next
  assume "\<exists>y. lo \<le> y \<and> y \<le> hi \<and> is_int ((y - lo) / st) \<and> h y = ev"
  then obtain y where "lo \<le> y \<and> y \<le> hi \<and> is_int ((y - lo) / st) \<and> h y = ev" by blast
  then have "control_accepts (SliderControl lo hi st v h) (VNum y) = Some ev" by simp
  then show "\<exists>x. control_accepts (SliderControl lo hi st v h) x = Some ev" ..
qed

lemma accepts_select [simp]:
  "(\<exists>x. control_accepts (SelectControl v vals h) x = Some ev) \<longleftrightarrow> (\<exists>s \<in> set vals. h s = ev)"
proof
  assume "\<exists>x. control_accepts (SelectControl v vals h) x = Some ev"
  then obtain x where "control_accepts (SelectControl v vals h) x = Some ev" by blast
  then show "\<exists>s \<in> set vals. h s = ev" by (cases x) (auto split: if_splits)
next
  assume "\<exists>s \<in> set vals. h s = ev"
  then obtain s where "s \<in> set vals" "h s = ev" by blast
  then have "control_accepts (SelectControl v vals h) (VStr s) = Some ev" by simp
  then show "\<exists>x. control_accepts (SelectControl v vals h) x = Some ev" ..
qed

lemma accepts_color [simp]:
  "(\<exists>x. control_accepts (ColorControl props h) x = Some ev) \<longleftrightarrow> (\<exists>s. h s = ev)"
proof
  assume "\<exists>x. control_accepts (ColorControl props h) x = Some ev"
  then obtain x where "control_accepts (ColorControl props h) x = Some ev" by blast
  then show "\<exists>s. h s = ev" by (cases x) auto
next
  assume "\<exists>s. h s = ev"
  then obtain s where "h s = ev" by blast
  then have "control_accepts (ColorControl props h) (VStr s) = Some ev" by simp
  then show "\<exists>x. control_accepts (ColorControl props h) x = Some ev" ..
qed

lemma is_int_plus_int [simp]: "is_int (x + of_int k) \<longleftrightarrow> is_int x"
proof
  assume "is_int (x + of_int k)"
  then have "is_int (x + of_int k - of_int k)" by (rule is_int_diff) simp
  then show "is_int x" by simp
next
  assume "is_int x"
  then show "is_int (x + of_int k)" using is_int_add [of x "of_int k"] by simp
qed

lemma is_int_plus_1000 [simp]: "is_int (x + 1000) \<longleftrightarrow> is_int x"
  using is_int_plus_int [of x 1000] by simp

lemma grid_slider_values:
  "(\<exists>y. 0 \<le> y \<and> y \<le> 100 \<and> is_int y \<and> \<lfloor>y\<rfloor> = v) \<longleftrightarrow> 0 \<le> v \<and> v \<le> (100::int)"
proof
  assume "\<exists>y. 0 \<le> y \<and> y \<le> 100 \<and> is_int y \<and> \<lfloor>y\<rfloor> = v"
  then obtain y :: real where "0 \<le> y" "y \<le> 100" "\<lfloor>y\<rfloor> = v" by blast
  then show "0 \<le> v \<and> v \<le> 100" by linarith
next
  assume "0 \<le> v \<and> v \<le> 100"
  then have "0 \<le> (of_int v :: real) \<and> of_int v \<le> (100 :: real) \<and> is_int (of_int v) \<and> \<lfloor>of_int v :: real\<rfloor> = v"
    by simp
  then show "\<exists>y. 0 \<le> y \<and> y \<le> 100 \<and> is_int y \<and> \<lfloor>y\<rfloor> = v" by blast
qed


lemma page_accepts_ok:
  assumes "w \<in> set (ui_widgets (editor_page gradient_of E))" "control_accepts w x = Some ev"
  shows "control_value_ok ev"
  using assms by (cases x) (auto simp add: editor_page_widgets split: if_splits)

lemma ui_run_reachable:
  "editor_reachable cw ch g0 E \<Longrightarrow> ui_run gradient_of E xs = Some E' \<Longrightarrow> editor_reachable cw ch g0 E'"
proof (induction gradient_of E xs rule: ui_run.induct)
  case (1 gradient_of E)
  then show ?case by simp
next
  case (2 gradient_of E i x xs)
  let ?ws = "ui_widgets (editor_page gradient_of E)"
  from "2.prems"(2) obtain ev where i: "i < length ?ws" and a: "control_accepts (?ws ! i) x = Some ev"
    and r: "ui_run gradient_of (editor_handle ev E) xs = Some E'"
    by (auto simp add: Let_def split: if_splits option.splits)
  have "control_value_ok ev" using page_accepts_ok [OF nth_mem [OF i] a] .
  with "2.prems"(1) have "editor_reachable cw ch g0 (editor_handle ev E)" by (rule editor_reachable.step)
  then show ?case using "2.IH" [OF refl] i a r by (simp add: Let_def)
qed


subsection \<open>Properties of the page\<close>

text \<open>
  C15: the controls the editor renders emit exactly the events its state machine
  admits: an event comes from some control of the page and some value the control
  can emit if and only if it passes \<open>control_value_ok\<close> (each slider's min, max and
  step) and, for a colour, is a gradient the picker can produce.
\<close>

theorem editor_controls_exact:
  "(\<exists>w \<in> set (ui_widgets (editor_page gradient_of E)). \<exists>x. control_accepts w x = Some ev) \<longleftrightarrow>
   control_value_ok ev \<and> (\<forall>gr. ev = SetColor gr \<longrightarrow> gr \<in> range gradient_of)"
proof (cases ev)
  case (SetOrientation v)
  then show ?thesis by (cases v) (auto simp add: editor_page_widgets)
next
  case (SetShape v)
  then show ?thesis by (cases v) (auto simp add: editor_page_widgets)
next
  case (SetGridSize v)
  then show ?thesis using grid_slider_values [of v] by (auto simp add: editor_page_widgets)
next
  case (SetColor g)
  then show ?thesis by (auto simp add: editor_page_widgets)
qed (auto simp add: editor_page_widgets)

theorem editor_controls_exact_witness:
  "control_value_ok (SetHexSize (5 / 2)) \<and>
   (\<exists>w \<in> set (ui_widgets (editor_page (\<lambda>s. None) (editor_init 700 700 None))). \<exists>x. control_accepts w x = Some (SetHexSize (5 / 2)))"
  using editor_controls_exact [of "\<lambda>s. None" "editor_init 700 700 None" "SetHexSize (5 / 2)"]
  by simp


text \<open>
  C26: the page the application serves, the root layout around the editor, shows
  the state: in document order it reads the application name, the heading, the
  control labels, and in each select's trigger the text of the item whose value
  is the select's current value, followed by the texts of its items; it holds one
  canvas, \<open>hex-editor\<close>, of the size the renderer clears; and for a well-formed
  state every control shows a value it can emit, whose handler leaves the state
  unchanged (so React bails out of the render).
\<close>

theorem app_page_shows_state:
  assumes "editor_wf E"
  shows "ui_texts (root_layout cn font_class (editor_page gradient_of E)) =
           [''Hex Grids'', ''Hex Map Editor'',
            ''Orientation'', the (map_of [(''flat'', ''Flat''), (''pointy'', ''Pointy'')] (orientation_str (orientation_sel E))),
            ''Flat'', ''Pointy'',
            ''Shape'', the (map_of [(''hexagon'', ''Hexagon''), (''circle'', ''Circle'')] (shape_str (shape_sel E))),
            ''Hexagon'', ''Circle'',
            ''Grid Size'', ''Hex Size'', ''Noise Scale'', ''Noise Offset X'', ''Noise Offset Y'', ''Colors''] \<and>
         ui_find ''canvas'' (root_layout cn font_class (editor_page gradient_of E)) =
           [[(''ref'', AStr ''canvasRef''), (''id'', AStr ''hex-editor''),
             (''width'', ANum (canvas_w E)), (''height'', ANum (canvas_h E))]] \<and>
         (\<forall>w \<in> set (ui_widgets (root_layout cn font_class (editor_page gradient_of E))). \<forall>x.
            control_shows w = Some x \<longrightarrow> (\<exists>ev. control_accepts w x = Some ev \<and> editor_handle ev E = E))"
proof -
  have l: "ui_texts (root_layout cn font_class (editor_page gradient_of E)) = ''Hex Grids'' # ui_texts (editor_page gradient_of E)"
    "ui_widgets (root_layout cn font_class (editor_page gradient_of E)) = ui_widgets (editor_page gradient_of E)"
    "ui_find ''canvas'' (root_layout cn font_class (editor_page gradient_of E)) = ui_find ''canvas'' (editor_page gradient_of E)"
    using root_layout_content [of cn font_class "editor_page gradient_of E"] by simp_all
  have w: "editor_wf E" by (rule assms)
  have sel: "orientation_str (orientation_sel E) \<in> {''flat'', ''pointy''} \<and>
      SetOrientation (if orientation_str (orientation_sel E) = ''pointy'' then Pointy else Flat) = SetOrientation (orientation_sel E) \<and>
      shape_str (shape_sel E) \<in> {''hexagon'', ''circle''} \<and>
      SetShape (if shape_str (shape_sel E) = ''hexagon'' then Hexagon else Circle) = SetShape (shape_sel E)"
    by (cases "orientation_sel E"; cases "shape_sel E") (simp_all add: orientation_str_def shape_str_def)
  have "\<forall>w \<in> set (ui_widgets (editor_page gradient_of E)). \<forall>x.
      control_shows w = Some x \<longrightarrow> (\<exists>ev. control_accepts w x = Some ev \<and> editor_handle ev E = E)"
    using w sel by (auto simp add: editor_page_widgets editor_wf_def abs_le_iff)
  moreover have "(if orientation_sel E = Pointy then ''Pointy'' else ''Flat'') =
      the (map_of [(''flat'', ''Flat''), (''pointy'', ''Pointy'')] (orientation_str (orientation_sel E)))"
    "(if shape_sel E = Hexagon then ''Hexagon'' else ''Circle'') =
      the (map_of [(''hexagon'', ''Hexagon''), (''circle'', ''Circle'')] (shape_str (shape_sel E)))"
    by (cases "orientation_sel E"; cases "shape_sel E"; simp add: orientation_str_def shape_str_def)+
  ultimately show ?thesis using l by (simp add: editor_page_texts editor_page_canvas)
qed

theorem app_page_shows_state_witness:
  "editor_wf (editor_init 700 700 None) \<and>
   ui_find ''canvas'' (root_layout (\<lambda>cs. concat cs) ''inter'' (editor_page (\<lambda>s. None) (editor_init 700 700 None))) =
     [[(''ref'', AStr ''canvasRef''), (''id'', AStr ''hex-editor''), (''width'', ANum 700), (''height'', ANum 700)]]"
  using app_page_shows_state [of "editor_init 700 700 None" "\<lambda>cs. concat cs" "''inter''" "\<lambda>s. None"]
  by (simp add: editor_wf_def editor_init_def)

text \<open>
  C22: the rendered controls reach exactly the configurations their ranges allow:
  from every reachable state, a user who gives the page's controls one value each
  (the orientation and shape selects, the five sliders, the colour picker) brings
  the editor to any well-formed target of the same canvas size whose gradient the
  picker can produce; and every state a run of the controls produces is reachable.
\<close>

theorem editor_controls_reach:
  assumes "editor_reachable cw ch g0 E" "editor_wf T" "canvas_w T = cw" "canvas_h T = ch"
    "gradient T \<in> range gradient_of"
  shows "(\<exists>xs. ui_run gradient_of E xs = Some T) \<and>
         (\<forall>xs E'. ui_run gradient_of E xs = Some E' \<longrightarrow> editor_reachable cw ch g0 E')"
proof -
  obtain c where c: "gradient T = gradient_of c" using assms(5) by blast
  have wf: "editor_wf T" by (rule assms(2))
  have e: "canvas_w E = cw" "canvas_h E = ch" using editor_reachable_inv [OF assms(1)] by simp_all
  let ?xs = "[(0, VStr (orientation_str (orientation_sel T))), (1, VStr (shape_str (shape_sel T))),
              (2, VNum (of_int (grid_size T))), (3, VNum (hex_size T)), (4, VNum (noise_scale T)),
              (5, VNum (noise_offset_x T)), (6, VNum (noise_offset_y T)), (7, VStr c)]"
  have o: "(if orientation_str (orientation_sel T) = ''pointy'' then Pointy else Flat) = orientation_sel T \<and>
      orientation_str (orientation_sel T) \<in> {''flat'', ''pointy''} \<and>
      (if shape_str (shape_sel T) = ''hexagon'' then Hexagon else Circle) = shape_sel T \<and>
      shape_str (shape_sel T) \<in> {''hexagon'', ''circle''}"
    by (cases "orientation_sel T"; cases "shape_sel T") (simp_all add: orientation_str_def shape_str_def)
  have "ui_run gradient_of E ?xs = Some (fold editor_handle (controls_to T) E)"
    using wf o c by (simp add: editor_page_widgets editor_wf_def controls_to_def abs_le_iff)
  also have "fold editor_handle (controls_to T) E = T"
    using e assms(3,4) by (simp add: fold_controls_to)
  finally show ?thesis using ui_run_reachable [OF assms(1)] by blast
qed

theorem editor_controls_reach_witness:
  "\<exists>xs. ui_run (\<lambda>s. None) (editor_init 700 700 None) xs =
     Some \<lparr>grid_size = 100, hex_size = 25, orientation_sel = Flat, shape_sel = Circle, noise_scale = 3 / 20,
           noise_offset_x = - 1000, noise_offset_y = 1000, gradient = None, canvas_w = 700, canvas_h = 700\<rparr>"
proof -
  have "editor_wf \<lparr>grid_size = 100, hex_size = 25, orientation_sel = Flat, shape_sel = Circle, noise_scale = 3 / 20,
           noise_offset_x = - 1000, noise_offset_y = 1000, gradient = None, canvas_w = 700, canvas_h = 700\<rparr>"
    by (simp add: editor_wf_def)
  moreover have "(None :: gradient_stop list option) \<in> range (\<lambda>s. None)" by simp
  ultimately show ?thesis
    using editor_controls_reach [OF editor_reachable.init [of 700 700 None], where T = "\<lparr>grid_size = 100, hex_size = 25, orientation_sel = Flat, shape_sel = Circle, noise_scale = 3 / 20,
        noise_offset_x = - 1000, noise_offset_y = 1000, gradient = None, canvas_w = 700, canvas_h = 700\<rparr>"
      and gradient_of = "\<lambda>s. None"]
    by simp
qed

end
