(* ===== verification/Binary64.thy ===== *)
theory Binary64
  imports Hex "HOL-Library.Log_Nat"
begin

text \<open>
  The arithmetic of JavaScript numbers: IEEE 754 binary64 with rounding to nearest,
  ties to even. \<open>f64 x\<close> is the double nearest to the exact value \<open>x\<close>: with
  \<open>e = f64_exp x\<close> the exponent of the binade of \<open>x\<close> (clamped at -1022, the
  subnormal range), the doubles of that binade are the multiples of the unit in the
  last place \<open>2 powi (e - 52)\<close>, and \<open>x\<close> is rounded to the nearest of them. Each
  arithmetic operator and each decimal literal of the source is an exact operation
  followed by \<open>f64\<close>; negation, \<open>Math.abs\<close> and \<open>Math.round\<close> are exact on doubles.
  Overflow to an infinity is not modelled: the values below stay far from
  \<open>2\<^sup>1024\<close>.

  The second group of definitions is the part of \<open>src/src/lib/hex/hex.ts\<close> that
  \<open>linedraw\<close> runs, with every operation rounded: the constructor's check
  \<open>q + r + s !== 0\<close> evaluates \<open>(q + r) + s\<close> in doubles.
\<close>

definition round_ties_even :: "real \<Rightarrow> int" where
  "round_ties_even x =
     (let f = \<lfloor>x\<rfloor>; d = x - of_int f
      in if d < 1 / 2 then f else if 1 / 2 < d then f + 1 else if even f then f else f + 1)"

definition f64_exp :: "real \<Rightarrow> int" where
  "f64_exp x =
     max (- 1022) (if 1 \<le> \<bar>x\<bar> then bitlen \<lfloor>\<bar>x\<bar>\<rfloor> - 1 else - bitlen (\<lceil>1 / \<bar>x\<bar>\<rceil> - 1))"

definition f64 :: "real \<Rightarrow> real" where
  "f64 x = of_int (round_ties_even (x * 2 powi (52 - f64_exp x))) * 2 powi (f64_exp x - 52)"

definition new_hex64 :: "number \<Rightarrow> number \<Rightarrow> number option \<Rightarrow> hex result" where
  "new_hex64 q r s_opt =
     (let s = (case s_opt of None \<Rightarrow> f64 (- q - r) | Some s \<Rightarrow> s)
      in if f64 (f64 (q + r) + s) \<noteq> 0 then Inl InvalidCoordinate else Inr (Hex q r s))"

definition hex_subtract64 :: "hex \<Rightarrow> hex \<Rightarrow> hex result" where
  "hex_subtract64 a b =
     new_hex64 (f64 (hex_q a - hex_q b)) (f64 (hex_r a - hex_r b)) (Some (f64 (hex_s a - hex_s b)))"

definition hex_len64 :: "hex \<Rightarrow> number" where
  "hex_len64 h = f64 (f64 (f64 (\<bar>hex_q h\<bar> + \<bar>hex_r h\<bar>) + \<bar>hex_s h\<bar>) / 2)"

definition hex_distance64 :: "hex \<Rightarrow> hex \<Rightarrow> number result" where
  "hex_distance64 a b = rbind (hex_subtract64 a b) (\<lambda>d. Inr (hex_len64 d))"

definition hex_round64 :: "hex \<Rightarrow> hex result" where
  "hex_round64 h =
     (let qi = js_round (hex_q h); ri = js_round (hex_r h); si = js_round (hex_s h);
          q_diff = \<bar>f64 (qi - hex_q h)\<bar>; r_diff = \<bar>f64 (ri - hex_r h)\<bar>; s_diff = \<bar>f64 (si - hex_s h)\<bar>
      in if q_diff > r_diff \<and> q_diff > s_diff then new_hex64 (f64 (- ri - si)) ri (Some si)
         else if r_diff > s_diff then new_hex64 qi (f64 (- qi - si)) (Some si)
         else new_hex64 qi ri (Some (f64 (- qi - ri))))"

definition lerp64 :: "number \<Rightarrow> number \<Rightarrow> number \<Rightarrow> number" where
  "lerp64 x y t = f64 (f64 (x * f64 (1 - t)) + f64 (y * t))"

definition hex_lerp64 :: "hex \<Rightarrow> hex \<Rightarrow> number \<Rightarrow> hex result" where
  "hex_lerp64 a b t =
     new_hex64 (lerp64 (hex_q a) (hex_q b) t) (lerp64 (hex_r a) (hex_r b) t)
       (Some (lerp64 (hex_s a) (hex_s b) t))"

definition linedraw_step64 :: "hex \<Rightarrow> hex \<Rightarrow> number \<Rightarrow> nat \<Rightarrow> hex result" where
  "linedraw_step64 an bn step i = rbind (hex_lerp64 an bn (f64 (step * of_nat i))) hex_round64"

function linedraw_loop64 :: "hex \<Rightarrow> hex \<Rightarrow> number \<Rightarrow> number \<Rightarrow> nat \<Rightarrow> hex list \<Rightarrow> hex list result" where
  "linedraw_loop64 an bn step n i acc =
     (if of_nat i \<le> n then
        (case linedraw_step64 an bn step i of
           Inl e \<Rightarrow> Inl e
         | Inr h \<Rightarrow> linedraw_loop64 an bn step n (Suc i) (acc @ [h]))
      else Inr acc)"
  by pat_completeness auto
termination
  by (relation "measure (\<lambda>(an, bn, step, n, i, acc). nat (\<lfloor>n\<rfloor> + 1 - int i))")
     (auto simp add: le_floor_iff)

definition hex_nudge64 :: "hex \<Rightarrow> hex result" where
  "hex_nudge64 h =
     new_hex64 (f64 (hex_q h + f64 (1 / 1000000))) (f64 (hex_r h + f64 (1 / 1000000)))
       (Some (f64 (hex_s h - f64 (2 / 1000000))))"

definition hex_linedraw64 :: "hex \<Rightarrow> hex \<Rightarrow> hex list result" where
  "hex_linedraw64 a b =
     rbind (hex_distance64 a b) (\<lambda>n.
     rbind (hex_nudge64 a) (\<lambda>an.
     rbind (hex_nudge64 b) (\<lambda>bn.
       linedraw_loop64 an bn (f64 (1 / max n 1)) n 0 [])))"

declare linedraw_loop64.simps [simp del]

subsection \<open>Rounding\<close>

lemma round_ties_even_dist: "\<bar>of_int (round_ties_even x) - x\<bar> \<le> 1 / 2"
proof -
  have "of_int \<lfloor>x\<rfloor> \<le> x" "x < of_int \<lfloor>x\<rfloor> + 1" by linarith+
  then show ?thesis unfolding round_ties_even_def Let_def by (auto simp add: abs_le_iff)
qed

text \<open>
  \<open>f64\<close> rounds to a multiple of the unit in the last place \<open>2 powi (e - 52)\<close> of
  the binade of its argument, and the error is at most half of that unit.
\<close>

lemma f64_half_ulp:
  "\<bar>f64 x - x\<bar> \<le> 2 powi (f64_exp x - 53) \<and> f64 x = of_int (round_ties_even (x * 2 powi (52 - f64_exp x))) * 2 powi (f64_exp x - 52)"
proof -
  let ?e = "f64_exp x"
  let ?y = "x * 2 powi (52 - ?e)"
  have u: "(2::real) powi (52 - ?e) * 2 powi (?e - 52) = 1"
    by (simp flip: power_int_add)
  have x: "x = ?y * 2 powi (?e - 52)" using u by (simp add: mult.assoc)
  have "f64 x - x = (of_int (round_ties_even ?y) - ?y) * 2 powi (?e - 52)"
    by (subst (2) x) (simp add: f64_def algebra_simps)
  then have "\<bar>f64 x - x\<bar> = \<bar>of_int (round_ties_even ?y) - ?y\<bar> * 2 powi (?e - 52)"
    by (simp add: abs_mult)
  also have "\<dots> \<le> 1 / 2 * 2 powi (?e - 52)"
    by (rule mult_right_mono [OF round_ties_even_dist]) simp
  also have "\<dots> = 2 powi (?e - 53)"
    by (simp add: power_int_diff)
  finally show ?thesis by (simp add: f64_def)
qed

subsection \<open>The line drawing in binary64\<close>

lemma hex_distance64_eq:
  "hex_subtract64 a b = Inr d \<Longrightarrow> hex_len64 d = n \<Longrightarrow> hex_distance64 a b = Inr n"
  by (simp add: hex_distance64_def)

lemma linedraw64_unfold:
  assumes "hex_distance64 a b = Inr n" "hex_nudge64 a = Inr an"
  shows "hex_linedraw64 a b = rbind (hex_nudge64 b) (\<lambda>bn. linedraw_loop64 an bn (f64 (1 / max n 1)) n 0 [])"
  using assms by (simp add: hex_linedraw64_def)

lemma linedraw_loop64_Inl:
  "of_nat i \<le> n \<Longrightarrow> linedraw_step64 an bn step i = Inl e \<Longrightarrow> linedraw_loop64 an bn step n i acc = Inl e"
  by (simp add: linedraw_loop64.simps [of an bn step n i acc])

lemma linedraw_loop64_Inr:
  "of_nat i \<le> n \<Longrightarrow> linedraw_step64 an bn step i = Inr h \<Longrightarrow>
   linedraw_loop64 an bn step n i acc = linedraw_loop64 an bn step n (Suc i) (acc @ [h])"
  by (simp add: linedraw_loop64.simps [of an bn step n i acc])

text \<open>
  C1: \<open>linedraw\<close> throws in the program's arithmetic where the exact algorithm
  draws a line. In binary64 the nudge \<open>new Hex(b.q + 1e-6, b.r + 1e-6, b.s - 2e-6)\<close>
  of \<open>Hex(1, 0, -1)\<close> fails the constructor's check \<open>q + r + s !== 0\<close> (the rounded
  sum is \<open>-2\<^sup>-52\<close>), so \<open>linedraw\<close> from \<open>Hex(0, 0, 0)\<close> to its neighbour
  \<open>Hex(1, 0, -1)\<close> throws \<open>InvalidCoordinate\<close>, although in exact arithmetic it
  returns \<open>[Hex(0, 0, 0), Hex(1, 0, -1)]\<close>; and from \<open>Hex(-3, -3, 6)\<close> to
  \<open>Hex(-3, 1, 2)\<close> both nudges pass but the \<open>lerp\<close> of the loop's second
  iteration fails the same check.
\<close>

theorem linedraw_binary64_throws:
  "hex_nudge64 (Hex 1 0 (- 1)) = Inl InvalidCoordinate \<and>
   hex_linedraw64 (Hex 0 0 0) (Hex 1 0 (- 1)) = Inl InvalidCoordinate \<and>
   hex_linedraw (Hex 0 0 0) (Hex 1 0 (- 1)) = Inr [Hex 0 0 0, Hex 1 0 (- 1)] \<and>
   (\<exists>an bn. hex_nudge64 (Hex (- 3) (- 3) 6) = Inr an \<and> hex_nudge64 (Hex (- 3) 1 2) = Inr bn \<and>
      linedraw_step64 an bn (1 / 4) 1 = Inl InvalidCoordinate) \<and>
   hex_linedraw64 (Hex (- 3) (- 3) 6) (Hex (- 3) 1 2) = Inl InvalidCoordinate"
proof -
  have nb: "hex_nudge64 (Hex 1 0 (- 1)) = Inl InvalidCoordinate" by code_simp
  have d1: "hex_distance64 (Hex 0 0 0) (Hex 1 0 (- 1)) = Inr 1"
    by (rule hex_distance64_eq [of _ _ "Hex (- 1) 0 1"]) code_simp+
  have na: "hex_nudge64 (Hex 0 0 0) =
      Inr (Hex (4722366482869645 / 2 ^ 72) (4722366482869645 / 2 ^ 72) (- 4722366482869645 / 2 ^ 71))"
    by code_simp
  have l1: "hex_linedraw64 (Hex 0 0 0) (Hex 1 0 (- 1)) = Inl InvalidCoordinate"
    using linedraw64_unfold [OF d1 na] nb by simp
  obtain n hs where e: "hex_distance (Hex 0 0 0) (Hex 1 0 (- 1)) = Inr (of_nat n)"
    "hex_linedraw (Hex 0 0 0) (Hex 1 0 (- 1)) = Inr hs" "length hs = n + 1"
    "hd hs = Hex 0 0 0" "last hs = Hex 1 0 (- 1)"
    using hex_linedraw_exact [of "Hex 0 0 0" "Hex 1 0 (- 1)"] by auto
  have "n = 1" using e(1) by (simp add: hex_distance_def hex_subtract_def hex_len_def)
  then obtain x y where "hs = [x, y]" using e(3) by (cases hs; cases "tl hs") auto
  then have ex: "hex_linedraw (Hex 0 0 0) (Hex 1 0 (- 1)) = Inr [Hex 0 0 0, Hex 1 0 (- 1)]"
    using e(2,4,5) by simp
  define an where "an = Hex (- 3377698594627965 / 2 ^ 50) (- 3377698594627965 / 2 ^ 50) (3377698594627965 / 2 ^ 49)"
  define bn where "bn = Hex (- 3377698594627965 / 2 ^ 50) (4503604130970123 / 2 ^ 52) (9007190247541737 / 2 ^ 52)"
  have d2: "hex_distance64 (Hex (- 3) (- 3) 6) (Hex (- 3) 1 2) = Inr 4"
    by (rule hex_distance64_eq [of _ _ "Hex 0 (- 4) 4"]) code_simp+
  have na2: "hex_nudge64 (Hex (- 3) (- 3) 6) = Inr an" unfolding an_def by code_simp
  have nb2: "hex_nudge64 (Hex (- 3) 1 2) = Inr bn" unfolding bn_def by code_simp
  have st: "f64 (1 / 4) = 1 / 4" by code_simp
  have s0: "linedraw_step64 an bn (1 / 4) 0 = Inr (Hex (- 3) (- 3) 6)" unfolding an_def bn_def by code_simp
  have s1: "linedraw_step64 an bn (1 / 4) 1 = Inl InvalidCoordinate" unfolding an_def bn_def by code_simp
  have "linedraw_loop64 an bn (1 / 4) 4 0 [] = Inl InvalidCoordinate"
    using linedraw_loop64_Inr [of 0 4 an bn "1 / 4", OF _ s0] linedraw_loop64_Inl [of 1 4 an bn "1 / 4", OF _ s1]
    by simp
  then have l2: "hex_linedraw64 (Hex (- 3) (- 3) 6) (Hex (- 3) 1 2) = Inl InvalidCoordinate"
    using linedraw64_unfold [OF d2 na2] nb2 st by simp
  show ?thesis using nb l1 ex na2 nb2 s1 l2 by blast
qed

end
