(* ===== verification/Spec2Isabelle.thy ===== *)
theory Spec2Isabelle
  imports Coords EditorView Binary64
begin

text \<open>
  A verification library for the hex-grid engine of this repository and the
  application around it: the cube-coordinate hex algebra, its coordinate conversions,
  the hex/pixel layout, the hex map container and its hexagon-shaped population, the
  noise field, the canvas renderer, the editor component (its colour policy, its
  controls as a state machine, its memoised render session and the page it returns)
  and the application shell. Each part is a theory; this root imports them all and
  states the properties that span parts.

  \<^bold>\<open>The parts and how they interact.\<close> The editor
  (\<open>src/src/components/editor/editor.tsx\<close>) keeps the slider values as React state,
  builds a layout from them, populates a \<open>HexagonHexMap\<close> whose colour callback
  samples \<open>Noise.perlin2\<close> at each hex's pixel centre and mixes gradient stops,
  builds a \<open>HexMapRenderer\<close>, and calls \<open>renderMap\<close> on its canvas, which draws
  each entry's polygon corners. Its page, a heading, eight labelled controls and the
  canvas, is served inside \<open>RootLayout\<close> below the \<open>NavBar\<close>.

  \<^bold>\<open>Theories.\<close>
  \<^item> \<open>Prelude\<close>: JavaScript numbers as exact reals (\<open>number\<close>), thrown errors as the
    \<open>js_error\<close> values of a \<open>'a result\<close>, \<open>Math.round\<close>, \<open>Number.isInteger\<close>, the
    32-bit \<open>&\<close> on \<open>32 word\<close> (\<open>js_and\<close>), array reads that may be \<open>undefined\<close>
    (\<open>js_index\<close>), and the \<open>Point\<close> record (point.ts is not in the repository).
  \<^item> \<open>Format\<close>: the decimal text JavaScript gives an integer below \<open>10\<^sup>21\<close>
    (\<open>int_str\<close>) and a parser for it; the sources' string formatting takes the
    number-to-string conversion as a parameter (\<open>num_str\<close>) assumed to agree with it.
  \<^item> \<open>Hex\<close> (\<open>src/src/lib/hex/hex.ts\<close>): class \<open>Hex\<close> as a datatype with the checked
    constructor \<open>new_hex\<close>, and one definition per method (add, subtract, scale,
    rotations, direction, neighbours, len, distance, round, lerp, linedraw with its loop
    \<open>linedraw_loop\<close> as a terminating recursion), all in exact arithmetic; separately, the mutable object
    \<open>hex_object\<close> with its cached id string, \<open>hash()\<close>, \<open>toString()\<close> and the
    coordinate setters, which no source calls.
  \<^item> \<open>Coords\<close> (\<open>coords.ts\<close>): the offset and doubled coordinate records, their
    equals, hash and toString, and their eight conversions, with the parity guard.
  \<^item> \<open>Layout\<close> (\<open>orientation.ts\<close>, \<open>layout.ts\<close>): the orientation and layout records,
    the two presets, hexToPixel, pixelToHex, hexCornerOffset, polygonCorners.
  \<^item> \<open>HexMap\<close> (\<open>maps/index.ts\<close>, \<open>maps/hexagon-map.ts\<close>): the \<open>Map<Hex, T>\<close> as an
    insertion-ordered association list keyed by object reference, with an explicit store
    of the allocated \<open>Hex\<close> objects (so that key identity is object identity, as in
    JavaScript); the population's two loops as \<open>hexagon_cols\<close>/\<open>hexagon_rows\<close>.
  \<^item> \<open>Noise\<close> (\<open>src/src/lib/noise/noise.ts\<close>): the table initialisation loop
    \<open>perm_init\<close> over the missing sequence \<open>P\<close> (a parameter), \<open>perlin2\<close> with every
    typed-array read checked, \<open>grad2\<close>, \<open>fade\<close>, \<open>lerp\<close>, \<open>octave2\<close> with its loop,
    and \<open>random2\<close> over a stream of random values.
  \<^item> \<open>Renderer\<close> (\<open>renderer.ts\<close>): the canvas as its size, styles and the trace of
    drawing calls; \<open>render_hex\<close>, \<open>render_map\<close> and the forEach as \<open>render_entries\<close>;
    \<open>remap_random\<close>; also \<open>HexMapConfig\<close> of \<open>config.ts\<close>, a record of two callbacks
    with its builders.
  \<^item> \<open>Editor\<close> (\<open>editor.tsx\<close>): the slider state, the layout memo, the colour callback
    (\<open>hex_noise\<close>, \<open>stop_search\<close>, \<open>gradient_color\<close>, \<open>hex_color\<close>) and the
    renderer memo, and the render effect \<open>editor_render\<close> that composes them; the
    colour library's mix, and its result for a NaN weight, are parameters.
  \<^item> \<open>EditorState\<close> (\<open>editor.tsx\<close>): the component as a state machine: the first
    render's state \<open>editor_init\<close>, the change handlers of the seven controls
    (\<open>editor_event\<close>, \<open>editor_handle\<close>) with the values each slider can emit (min,
    max and step, \<open>control_value_ok\<close>), reachability as an inductive predicate, and
    the render session: \<open>editor_mount\<close>, \<open>editor_update\<close> (React's bail-out on an
    unchanged state, the map memo reused while its dependencies \<open>map_deps\<close> are
    unchanged, the renderer memo, the effect with its null-canvas guard),
    \<open>editor_session\<close> over a sequence of events.
  \<^item> \<open>Shell\<close> (\<open>nav-bar.tsx\<close>, \<open>app/layout.tsx\<close>, \<open>next.config.js\<close>): JSX element
    trees (\<open>'w ui\<close>) with their traversals, \<open>Logo\<close>, \<open>NavBar\<close>, \<open>RootLayout\<close>, the
    page metadata and the Next.js configuration.
  \<^item> \<open>EditorView\<close> (\<open>editor.tsx\<close>): the element tree the editor returns, each control
    a widget with its props and its handler as an \<open>editor_event\<close> (a \<open>Select\<close> an
    element holding its widget, its trigger's text and its items), the UI library's
    contract of the values a control can emit (\<open>control_accepts\<close>), and a user
    driving the rendered page (\<open>ui_run\<close>).
  \<^item> \<open>Binary64\<close> (\<open>hex.ts\<close>): JavaScript's number arithmetic as IEEE 754 binary64
    rounding (\<open>f64\<close>, to nearest, ties to even) and, computed with it, the part of
    \<open>Hex\<close> that \<open>linedraw\<close> runs: constructor, subtract, len, distance, the nudge,
    lerp, round and the loop.

  \<^bold>\<open>What is proved.\<close> Binary64: the program's linedraw throws where the exact
  algorithm draws a line (the nudge of \<open>Hex(1, 0, -1)\<close> fails the constructor's
  check, and a lerp of the loop fails it for ends whose nudges pass); in exact
  arithmetic (a lemma of Hex) linedraw between lattice hexes returns distance + 1
  lattice hexes from end to end. Hex: round returns the lattice hex whose hexagonal
  cell contains its input; neighbour distances; rotations; distance is a metric;
  out-of-range directions throw; the lattice is closed under every operation; the
  cached id of a lattice hex parses back to its
  coordinates, so hash and equality agree on constructed hexes, which the setters
  break. Coords: all four round trips with the parity behaviour of the doubled
  conversions, integrality, the parity error, and hashes that parse back. Layout: the
  two transforms are mutually inverse for the presets; neighbouring centres are
  \<open>sqrt 3\<close> sizes apart and diagonal ones 3; the corners form a regular hexagon. HexMap: the population's closed form, its count 3 n^2 + 3 n + 1, that it
  covers exactly the lattice hexes within distance n, each once; keys compare by
  identity (and, as lemmas, the container refines a partial function, keeps distinct
  keys on every reachable map and iterates every entry once in insertion order). Noise: perlin2 never reads out of
  range, stays in [-1, 1] and is zero at lattice points; the table equals its
  duplicated reference; period 256; grad2's selection; fade's shape and derivative;
  octave2's closed form and bound. Renderer: the exact drawing-call trace of
  renderMap. Editor: the gradient extrapolates past
  the last stop. Across parts: the colour callback's noise parameter lies in [0, 1]
  for every populated hex, and the editor's render effect (populate, build the
  renderer, render) either throws the TypeError of an empty gradient or draws one
  filled path per hex of the hexagon, in population order, with the callback's colour.
  EditorState: every reachable state keeps the sliders' values, the canvas size and an
  invertible layout; and the memoised session always ends with one complete frame of
  its current state on the canvas. EditorView: the rendered controls emit exactly the
  events the state machine admits; a user of the rendered page reaches, from every
  reachable state, every configuration the sliders allow, and only reachable states;
  and the served page shows the state, each select's trigger showing the text of its
  selected item and each control's shown value re-emitted leaving the state
  unchanged.

  \<^bold>\<open>Loops and bounds.\<close> Every loop of the code is a \<open>function\<close> with a measure
  (\<open>linedraw_loop\<close> and \<open>linedraw_loop64\<close>: the distance; \<open>hexagon_rows\<close>/\<open>hexagon_cols\<close>: the remaining
  rows and columns; \<open>octave_loop\<close>: the remaining octaves) or a structural recursion,
  so no fuel is needed and each claim that a loop returns is a totality theorem. The
  decimal printer \<open>nat_str\<close> recurses on \<open>n div 10\<close>; the text of integers of
  magnitude \<open>10\<^sup>21\<close> or more (exponent notation) and of non-integers is left to
  the parameter \<open>num_str\<close>.

  \<^bold>\<open>Not modelled.\<close> Floating-point rounding outside \<open>Binary64\<close>: elsewhere numbers
  are exact reals, which agrees with the program on the integer values the other
  theorems are about; \<open>Binary64\<close> leaves out overflow to the infinities. NaN and
  the infinities appear only as the \<open>None\<close> of the computations that produce them.
  The decimal text of non-integer numbers; the pseudo-random values of
  \<open>Math.random\<close> (an input stream of \<open>random2\<close> and \<open>remap_random\<close>); pixels and
  the canvas's handling of invalid colour strings; the colour library, the gradient
  picker's parsing of a colour string and the colour string kept in the editor's
  state; the React scheduler beyond the memo and effect rules above; rendering of the
  element trees to pixels and the components from files the repository lacks
  (\<open>ThemeToggle\<close>, \<open>ThemeProvider\<close>, \<open>cn\<close>), which stay opaque; the \<open>P\<close> sequence
  of the missing \<open>p.ts\<close>, a parameter of every noise theorem (nothing of it but its
  use is in the repository). No property is stated of \<open>HexMapConfig\<close>, which no
  source uses.
\<close>

subsection \<open>Properties spanning components\<close>

text \<open>
  C35: the colour policy the editor passes to \<open>HexagonHexMap\<close> computes, for every
  hex the population creates with a positive grid size, a noise parameter in [0, 1]:
  the table lookup of perlin2 succeeds, its value in [-1, 1] is mapped to [0, 1], and
  the distance fall-off 1 - len / gridSize lies in [0, 1] inside the hexagon.
\<close>

theorem hex_noise_unit_interval:
  assumes "0 < grid_size E" "h \<in> set (hexagon_hexes (grid_size E))"
  shows "\<exists>n. hex_noise P E h = Some n \<and> 0 \<le> n \<and> n \<le> 1"
proof -
  let ?p = "hex_to_pixel (editor_layout E) h"
  obtain v where v: "perlin2 (perm_init P) ((px ?p + noise_offset_x E) * noise_scale E)
      ((py ?p + noise_offset_y E) * noise_scale E) = Some v" "\<bar>v\<bar> \<le> 1"
    using perlin2_range by blast
  have len: "hex_len h \<le> of_int (grid_size E)" using assms(2) by (simp add: set_hexagon_hexes)
  have g: "0 < (of_int (grid_size E) :: real)" using assms(1) by simp
  have l: "0 \<le> 1 - hex_len h / of_int (grid_size E)" "1 - hex_len h / of_int (grid_size E) \<le> 1"
    using len g hex_len_nonneg [of h] by (simp_all add: divide_le_eq_1)
  have n: "0 \<le> v / 2 + 1 / 2" "v / 2 + 1 / 2 \<le> 1" using v(2) by linarith+
  have "hex_noise P E h = Some ((v / 2 + 1 / 2) * (1 - hex_len h / of_int (grid_size E)))"
    using assms(1) v(1) by (simp add: hex_noise_def Let_def)
  then show ?thesis using unit_product [OF n l] by blast
qed

theorem hex_noise_unit_interval_witness:
  "0 < grid_size \<lparr>grid_size = 1, hex_size = 10, orientation_sel = Pointy, shape_sel = Hexagon,
       noise_scale = 1 / 25, noise_offset_x = 0, noise_offset_y = 0, gradient = None,
       canvas_w = 700, canvas_h = 700\<rparr> \<and> Hex 0 0 0 \<in> set (hexagon_hexes (grid_size \<lparr>grid_size = 1, hex_size = 10, orientation_sel = Pointy, shape_sel = Hexagon,
       noise_scale = 1 / 25, noise_offset_x = 0, noise_offset_y = 0, gradient = None,
       canvas_w = 700, canvas_h = 700\<rparr>)) \<and>
   (\<exists>n. hex_noise [] \<lparr>grid_size = 1, hex_size = 10, orientation_sel = Pointy, shape_sel = Hexagon,
       noise_scale = 1 / 25, noise_offset_x = 0, noise_offset_y = 0, gradient = None,
       canvas_w = 700, canvas_h = 700\<rparr> (Hex 0 0 0) = Some n \<and> 0 \<le> n \<and> n \<le> 1)"
proof -
  have h: "Hex 0 0 0 \<in> set (hexagon_hexes 1)"
    by (simp add: set_hexagon_hexes hex_len_def)
  show ?thesis
    using hex_noise_unit_interval [of "\<lparr>grid_size = 1, hex_size = 10, orientation_sel = Pointy, shape_sel = Hexagon,
       noise_scale = 1 / 25, noise_offset_x = 0, noise_offset_y = 0, gradient = None,
       canvas_w = 700, canvas_h = 700\<rparr>" "Hex 0 0 0" "[]"] h by simp
qed

text \<open>
  C33: the editor's render effect, end to end: when the gradient has no stops, building
  the renderer throws a TypeError; otherwise populating the map, building the renderer
  and rendering never throw, and the canvas receives one path and one fill per hex of
  the hexagon of the grid size, in population order, each filled with the colour the
  editor's callback computed for that hex.
\<close>

theorem editor_render_pipeline:
  "(gradient E = Some [] \<longrightarrow> editor_render mix c P E ctx store = Inl TypeError) \<and>
   (gradient E \<noteq> Some [] \<longrightarrow>
     (\<exists>ctx' store' m. editor_render mix c P E ctx store = Inr (ctx', store', m) \<and>
        fills (trace ctx') = fills (trace ctx) @
          map (\<lambda>h. resolve_fill test_data_color (Some \<lparr>color = editor_callback mix c P E h\<rparr>))
            (hexagon_hexes (grid_size E)) \<and>
        paths (trace ctx') = paths (trace ctx) + length (hexagon_hexes (grid_size E))))"
proof (intro conjI impI)
  let ?f = "editor_callback mix c P E"
  let ?hs = "hexagon_hexes (grid_size E)"
  let ?m = "\<lparr>hex_data = new_entries ?f (length store) ?hs\<rparr> :: test_data hex_map"
  have pop: "hexagon_hex_map (grid_size E) ?f store = Inr (store @ ?hs, ?m)"
    by (rule hexagon_hex_map_eq)
  show "gradient E = Some [] \<Longrightarrow> editor_render mix c P E ctx store = Inl TypeError"
    by (simp add: editor_render_def pop editor_renderer_def)
  assume g: "gradient E \<noteq> Some []"
  then obtain R where R: "editor_renderer E = Inr R"
    by (cases "gradient E" rule: option.exhaust) (auto simp add: editor_renderer_def neq_Nil_conv)
  obtain ctx' where r: "render_entries test_data_color R (store @ ?hs) (shape_sel E) (hex_data ?m) (clear_canvas R ctx) = Inr ctx'"
      and t: "trace ctx' = trace (clear_canvas R ctx) @ entries_cmds test_data_color R (store @ ?hs) (shape_sel E) (hex_data ?m)"
    using render_entries_eq by blast
  have "editor_render mix c P E ctx store = Inr (ctx', store @ ?hs, ?m)"
    using r by (simp add: editor_render_def pop R render_map_def)
  moreover have "fills (trace ctx') = fills (trace ctx) @
      map (\<lambda>h. resolve_fill test_data_color (Some \<lparr>color = ?f h\<rparr>)) ?hs"
    using new_entries_payloads [of "\<lambda>d. resolve_fill test_data_color (Some d)" ?f "length store" ?hs]
    by (simp add: t trace_clear_canvas)
  moreover have "paths (trace ctx') = paths (trace ctx) + length ?hs"
    by (simp add: t trace_clear_canvas new_entries_def)
  ultimately show "\<exists>ctx' store' m. editor_render mix c P E ctx store = Inr (ctx', store', m) \<and>
        fills (trace ctx') = fills (trace ctx) @
          map (\<lambda>h. resolve_fill test_data_color (Some \<lparr>color = ?f h\<rparr>)) ?hs \<and>
        paths (trace ctx') = paths (trace ctx) + length ?hs"
    by blast
qed

theorem editor_render_pipeline_witness:
  "gradient \<lparr>grid_size = 1, hex_size = 10, orientation_sel = Pointy, shape_sel = Hexagon,
       noise_scale = 1 / 25, noise_offset_x = 0, noise_offset_y = 0, gradient = None,
       canvas_w = 700, canvas_h = 700\<rparr> \<noteq> Some [] \<and>
   (\<exists>ctx' store' m. editor_render (\<lambda>a b w. a) ''x'' [] \<lparr>grid_size = 1, hex_size = 10, orientation_sel = Pointy, shape_sel = Hexagon,
       noise_scale = 1 / 25, noise_offset_x = 0, noise_offset_y = 0, gradient = None,
       canvas_w = 700, canvas_h = 700\<rparr> \<lparr>canvas_width = 700, canvas_height = 700, fill_style = [], stroke_style = [], line_width = 1, trace = []\<rparr> [] = Inr (ctx', store', m) \<and>
      paths (trace ctx') = 7)"
proof -
  have "length (hexagon_hexes 1) = 7" using length_hexagon_hexes [of 1] by simp
  then show ?thesis
    using editor_render_pipeline [of "\<lparr>grid_size = 1, hex_size = 10, orientation_sel = Pointy, shape_sel = Hexagon,
       noise_scale = 1 / 25, noise_offset_x = 0, noise_offset_y = 0, gradient = None,
       canvas_w = 700, canvas_h = 700\<rparr>" "\<lambda>a b w. a" "''x''" "[]" "\<lparr>canvas_width = 700, canvas_height = 700, fill_style = [], stroke_style = [], line_width = 1, trace = []\<rparr>" "[]"] by auto
qed

end
